theory Spec2Isabelle
  imports Main "HOL-Library.List_Lexorder" "HOL-Library.Char_ord"
begin

section \<open>Data model (src/types/index.ts)\<close>

text \<open>
  JavaScript strings are modelled as \<^typ>\<open>string\<close>, an optional property \<open>p?: T\<close> as
  \<^typ>\<open>'a option\<close> (\<open>None\<close> is the absent key, which is also what a key holding
  \<open>undefined\<close> becomes when the record is written with \<open>JSON.stringify\<close>).
  The cost fields are JavaScript numbers that the modelled code only copies; the records
  are polymorphic in their type \<open>'n\<close>.
\<close>

datatype role = requestor | cmk | ppc | procurement | stores | evaluation | admin

record User =
  user_id :: string
  username :: string
  password :: string
  role :: role
  name :: string

datatype currency = USD | INR | YUAN

text \<open>
  The status literals of \<open>MaterialRequest.status\<close>, and \<open>received\<close>, which
  \<open>StoresModal\<close> writes.
\<close>

datatype status = pending_cmk | approved_trial | approved_pilot | rejected | pending_ppc
  | pending_procurement | ordered | delivered | pending_evaluation | pending_final_cmk
  | completed | received

datatype decision = trial | pilot | decision_rejected

datatype orderType = air | sea

datatype finalDecision = approved | final_rejected

record cmkDecision =
  cmk_decision :: decision
  cmk_reason :: "string option"
  cmk_plant :: "string option"
  quantityRevised :: "string option"
  approvedBy :: string
  approvedAt :: string

record ppcData =
  prNumber :: string
  materialCode :: string
  description :: string
  enteredBy :: string
  enteredAt :: string

record procurementData =
  proc_orderType :: "orderType option"
  proc_estimatedDelivery :: "string option"
  proc_remarks :: "string option"
  deliveredAt :: "string option"
  proc_updatedBy :: string
  proc_updatedAt :: string

record storesData =
  receivedBy :: "string option"
  documents :: "string list option"
  stores_updatedBy :: string
  stores_updatedAt :: string

record evaluationData =
  eval_received :: bool
  completionDate :: "string option"
  report :: "string option"
  eval_updatedBy :: string
  eval_updatedAt :: string

record finalCmkReview =
  final_decision :: finalDecision
  final_reason :: "string option"
  comments :: "string option"
  reviewedBy :: string
  reviewedAt :: string

text \<open>
  \<open>AuditEntryData\<close> is \<open>Omit<AuditEntry, 'id'>\<close>, the argument of
  \<open>addAuditEntry\<close>; \<open>AuditEntry\<close> adds the \<open>id\<close>.
\<close>

record AuditEntryData =
  action :: string
  userId :: string
  timestamp :: string
  details :: string

record AuditEntry = AuditEntryData +
  entry_id :: string

record 'n MaterialRequest =
  req_id :: string
  dateReceived :: string
  materialCategory :: string
  materialDetails :: string
  supplierName :: string
  quantity :: "string option"
  trialAtPlant :: bool
  purpose :: string
  bisRequired :: bool
  bisCost :: "'n option"
  bisCurrency :: "currency option"
  bisCostBorneBy :: "string option"
  bisSplitSupplier :: "'n option"
  bisSplitPremier :: "'n option"
  iecRequired :: bool
  iecCost :: "'n option"
  iecCurrency :: "currency option"
  iecCostBorneBy :: "string option"
  iecSplitSupplier :: "'n option"
  iecSplitPremier :: "'n option"
  status :: status
  requestorId :: string
  plant :: "string option"
  cmkDecision :: "cmkDecision option"
  ppcData :: "ppcData option"
  procurementData :: "procurementData option"
  storesData :: "storesData option"
  evaluationData :: "evaluationData option"
  finalCmkReview :: "finalCmkReview option"
  auditTrail :: "AuditEntry list"

record AppSettings =
  materialCategories :: "string list"
  purposes :: "string list"

section \<open>The local store (utils/storage)\<close>

text \<open>
  \<open>localStorage\<close> holds two keys. \<open>getRequests\<close> reads an absent
  \<open>materialRequests\<close> key as the empty list and nothing else reads the key, so the
  model keeps the list itself. The settings key is optional: \<open>getSettings\<close> reads an
  absent key as the default settings, and \<open>addToDropdown\<close> writes it only when it adds.
  Values are taken to survive the \<open>JSON.stringify\<close>/\<open>JSON.parse\<close> round trip.
\<close>

record 'n storage =
  materialRequests :: "'n MaterialRequest list"
  appSettings :: "AppSettings option"

text \<open>\<open>Array.prototype.findIndex\<close>: \<open>None\<close> stands for the result \<open>-1\<close>.\<close>

fun findIndex :: "('a \<Rightarrow> bool) \<Rightarrow> 'a list \<Rightarrow> nat option" where
  "findIndex P [] = None"
| "findIndex P (x # xs) = (if P x then Some 0 else map_option Suc (findIndex P xs))"

definition getRequests :: "'n storage \<Rightarrow> 'n MaterialRequest list" where
  "getRequests s = materialRequests s"

definition saveRequest :: "'n MaterialRequest \<Rightarrow> 'n storage \<Rightarrow> 'n storage" where
  "saveRequest request s =
     (let requests = getRequests s in
      case findIndex (\<lambda>r. req_id r = req_id request) requests of
        Some existingIndex \<Rightarrow> s\<lparr>materialRequests := requests[existingIndex := request]\<rparr>
      | None \<Rightarrow> s\<lparr>materialRequests := requests @ [request]\<rparr>)"

text \<open>
  The \<open>updates: Partial<MaterialRequest>\<close> argument of \<open>updateRequest\<close> is
  modelled by the function that overwrites the keys it carries, so that
  \<open>{ ...requests[i], ...updates }\<close> is \<open>updates (requests ! i)\<close>.
\<close>

definition updateRequest ::
  "string \<Rightarrow> ('n MaterialRequest \<Rightarrow> 'n MaterialRequest) \<Rightarrow> 'n storage
     \<Rightarrow> 'n MaterialRequest option \<times> 'n storage" where
  "updateRequest i updates s =
     (let requests = getRequests s in
      case findIndex (\<lambda>r. req_id r = i) requests of
        Some requestIndex \<Rightarrow>
          (Some (updates (requests ! requestIndex)),
           s\<lparr>materialRequests := requests[requestIndex := updates (requests ! requestIndex)]\<rparr>)
      | None \<Rightarrow> (None, s))"

text \<open>
  \<open>addAuditEntry\<close>; \<open>genId\<close> is the id it builds from \<open>Date.now()\<close> and
  \<open>Math.random()\<close>, and \<open>with_id entry genId\<close> is \<open>{ ...entry, id: genId }\<close>.
\<close>

definition with_id :: "AuditEntryData \<Rightarrow> string \<Rightarrow> AuditEntry" where
  "with_id entry genId =
     \<lparr>action = action entry, userId = userId entry, timestamp = timestamp entry,
      details = details entry, entry_id = genId\<rparr>"

definition addAuditEntry :: "string \<Rightarrow> AuditEntryData \<Rightarrow> string \<Rightarrow> 'n storage \<Rightarrow> 'n storage" where
  "addAuditEntry requestId entry genId s =
     (case find (\<lambda>r. req_id r = requestId) (getRequests s) of
        Some request \<Rightarrow>
          (let auditEntry = with_id entry genId
           in saveRequest (request\<lparr>auditTrail := auditTrail request @ [auditEntry]\<rparr>) s)
      | None \<Rightarrow> s)"

definition defaultSettings :: AppSettings where
  "defaultSettings =
     \<lparr>materialCategories = [''Cell'', ''Encapsulant'', ''Glass'', ''Junction Box'',
        ''Backsheet'', ''Flux'', ''Sealant'', ''Connector'', ''FG Module''],
      purposes = [''Quality Improvement'', ''Alternate Vendor Development'',
        ''Cost Reduction'', ''Performance Enhancement'']\<rparr>"

definition getSettings :: "'n storage \<Rightarrow> AppSettings" where
  "getSettings s = (case appSettings s of Some settings \<Rightarrow> settings | None \<Rightarrow> defaultSettings)"

definition saveSettings :: "AppSettings \<Rightarrow> 'n storage \<Rightarrow> 'n storage" where
  "saveSettings settings s = s\<lparr>appSettings := Some settings\<rparr>"

datatype dropdown = materialCategories_key | purposes_key

fun dropdown_get :: "dropdown \<Rightarrow> AppSettings \<Rightarrow> string list" where
  "dropdown_get materialCategories_key settings = materialCategories settings"
| "dropdown_get purposes_key settings = purposes settings"

fun dropdown_push :: "dropdown \<Rightarrow> string \<Rightarrow> AppSettings \<Rightarrow> AppSettings" where
  "dropdown_push materialCategories_key v settings =
     settings\<lparr>materialCategories := materialCategories settings @ [v]\<rparr>"
| "dropdown_push purposes_key v settings = settings\<lparr>purposes := purposes settings @ [v]\<rparr>"

definition addToDropdown :: "dropdown \<Rightarrow> string \<Rightarrow> 'n storage \<Rightarrow> 'n storage" where
  "addToDropdown type v s =
     (let settings = getSettings s in
      if v \<notin> set (dropdown_get type settings)
      then saveSettings (dropdown_push type v settings) s
      else s)"

text \<open>Reading one request back: the first stored request with the id.\<close>

definition getRequest :: "string \<Rightarrow> 'n storage \<Rightarrow> 'n MaterialRequest option" where
  "getRequest i s = find (\<lambda>r. req_id r = i) (getRequests s)"

definition emptyStorage :: "'n storage" where
  "emptyStorage = \<lparr>materialRequests = [], appSettings = None\<rparr>"

section \<open>The environment of a handler\<close>

text \<open>
  A handler reads the clock with \<open>new Date().toISOString()\<close>; \<open>now e k\<close> is its
  \<open>k\<close>-th reading in program order. \<open>genId e\<close> is the id that \<open>addAuditEntry\<close>
  generates and \<open>freshId e\<close> the result of \<open>storageUtils.generateId()\<close>.
\<close>

record env =
  now :: "nat \<Rightarrow> string"
  genId :: string
  freshId :: string

datatype variant = default_variant | destructive

record toast =
  title :: string
  toast_description :: string
  variant :: variant

text \<open>
  \<open>String.prototype.trim\<close> on the characters a \<^typ>\<open>char\<close> can hold: tab, line feed,
  vertical tab, form feed, carriage return, space and no-break space.
\<close>

definition isWhiteSpace :: "char \<Rightarrow> bool" where
  "isWhiteSpace c \<longleftrightarrow>
     c \<in> set [CHR 0x09, CHR 0x0A, CHR 0x0B, CHR 0x0C, CHR 0x0D, CHR 0x20, CHR 0xA0]"

definition trim :: "string \<Rightarrow> string" where
  "trim str = rev (dropWhile isWhiteSpace (rev (dropWhile isWhiteSpace str)))"

text \<open>\<open>x || ''\<close> for an optional string.\<close>

fun or_empty :: "string option \<Rightarrow> string" where
  "or_empty None = []"
| "or_empty (Some x) = x"

text \<open>\<open>x || false\<close> for an optional boolean.\<close>

fun or_false :: "bool option \<Rightarrow> bool" where
  "or_false None = False"
| "or_false (Some b) = b"

text \<open>A key of a later spread wins when it is present.\<close>

fun spread_key :: "'a option \<Rightarrow> 'a option \<Rightarrow> 'a option" where
  "spread_key earlier None = earlier"
| "spread_key earlier (Some v) = Some v"

fun decision_str :: "decision \<Rightarrow> string" where
  "decision_str trial = ''trial''"
| "decision_str pilot = ''pilot''"
| "decision_str decision_rejected = ''rejected''"

fun orderType_str :: "orderType option \<Rightarrow> string" where
  "orderType_str None = []"
| "orderType_str (Some air) = ''air''"
| "orderType_str (Some sea) = ''sea''"

text \<open>A length in a template string: the decimal digits of a natural number.\<close>

fun number_str :: "nat \<Rightarrow> string" where
  "number_str n =
     (if n < 10 then [char_of (48 + n)] else number_str (n div 10) @ [char_of (48 + n mod 10)])"

section \<open>CMKReviewModal.handleSubmit\<close>

text \<open>
  The arguments after the user and the \<open>request\<close> property are the component's state:
  \<open>decision\<close>, \<open>plant\<close>, \<open>quantityRevised\<close>, \<open>reason\<close>. The updates object and
  the audit entry of each handler are definitions of their own; the handler returns the
  toast shown, if any, and the store.
\<close>

definition CMK_updatedRequest ::
  "User \<Rightarrow> 'n MaterialRequest \<Rightarrow> decision \<Rightarrow> string \<Rightarrow> string \<Rightarrow> string \<Rightarrow> env
     \<Rightarrow> 'n MaterialRequest \<Rightarrow> 'n MaterialRequest" where
  "CMK_updatedRequest u request dec plant_st quantityRevised_st reason e r =
     r\<lparr>status := (if dec = decision_rejected then rejected else pending_ppc),
       cmkDecision := Some \<lparr>
         cmk_decision = dec,
         cmk_reason = (if dec = decision_rejected then Some reason else None),
         cmk_plant = (if dec \<noteq> decision_rejected then Some plant_st else None),
         quantityRevised =
           (if Some quantityRevised_st \<noteq> quantity request
            then Some quantityRevised_st else None),
         approvedBy = user_id u,
         approvedAt = now e 0\<rparr>,
       plant := (if dec \<noteq> decision_rejected then Some plant_st else None),
       quantity := Some quantityRevised_st\<rparr>"

definition CMK_auditEntry :: "User \<Rightarrow> decision \<Rightarrow> string \<Rightarrow> string \<Rightarrow> env \<Rightarrow> AuditEntryData" where
  "CMK_auditEntry u dec plant_st reason e =
     \<lparr>action = ''CMK '' @ (if dec = decision_rejected then ''Rejected'' else ''Approved'')
        @ '' Request'',
      userId = user_id u,
      timestamp = now e 1,
      details = ''Request ''
        @ (if dec = decision_rejected then ''rejected''
           else ''approved for '' @ decision_str dec)
        @ '' by '' @ name u
        @ (if dec \<noteq> decision_rejected then '' at plant '' @ plant_st else [])
        @ (if reason \<noteq> [] then ''. Reason: '' @ reason else [])\<rparr>"

definition CMKReviewModal_handleSubmit ::
  "User option \<Rightarrow> 'n MaterialRequest \<Rightarrow> decision \<Rightarrow> string \<Rightarrow> string \<Rightarrow> string
     \<Rightarrow> env \<Rightarrow> 'n storage \<Rightarrow> toast option \<times> 'n storage" where
  "CMKReviewModal_handleSubmit user request dec plant_st quantityRevised_st reason e s =
     (case user of
        None \<Rightarrow> (None, s)
      | Some u \<Rightarrow>
          if dec = decision_rejected \<and> trim reason = [] then
            (Some \<lparr>title = ''Reason Required'',
                   toast_description = ''Please provide a reason for rejection.'',
                   variant = destructive\<rparr>, s)
          else if (dec = trial \<or> dec = pilot) \<and> plant_st = [] then
            (Some \<lparr>title = ''Plant Required'',
                   toast_description = ''Please select a plant for the trial/pilot.'',
                   variant = destructive\<rparr>, s)
          else
            let s1 = snd (updateRequest (req_id request)
                       (CMK_updatedRequest u request dec plant_st quantityRevised_st reason e) s);
                s2 = addAuditEntry (req_id request) (CMK_auditEntry u dec plant_st reason e)
                       (genId e) s1
            in (Some \<lparr>title = ''Request '' @ (if dec = decision_rejected then ''Rejected''
                              else ''Approved''),
                      toast_description = ''Material trial request has been ''
                        @ (if dec = decision_rejected then ''rejected''
                           else ''approved for '' @ decision_str dec) @ ''.'',
                      variant = default_variant\<rparr>, s2))"

section \<open>PPCModal.handleSubmit\<close>

text \<open>State: \<open>prNumber\<close>, \<open>materialCode\<close>, \<open>description\<close>.\<close>

definition PPC_updatedRequest ::
  "User \<Rightarrow> string \<Rightarrow> string \<Rightarrow> string \<Rightarrow> env \<Rightarrow> 'n MaterialRequest \<Rightarrow> 'n MaterialRequest" where
  "PPC_updatedRequest u prNumber_st materialCode_st description_st e r =
     r\<lparr>status := pending_procurement,
       ppcData := Some \<lparr>
         prNumber = trim prNumber_st,
         materialCode = trim materialCode_st,
         description = trim description_st,
         enteredBy = user_id u,
         enteredAt = now e 0\<rparr>\<rparr>"

definition PPC_auditEntry :: "User \<Rightarrow> string \<Rightarrow> string \<Rightarrow> env \<Rightarrow> AuditEntryData" where
  "PPC_auditEntry u prNumber_st materialCode_st e =
     \<lparr>action = ''PPC Data Added'',
      userId = user_id u,
      timestamp = now e 1,
      details = ''PR Number: '' @ prNumber_st @ '', Material Code: '' @ materialCode_st
        @ '' added by '' @ name u\<rparr>"

definition PPC_validation_toast :: toast where
  "PPC_validation_toast =
     \<lparr>title = ''All Fields Required'',
      toast_description = ''Please fill in all PPC fields.'',
      variant = destructive\<rparr>"

definition PPCModal_handleSubmit ::
  "User option \<Rightarrow> 'n MaterialRequest \<Rightarrow> string \<Rightarrow> string \<Rightarrow> string
     \<Rightarrow> env \<Rightarrow> 'n storage \<Rightarrow> toast option \<times> 'n storage" where
  "PPCModal_handleSubmit user request prNumber_st materialCode_st description_st e s =
     (case user of
        None \<Rightarrow> (None, s)
      | Some u \<Rightarrow>
          if trim prNumber_st = [] \<or> trim materialCode_st = [] \<or> trim description_st = [] then
            (Some PPC_validation_toast, s)
          else
            let s1 = snd (updateRequest (req_id request)
                       (PPC_updatedRequest u prNumber_st materialCode_st description_st e) s);
                s2 = addAuditEntry (req_id request)
                       (PPC_auditEntry u prNumber_st materialCode_st e) (genId e) s1
            in (Some \<lparr>title = ''PPC Data Added'',
                      toast_description =
                        ''PR number and material code have been recorded successfully.'',
                      variant = default_variant\<rparr>, s2))"

section \<open>ProcurementModal.handleSubmit\<close>

datatype procurementAction = order | deliver

text \<open>
  State: \<open>action\<close> (initially \<open>order\<close>), \<open>orderType\<close> (\<open>None\<close> for the empty
  string, otherwise one of the two items of the select), \<open>estimatedDelivery\<close>,
  \<open>remarks\<close>. The audit entry is added first, the request updated last. Marking delivered
  spreads the \<open>procurementData\<close> of the \<open>request\<close> property.
\<close>

definition order_updatedRequest ::
  "User \<Rightarrow> orderType option \<Rightarrow> string \<Rightarrow> string \<Rightarrow> env
     \<Rightarrow> 'n MaterialRequest \<Rightarrow> 'n MaterialRequest" where
  "order_updatedRequest u orderType_st estimatedDelivery_st remarks_st e r =
     r\<lparr>status := ordered,
       procurementData := Some \<lparr>
         proc_orderType = orderType_st,
         proc_estimatedDelivery = Some estimatedDelivery_st,
         proc_remarks = Some remarks_st,
         deliveredAt = None,
         proc_updatedBy = user_id u,
         proc_updatedAt = now e 0\<rparr>\<rparr>"

definition order_auditEntry :: "User \<Rightarrow> orderType option \<Rightarrow> string \<Rightarrow> env \<Rightarrow> AuditEntryData" where
  "order_auditEntry u orderType_st estimatedDelivery_st e =
     \<lparr>action = ''Material Ordered'',
      userId = user_id u,
      timestamp = now e 1,
      details = ''Order placed via '' @ orderType_str orderType_st
        @ '', estimated delivery: '' @ estimatedDelivery_st @ '' by '' @ name u\<rparr>"

definition deliver_updatedRequest ::
  "User \<Rightarrow> 'n MaterialRequest \<Rightarrow> env \<Rightarrow> 'n MaterialRequest \<Rightarrow> 'n MaterialRequest" where
  "deliver_updatedRequest u request e r =
     r\<lparr>status := delivered,
       procurementData := Some
         (case procurementData request of
            Some p \<Rightarrow> p\<lparr>deliveredAt := Some (now e 0),
                         proc_updatedBy := user_id u,
                         proc_updatedAt := now e 1\<rparr>
          | None \<Rightarrow> \<lparr>proc_orderType = None, proc_estimatedDelivery = None,
                       proc_remarks = None, deliveredAt = Some (now e 0),
                       proc_updatedBy = user_id u,
                       proc_updatedAt = now e 1\<rparr>)\<rparr>"

definition deliver_auditEntry :: "User \<Rightarrow> env \<Rightarrow> AuditEntryData" where
  "deliver_auditEntry u e =
     \<lparr>action = ''Material Delivered'',
      userId = user_id u,
      timestamp = now e 2,
      details = ''Material delivered to factory by '' @ name u\<rparr>"

definition ProcurementModal_handleSubmit ::
  "User option \<Rightarrow> 'n MaterialRequest \<Rightarrow> procurementAction \<Rightarrow> orderType option \<Rightarrow> string
     \<Rightarrow> string \<Rightarrow> env \<Rightarrow> 'n storage \<Rightarrow> toast option \<times> 'n storage" where
  "ProcurementModal_handleSubmit user request act orderType_st estimatedDelivery_st remarks_st e s =
     (case user of
        None \<Rightarrow> (None, s)
      | Some u \<Rightarrow>
          if act = order then
            if orderType_st = None \<or> estimatedDelivery_st = [] then
              (Some \<lparr>title = ''Required Fields Missing'',
                     toast_description =
                       ''Please select order type and estimated delivery date.'',
                     variant = destructive\<rparr>, s)
            else
              let s1 = addAuditEntry (req_id request)
                         (order_auditEntry u orderType_st estimatedDelivery_st e) (genId e) s;
                  s2 = snd (updateRequest (req_id request)
                         (order_updatedRequest u orderType_st estimatedDelivery_st remarks_st e)
                         s1)
              in (Some \<lparr>title = ''Order Placed'',
                        toast_description = ''Material order has been placed successfully.'',
                        variant = default_variant\<rparr>, s2)
          else
            let s1 = addAuditEntry (req_id request) (deliver_auditEntry u e) (genId e) s;
                s2 = snd (updateRequest (req_id request) (deliver_updatedRequest u request e) s1)
            in (Some \<lparr>title = ''Material Delivered'',
                      toast_description = ''Material has been marked as delivered to factory.'',
                      variant = default_variant\<rparr>, s2))"

section \<open>EvaluationModal.handleSubmit\<close>

datatype evaluationAction = receive | report_action

text \<open>
  State: \<open>action\<close> (initially \<open>receive\<close>), \<open>received\<close>, \<open>completionDate\<close>,
  \<open>report\<close>. Both branches read the \<open>evaluationData\<close> of the \<open>request\<close> property.
\<close>

definition receive_updatedRequest ::
  "User \<Rightarrow> 'n MaterialRequest \<Rightarrow> string \<Rightarrow> env \<Rightarrow> 'n MaterialRequest \<Rightarrow> 'n MaterialRequest" where
  "receive_updatedRequest u request completionDate_st e r =
     r\<lparr>status := pending_evaluation,
       evaluationData := Some \<lparr>
         eval_received = True,
         completionDate = Some completionDate_st,
         report = Some (case evaluationData request of
                          Some d \<Rightarrow> or_empty (report d) | None \<Rightarrow> []),
         eval_updatedBy = user_id u,
         eval_updatedAt = now e 0\<rparr>\<rparr>"

definition receive_auditEntry :: "User \<Rightarrow> string \<Rightarrow> env \<Rightarrow> AuditEntryData" where
  "receive_auditEntry u completionDate_st e =
     \<lparr>action = ''Material Received for Evaluation'',
      userId = user_id u,
      timestamp = now e 1,
      details = ''Material received by evaluation team, completion expected: ''
        @ completionDate_st @ '' by '' @ name u\<rparr>"

definition report_updatedRequest ::
  "User \<Rightarrow> 'n MaterialRequest \<Rightarrow> string \<Rightarrow> env \<Rightarrow> 'n MaterialRequest \<Rightarrow> 'n MaterialRequest" where
  "report_updatedRequest u request report_st e r =
     r\<lparr>status := completed,
       evaluationData := Some
         (case evaluationData request of
            Some d \<Rightarrow> d\<lparr>eval_received := True, report := Some report_st,
                         eval_updatedBy := user_id u,
                         eval_updatedAt := now e 0\<rparr>
          | None \<Rightarrow> \<lparr>eval_received = True, completionDate = None,
                       report = Some report_st, eval_updatedBy = user_id u,
                       eval_updatedAt = now e 0\<rparr>)\<rparr>"

definition report_auditEntry :: "User \<Rightarrow> env \<Rightarrow> AuditEntryData" where
  "report_auditEntry u e =
     \<lparr>action = ''Evaluation Report Submitted'',
      userId = user_id u,
      timestamp = now e 1,
      details = ''Evaluation report submitted by '' @ name u\<rparr>"

definition EvaluationModal_handleSubmit ::
  "User option \<Rightarrow> 'n MaterialRequest \<Rightarrow> evaluationAction \<Rightarrow> bool \<Rightarrow> string \<Rightarrow> string
     \<Rightarrow> env \<Rightarrow> 'n storage \<Rightarrow> toast option \<times> 'n storage" where
  "EvaluationModal_handleSubmit user request act received_st completionDate_st report_st e s =
     (case user of
        None \<Rightarrow> (None, s)
      | Some u \<Rightarrow>
          if act = receive then
            if \<not> received_st then
              (Some \<lparr>title = ''Material Receipt Required'',
                     toast_description = ''Please confirm material receipt.'',
                     variant = destructive\<rparr>, s)
            else if completionDate_st = [] then
              (Some \<lparr>title = ''Completion Date Required'',
                     toast_description =
                       ''Please provide tentative evaluation completion date.'',
                     variant = destructive\<rparr>, s)
            else
              let s1 = addAuditEntry (req_id request)
                         (receive_auditEntry u completionDate_st e) (genId e) s;
                  s2 = snd (updateRequest (req_id request)
                         (receive_updatedRequest u request completionDate_st e) s1)
              in (Some \<lparr>title = ''Material Received'',
                        toast_description =
                          ''Material has been marked as received for evaluation.'',
                        variant = default_variant\<rparr>, s2)
          else
            if trim report_st = [] then
              (Some \<lparr>title = ''Report Required'',
                     toast_description = ''Please upload or enter the evaluation report.'',
                     variant = destructive\<rparr>, s)
            else
              let s1 = addAuditEntry (req_id request) (report_auditEntry u e) (genId e) s;
                  s2 = snd (updateRequest (req_id request)
                         (report_updatedRequest u request report_st e) s1)
              in (Some \<lparr>title = ''Evaluation Complete'',
                        toast_description =
                          ''Evaluation report has been submitted successfully.'',
                        variant = default_variant\<rparr>, s2))"

section \<open>StoresModal.handleSubmit and FinalCMKModal.handleSubmit\<close>

text \<open>
  Both add the audit entry and show the success toast only when \<open>updateRequest\<close>
  returned a request. State of the stores modal: \<open>receivedBy\<close>, \<open>documents\<close>.
\<close>

definition stores_updates ::
  "User \<Rightarrow> string \<Rightarrow> string list \<Rightarrow> env \<Rightarrow> 'n MaterialRequest \<Rightarrow> 'n MaterialRequest" where
  "stores_updates u receivedBy_st documents_st e r =
     r\<lparr>status := received,
       storesData := Some \<lparr>
         receivedBy = Some receivedBy_st,
         documents = Some documents_st,
         stores_updatedBy = user_id u,
         stores_updatedAt = now e 0\<rparr>\<rparr>"

definition stores_auditEntry :: "User \<Rightarrow> string \<Rightarrow> string list \<Rightarrow> env \<Rightarrow> AuditEntryData" where
  "stores_auditEntry u receivedBy_st documents_st e =
     \<lparr>action = ''Material Received by Stores'',
      userId = user_id u,
      timestamp = now e 1,
      details = ''Material received by stores and handed over to '' @ receivedBy_st
        @ ''. '' @ number_str (length documents_st) @ '' document(s) uploaded.''\<rparr>"

definition StoresModal_handleSubmit ::
  "User option \<Rightarrow> 'n MaterialRequest \<Rightarrow> string \<Rightarrow> string list
     \<Rightarrow> env \<Rightarrow> 'n storage \<Rightarrow> toast option \<times> 'n storage" where
  "StoresModal_handleSubmit user request receivedBy_st documents_st e s =
     (case user of
        None \<Rightarrow> (None, s)
      | Some u \<Rightarrow>
          if trim receivedBy_st = [] then
            (Some \<lparr>title = ''Error'',
                   toast_description = ''Please select the person who received the material'',
                   variant = destructive\<rparr>, s)
          else if length documents_st = 0 then
            (Some \<lparr>title = ''Error'',
                   toast_description = ''Please upload at least one receiving document'',
                   variant = destructive\<rparr>, s)
          else
            (case updateRequest (req_id request)
                    (stores_updates u receivedBy_st documents_st e) s of
               (Some updatedRequest, s1) \<Rightarrow>
                 (Some \<lparr>title = ''Success'',
                        toast_description = ''Material marked as received successfully'',
                        variant = default_variant\<rparr>,
                  addAuditEntry (req_id request)
                    (stores_auditEntry u receivedBy_st documents_st e) (genId e) s1)
             | (None, s1) \<Rightarrow> (None, s1)))"

text \<open>State of the final review modal: \<open>decision\<close>, \<open>comments\<close>, \<open>reason\<close>.\<close>

definition final_updates ::
  "User \<Rightarrow> finalDecision \<Rightarrow> string \<Rightarrow> string \<Rightarrow> env
     \<Rightarrow> 'n MaterialRequest \<Rightarrow> 'n MaterialRequest" where
  "final_updates u dec comments_st reason e r =
     r\<lparr>finalCmkReview := Some \<lparr>
         final_decision = dec,
         final_reason = (if dec = final_rejected then Some reason else None),
         comments = (if trim comments_st = [] then None else Some (trim comments_st)),
         reviewedBy = user_id u,
         reviewedAt = now e 0\<rparr>,
       status := (if dec = approved then completed else rejected)\<rparr>"

definition final_auditEntry ::
  "User \<Rightarrow> finalDecision \<Rightarrow> string \<Rightarrow> string \<Rightarrow> env \<Rightarrow> AuditEntryData" where
  "final_auditEntry u dec comments_st reason e =
     \<lparr>action = ''Final CMK '' @ (if dec = approved then ''Approval'' else ''Rejection''),
      userId = user_id u,
      timestamp = now e 1,
      details =
        (if dec = approved
         then ''Request finally approved by CMK''
           @ (if comments_st \<noteq> [] then '' with comments: '' @ comments_st else [])
         else ''Request rejected by CMK. Reason: '' @ reason)\<rparr>"

definition FinalCMKModal_handleSubmit ::
  "User option \<Rightarrow> 'n MaterialRequest \<Rightarrow> finalDecision \<Rightarrow> string \<Rightarrow> string
     \<Rightarrow> env \<Rightarrow> 'n storage \<Rightarrow> toast option \<times> 'n storage" where
  "FinalCMKModal_handleSubmit user request dec comments_st reason e s =
     (case user of
        None \<Rightarrow> (None, s)
      | Some u \<Rightarrow>
          if dec = final_rejected \<and> trim reason = [] then
            (Some \<lparr>title = ''Error'',
                   toast_description = ''Please provide a reason for rejection'',
                   variant = destructive\<rparr>, s)
          else
            (case updateRequest (req_id request)
                    (final_updates u dec comments_st reason e) s of
               (Some updatedRequest, s1) \<Rightarrow>
                 (Some \<lparr>title = ''Success'',
                        toast_description = ''Request ''
                          @ (if dec = approved then ''approved'' else ''rejected'')
                          @ '' successfully'',
                        variant = default_variant\<rparr>,
                  addAuditEntry (req_id request)
                    (final_auditEntry u dec comments_st reason e) (genId e) s1)
             | (None, s1) \<Rightarrow> (None, s1)))"

section \<open>RequestModal.handleSubmit\<close>

datatype mode = create | edit | view

text \<open>
  \<open>formData\<close> is a \<open>Partial<MaterialRequest>\<close>; these are the keys that
  \<open>handleSubmit\<close> reads.
\<close>

record 'n formData =
  form_dateReceived :: "string option"
  form_materialCategory :: "string option"
  form_materialDetails :: "string option"
  form_supplierName :: "string option"
  form_quantity :: "string option"
  form_trialAtPlant :: "bool option"
  form_purpose :: "string option"
  form_bisRequired :: "bool option"
  form_bisCost :: "'n option"
  form_bisCostBorneBy :: "string option"
  form_bisSplitSupplier :: "'n option"
  form_bisSplitPremier :: "'n option"
  form_iecRequired :: "bool option"
  form_iecCost :: "'n option"
  form_iecCostBorneBy :: "string option"
  form_iecSplitSupplier :: "'n option"
  form_iecSplitPremier :: "'n option"

text \<open>
  The object literal of \<open>requestData\<close> ends with \<open>...request\<close>. When the
  \<open>request\<close> property is undefined the spread adds nothing; otherwise every key that
  \<open>request\<close> has replaces the value written before it: all the required keys, and each
  optional key that is present.
\<close>

fun spread_request :: "'n MaterialRequest \<Rightarrow> 'n MaterialRequest option \<Rightarrow> 'n MaterialRequest" where
  "spread_request lit None = lit"
| "spread_request lit (Some r) =
     r\<lparr>quantity := spread_key (quantity lit) (quantity r),
       bisCost := spread_key (bisCost lit) (bisCost r),
       bisCurrency := spread_key (bisCurrency lit) (bisCurrency r),
       bisCostBorneBy := spread_key (bisCostBorneBy lit) (bisCostBorneBy r),
       bisSplitSupplier := spread_key (bisSplitSupplier lit) (bisSplitSupplier r),
       bisSplitPremier := spread_key (bisSplitPremier lit) (bisSplitPremier r),
       iecCost := spread_key (iecCost lit) (iecCost r),
       iecCurrency := spread_key (iecCurrency lit) (iecCurrency r),
       iecCostBorneBy := spread_key (iecCostBorneBy lit) (iecCostBorneBy r),
       iecSplitSupplier := spread_key (iecSplitSupplier lit) (iecSplitSupplier r),
       iecSplitPremier := spread_key (iecSplitPremier lit) (iecSplitPremier r),
       plant := spread_key (plant lit) (plant r),
       cmkDecision := spread_key (cmkDecision lit) (cmkDecision r),
       ppcData := spread_key (ppcData lit) (ppcData r),
       procurementData := spread_key (procurementData lit) (procurementData r),
       storesData := spread_key (storesData lit) (storesData r),
       evaluationData := spread_key (evaluationData lit) (evaluationData r),
       finalCmkReview := spread_key (finalCmkReview lit) (finalCmkReview r)\<rparr>"

definition requestData_literal ::
  "User \<Rightarrow> 'n MaterialRequest option \<Rightarrow> 'n formData \<Rightarrow> env \<Rightarrow> 'n MaterialRequest" where
  "requestData_literal u request fd e =
     \<lparr>req_id = (case request of
                  Some r \<Rightarrow> if req_id r \<noteq> [] then req_id r else freshId e
                | None \<Rightarrow> freshId e),
      dateReceived = or_empty (form_dateReceived fd),
      materialCategory = or_empty (form_materialCategory fd),
      materialDetails = or_empty (form_materialDetails fd),
      supplierName = or_empty (form_supplierName fd),
      quantity = form_quantity fd,
      trialAtPlant = or_false (form_trialAtPlant fd),
      purpose = or_empty (form_purpose fd),
      bisRequired = or_false (form_bisRequired fd),
      bisCost = form_bisCost fd,
      bisCurrency = None,
      bisCostBorneBy = form_bisCostBorneBy fd,
      bisSplitSupplier = form_bisSplitSupplier fd,
      bisSplitPremier = form_bisSplitPremier fd,
      iecRequired = or_false (form_iecRequired fd),
      iecCost = form_iecCost fd,
      iecCurrency = None,
      iecCostBorneBy = form_iecCostBorneBy fd,
      iecSplitSupplier = form_iecSplitSupplier fd,
      iecSplitPremier = form_iecSplitPremier fd,
      status = (case request of Some r \<Rightarrow> status r | None \<Rightarrow> pending_cmk),
      requestorId = user_id u,
      plant = None, cmkDecision = None, ppcData = None, procurementData = None,
      storesData = None, evaluationData = None, finalCmkReview = None,
      auditTrail = (case request of Some r \<Rightarrow> auditTrail r | None \<Rightarrow> [])\<rparr>"

text \<open>
  The first two steps of \<open>handleSubmit\<close>: the request that is saved, and the store
  after the custom values have been registered.
\<close>

definition requestData_of ::
  "User \<Rightarrow> 'n MaterialRequest option \<Rightarrow> 'n formData \<Rightarrow> string \<Rightarrow> string \<Rightarrow> env
     \<Rightarrow> 'n MaterialRequest" where
  "requestData_of u request fd customCategory customPurpose e =
     (let requestData = spread_request (requestData_literal u request fd e) request;
          requestData = (if form_materialCategory fd = Some ''Other'' \<and> customCategory \<noteq> []
                         then requestData\<lparr>materialCategory := customCategory\<rparr>
                         else requestData);
          requestData = (if form_purpose fd = Some ''Other'' \<and> customPurpose \<noteq> []
                         then requestData\<lparr>purpose := customPurpose\<rparr>
                         else requestData)
      in requestData)"

definition register_custom_values ::
  "'n formData \<Rightarrow> string \<Rightarrow> string \<Rightarrow> 'n storage \<Rightarrow> 'n storage" where
  "register_custom_values fd customCategory customPurpose s =
     (let s = (if form_materialCategory fd = Some ''Other'' \<and> customCategory \<noteq> []
               then addToDropdown materialCategories_key customCategory s else s);
          s = (if form_purpose fd = Some ''Other'' \<and> customPurpose \<noteq> []
               then addToDropdown purposes_key customPurpose s else s)
      in s)"

definition request_auditEntry :: "User \<Rightarrow> mode \<Rightarrow> env \<Rightarrow> AuditEntryData" where
  "request_auditEntry u md e =
     \<lparr>action = ''Request '' @ (if md = create then ''Created'' else ''Updated''),
      userId = user_id u,
      timestamp = now e 0,
      details = ''Material request '' @ (if md = create then ''created'' else ''updated'')
        @ '' by '' @ name u\<rparr>"

definition RequestModal_handleSubmit ::
  "User option \<Rightarrow> 'n MaterialRequest option \<Rightarrow> mode \<Rightarrow> 'n formData \<Rightarrow> string \<Rightarrow> string
     \<Rightarrow> env \<Rightarrow> 'n storage \<Rightarrow> toast option \<times> 'n storage" where
  "RequestModal_handleSubmit user request md fd customCategory customPurpose e s =
     (case user of
        None \<Rightarrow> (None, s)
      | Some u \<Rightarrow>
          let requestData = requestData_of u request fd customCategory customPurpose e;
              s1 = register_custom_values fd customCategory customPurpose s;
              s2 = saveRequest requestData s1;
              s3 = addAuditEntry (req_id requestData) (request_auditEntry u md e) (genId e) s2
          in (Some \<lparr>title = ''Request '' @ (if md = create then ''Created'' else ''Updated''),
                    toast_description = ''Material trial request has been ''
                      @ (if md = create then ''created'' else ''updated'') @ '' successfully.'',
                    variant = default_variant\<rparr>, s3))"

section \<open>The dashboards\<close>

datatype modal = RequestModal mode | CMKReviewModal | PPCModal | ProcurementModal
  | EvaluationModal | FinalCMKModal

text \<open>
  The dashboard of the simple flow: \<open>handleViewRequest\<close> chooses the modal from the
  role of the user and the status of the request of the row; \<open>handleEditRequest\<close> opens
  the request modal in edit mode for a requestor and does nothing otherwise.
\<close>

definition handleViewRequest :: "User option \<Rightarrow> 'n MaterialRequest \<Rightarrow> modal" where
  "handleViewRequest user request =
     (if map_option role user = Some cmk \<and> status request = pending_cmk then CMKReviewModal
      else if map_option role user = Some ppc \<and> status request = pending_ppc then PPCModal
      else if map_option role user = Some procurement
              \<and> status request \<in> set [pending_procurement, ordered] then ProcurementModal
      else if map_option role user = Some evaluation
              \<and> status request \<in> set [delivered, pending_evaluation] then EvaluationModal
      else RequestModal view)"

definition handleEditRequest :: "User option \<Rightarrow> 'n MaterialRequest \<Rightarrow> modal option" where
  "handleEditRequest user request =
     (if map_option role user = Some requestor then Some (RequestModal edit) else None)"

text \<open>
  The dashboard with the final review (pages/Dashboard.tsx): \<open>handleView\<close>, and
  \<open>handleEdit\<close>, which the table receives only for a requestor.
\<close>

definition handleView :: "User option \<Rightarrow> 'n MaterialRequest \<Rightarrow> modal" where
  "handleView currentUser request =
     (if map_option role currentUser = Some cmk \<and> status request = pending_cmk
        then CMKReviewModal
      else if map_option role currentUser = Some cmk \<and> status request = pending_final_cmk
        then FinalCMKModal
      else if map_option role currentUser = Some ppc \<and> status request = pending_ppc
        then PPCModal
      else if map_option role currentUser = Some procurement
              \<and> (status request = pending_procurement \<or> status request = ordered)
        then ProcurementModal
      else if map_option role currentUser = Some evaluation
              \<and> (status request = delivered \<or> status request = pending_evaluation)
        then EvaluationModal
      else RequestModal view)"

definition handleEdit :: "User option \<Rightarrow> 'n MaterialRequest \<Rightarrow> modal option" where
  "handleEdit currentUser request =
     (if map_option role currentUser = Some requestor then Some (RequestModal edit) else None)"

section \<open>Committed commands\<close>

text \<open>
  \<open>dashboard_opens u r m\<close>: one of the two dashboards opens the modal \<open>m\<close> when the
  user \<open>u\<close> views or edits the request \<open>r\<close> of a row.
\<close>

definition dashboard_opens :: "User \<Rightarrow> 'n MaterialRequest \<Rightarrow> modal \<Rightarrow> bool" where
  "dashboard_opens u r m \<longleftrightarrow>
     handleViewRequest (Some u) r = m \<or> handleView (Some u) r = m
     \<or> handleEditRequest (Some u) r = Some m \<or> handleEdit (Some u) r = Some m"

text \<open>The commands of the workflow, one for each submit of a modal.\<close>

datatype command =
    cmd_create | cmd_edit | cmd_cmk_decide | cmd_ppc_enter | cmd_place_order
  | cmd_mark_delivered | cmd_evaluation_receive | cmd_evaluation_report
  | cmd_stores_receive | cmd_final_review

text \<open>
  \<open>transition s i c q e a s'\<close>: a committed command \<open>c\<close> on the request with id \<open>i\<close>. A
  dashboard has opened a modal on the request \<open>request\<close> of a row of its table
  (\<open>q = Some request\<close>; \<open>q = None\<close> for a new request); the user submits the modal while
  the store is \<open>s\<close>; the handler, run in the environment \<open>e\<close>, reports success, logs the
  audit entry \<open>a\<close> and leaves the store \<open>s'\<close>. The state of the modal is arbitrary.

  The modal keeps the request it was opened on: a handler receives that object as its
  \<open>request\<close> property and does not read the request back from the store, so \<open>request\<close> may
  differ from the record \<open>stored\<close> that the store holds under the same id at the time of the
  submit (the store was written in between from another modal or another tab). The rules
  ask only that a request with that id is stored; nothing in the code removes a request.
  The submit is made on the request as stored when \<open>q = getRequest i s\<close>.

  A new request gets an id that is not stored. No dashboard among the sources opens the
  stores modal, so its rule has no gate.
\<close>

inductive transition ::
  "'n storage \<Rightarrow> string \<Rightarrow> command \<Rightarrow> 'n MaterialRequest option \<Rightarrow> env \<Rightarrow> AuditEntry
     \<Rightarrow> 'n storage \<Rightarrow> bool" where
  create_request:
    "\<lbrakk>role u = requestor; getRequest (freshId e) s = None;
      RequestModal_handleSubmit (Some u) None create fd cc cp e s = (Some t, s');
      variant t = default_variant\<rbrakk>
     \<Longrightarrow> transition s (freshId e) cmd_create None e
           (with_id (request_auditEntry u create e) (genId e)) s'"
| edit_request:
    "\<lbrakk>getRequest (req_id request) s = Some stored;
      dashboard_opens u request (RequestModal edit);
      RequestModal_handleSubmit (Some u) (Some request) edit fd cc cp e s = (Some t, s');
      variant t = default_variant\<rbrakk>
     \<Longrightarrow> transition s (req_id request) cmd_edit (Some request) e
           (with_id (request_auditEntry u edit e) (genId e)) s'"
| cmk_decide:
    "\<lbrakk>getRequest (req_id request) s = Some stored;
      dashboard_opens u request CMKReviewModal;
      CMKReviewModal_handleSubmit (Some u) request dec p qr reason e s = (Some t, s');
      variant t = default_variant\<rbrakk>
     \<Longrightarrow> transition s (req_id request) cmd_cmk_decide (Some request) e
           (with_id (CMK_auditEntry u dec p reason e) (genId e)) s'"
| ppc_enter:
    "\<lbrakk>getRequest (req_id request) s = Some stored;
      dashboard_opens u request PPCModal;
      PPCModal_handleSubmit (Some u) request pr mc d e s = (Some t, s');
      variant t = default_variant\<rbrakk>
     \<Longrightarrow> transition s (req_id request) cmd_ppc_enter (Some request) e
           (with_id (PPC_auditEntry u pr mc e) (genId e)) s'"
| place_order:
    "\<lbrakk>getRequest (req_id request) s = Some stored;
      dashboard_opens u request ProcurementModal;
      ProcurementModal_handleSubmit (Some u) request order ot ed rm e s = (Some t, s');
      variant t = default_variant\<rbrakk>
     \<Longrightarrow> transition s (req_id request) cmd_place_order (Some request) e
           (with_id (order_auditEntry u ot ed e) (genId e)) s'"
| mark_delivered:
    "\<lbrakk>getRequest (req_id request) s = Some stored;
      dashboard_opens u request ProcurementModal;
      ProcurementModal_handleSubmit (Some u) request deliver ot ed rm e s = (Some t, s');
      variant t = default_variant\<rbrakk>
     \<Longrightarrow> transition s (req_id request) cmd_mark_delivered (Some request) e
           (with_id (deliver_auditEntry u e) (genId e)) s'"
| evaluation_receive:
    "\<lbrakk>getRequest (req_id request) s = Some stored;
      dashboard_opens u request EvaluationModal;
      EvaluationModal_handleSubmit (Some u) request receive rc cd rp e s = (Some t, s');
      variant t = default_variant\<rbrakk>
     \<Longrightarrow> transition s (req_id request) cmd_evaluation_receive (Some request) e
           (with_id (receive_auditEntry u cd e) (genId e)) s'"
| evaluation_report:
    "\<lbrakk>getRequest (req_id request) s = Some stored;
      dashboard_opens u request EvaluationModal;
      EvaluationModal_handleSubmit (Some u) request report_action rc cd rp e s = (Some t, s');
      variant t = default_variant\<rbrakk>
     \<Longrightarrow> transition s (req_id request) cmd_evaluation_report (Some request) e
           (with_id (report_auditEntry u e) (genId e)) s'"
| stores_receive:
    "\<lbrakk>getRequest (req_id request) s = Some stored;
      StoresModal_handleSubmit (Some u) request rb docs e s = (Some t, s');
      variant t = default_variant\<rbrakk>
     \<Longrightarrow> transition s (req_id request) cmd_stores_receive (Some request) e
           (with_id (stores_auditEntry u rb docs e) (genId e)) s'"
| final_review:
    "\<lbrakk>getRequest (req_id request) s = Some stored;
      dashboard_opens u request FinalCMKModal;
      FinalCMKModal_handleSubmit (Some u) request fdec cm reason e s = (Some t, s');
      variant t = default_variant\<rbrakk>
     \<Longrightarrow> transition s (req_id request) cmd_final_review (Some request) e
           (with_id (final_auditEntry u fdec cm reason e) (genId e)) s'"

section \<open>Example data\<close>

text \<open>A request with a given id and status.\<close>

definition exampleRequest :: "string \<Rightarrow> status \<Rightarrow> nat MaterialRequest" where
  "exampleRequest i st =
     \<lparr>req_id = i, dateReceived = ''2024-05-01'', materialCategory = ''Cell'',
      materialDetails = ''M10 wafer'', supplierName = ''Acme'', quantity = None,
      trialAtPlant = False, purpose = ''Cost Reduction'',
      bisRequired = False, bisCost = None, bisCurrency = None, bisCostBorneBy = None,
      bisSplitSupplier = None, bisSplitPremier = None,
      iecRequired = False, iecCost = None, iecCurrency = None, iecCostBorneBy = None,
      iecSplitSupplier = None, iecSplitPremier = None,
      status = st, requestorId = ''1'', plant = None,
      cmkDecision = None, ppcData = None, procurementData = None, storesData = None,
      evaluationData = None, finalCmkReview = None, auditTrail = []\<rparr>"

definition exampleStorage :: "nat storage" where
  "exampleStorage =
     \<lparr>materialRequests = [exampleRequest ''a'' pending_cmk, exampleRequest ''b'' pending_ppc],
      appSettings = None\<rparr>"

definition exampleUser :: "role \<Rightarrow> User" where
  "exampleUser rl =
     \<lparr>user_id = ''2'', username = ''user'', password = ''secret'', role = rl,
      name = ''Test User''\<rparr>"

definition exampleEnv :: env where
  "exampleEnv =
     \<lparr>now = (\<lambda>k. ''2024-05-02T10:00:00.000Z''), genId = ''1714644000000k3x9q2m1a'',
      freshId = ''1714644000000p7d4w8z2b''\<rparr>"

definition exampleEntry :: "string \<Rightarrow> AuditEntry" where
  "exampleEntry ts =
     \<lparr>action = ''Request Created'', userId = ''1'', timestamp = ts,
      details = ''Material request created by Praful Kumar'',
      entry_id = ''1714557600000a1b2c3d4e''\<rparr>"

definition exampleForm :: "nat formData" where
  "exampleForm =
     \<lparr>form_dateReceived = Some ''2024-05-01'', form_materialCategory = Some ''Cell'',
      form_materialDetails = Some ''M10 wafer'', form_supplierName = Some ''Acme'',
      form_quantity = None, form_trialAtPlant = Some False,
      form_purpose = Some ''Cost Reduction'', form_bisRequired = Some False,
      form_bisCost = None, form_bisCostBorneBy = None, form_bisSplitSupplier = None,
      form_bisSplitPremier = None, form_iecRequired = Some False, form_iecCost = None,
      form_iecCostBorneBy = None, form_iecSplitSupplier = None,
      form_iecSplitPremier = None\<rparr>"

text \<open>A stored request with one audit entry, and a store that holds only that request.\<close>

definition storedExample :: "string \<Rightarrow> status \<Rightarrow> string \<Rightarrow> nat MaterialRequest" where
  "storedExample i st ts = (exampleRequest i st)\<lparr>auditTrail := [exampleEntry ts]\<rparr>"

definition storageWith :: "string \<Rightarrow> status \<Rightarrow> string \<Rightarrow> nat storage" where
  "storageWith i st ts = \<lparr>materialRequests = [storedExample i st ts], appSettings = None\<rparr>"

text \<open>
  A request that CMK has approved for a trial: its trail holds the entry of the creation
  and the entry of the decision.
\<close>

definition exampleDecisionEntry :: "string \<Rightarrow> AuditEntry" where
  "exampleDecisionEntry ts =
     \<lparr>action = ''CMK Approved Request'', userId = ''2'', timestamp = ts,
      details = ''Request approved for trial by Test User at plant P2'',
      entry_id = ''1714568400000f5g6h7i8j''\<rparr>"

definition approvedExample :: "string \<Rightarrow> string \<Rightarrow> string \<Rightarrow> nat MaterialRequest" where
  "approvedExample i ts ts' =
     (exampleRequest i pending_ppc)
       \<lparr>plant := Some ''P2'', auditTrail := [exampleEntry ts, exampleDecisionEntry ts']\<rparr>"

section \<open>Lists and the store\<close>

lemma findIndex_Some_iff:
  "findIndex P xs = Some i \<longleftrightarrow> i < length xs \<and> P (xs ! i) \<and> (\<forall>j<i. \<not> P (xs ! j))"
proof (induction xs arbitrary: i)
  case Nil
  show ?case by simp
next
  case (Cons x xs)
  show ?case
  proof (cases "P x")
    case True
    then show ?thesis by (cases i) auto
  next
    case False
    show ?thesis
    proof (cases i)
      case 0
      with False show ?thesis by simp
    next
      case (Suc k)
      have "(\<forall>j<Suc k. \<not> P ((x # xs) ! j)) \<longleftrightarrow> (\<forall>j<k. \<not> P (xs ! j))"
        using False by (auto simp: less_Suc_eq_0_disj)
      with False Suc Cons.IH [of k] show ?thesis by auto
    qed
  qed
qed

lemma findIndex_None_iff: "findIndex P xs = None \<longleftrightarrow> (\<forall>x\<in>set xs. \<not> P x)"
  by (induction xs) auto

lemma find_findIndex:
  "find P xs = (case findIndex P xs of Some i \<Rightarrow> Some (xs ! i) | None \<Rightarrow> None)"
  by (induction xs) (auto split: option.splits)

lemma findIndex_update_same:
  assumes "findIndex P xs = Some i" and "P y"
  shows "findIndex P (xs[i := y]) = Some i"
  using assms by (auto simp: findIndex_Some_iff)

lemma findIndex_update_other:
  assumes "findIndex P xs = Some i" and "\<not> Q (xs ! i)" and "\<not> Q y"
  shows "findIndex Q (xs[i := y]) = findIndex Q xs"
proof (cases "findIndex Q xs")
  case None
  then have "\<forall>x\<in>set (xs[i := y]). \<not> Q x"
    using assms(3) by (auto simp: findIndex_None_iff dest!: set_update_subset_insert [THEN subsetD])
  then have "findIndex Q (xs[i := y]) = None"
    by (simp add: findIndex_None_iff)
  with None show ?thesis by simp
next
  case (Some k)
  then have k: "k < length xs" "Q (xs ! k)" "\<forall>j<k. \<not> Q (xs ! j)"
    by (auto simp: findIndex_Some_iff)
  with assms have "k \<noteq> i" by auto
  have "i < length xs"
    using assms(1) by (simp add: findIndex_Some_iff)
  then have nth: "xs[i := y] ! j = (if i = j then y else xs ! j)" for j
    by (simp add: nth_list_update)
  from k \<open>k \<noteq> i\<close> assms(3) have "findIndex Q (xs[i := y]) = Some k"
    by (auto simp: findIndex_Some_iff nth)
  with Some show ?thesis by simp
qed

lemma distinct_map_update:
  assumes "distinct (map f xs)" and "i < length xs" and "f y = f (xs ! i)"
  shows "distinct (map f (xs[i := y]))"
proof -
  have "map f (xs[i := y]) = map f xs"
    using assms(2,3) by (simp add: map_update list_update_same_conv)
  with assms(1) show ?thesis by simp
qed

lemma saveRequest_distinct:
  assumes "distinct (map req_id (getRequests s))"
  shows "distinct (map req_id (getRequests (saveRequest r s)))"
proof (cases "findIndex (\<lambda>x. req_id x = req_id r) (getRequests s)")
  case None
  then have "req_id r \<notin> set (map req_id (getRequests s))"
    by (auto simp: findIndex_None_iff)
  with None assms show ?thesis
    by (simp add: saveRequest_def getRequests_def)
next
  case (Some i)
  then have "i < length (getRequests s)" "req_id r = req_id (getRequests s ! i)"
    by (auto simp: findIndex_Some_iff)
  with assms have "distinct (map req_id ((getRequests s)[i := r]))"
    by (rule distinct_map_update)
  with Some show ?thesis
    by (simp add: saveRequest_def getRequests_def)
qed

lemma fold_saveRequest_distinct:
  "distinct (map req_id (getRequests s)) \<Longrightarrow>
   distinct (map req_id (getRequests (fold saveRequest rs s)))"
  by (induction rs arbitrary: s) (simp_all add: saveRequest_distinct)

section \<open>Reading a request back\<close>

lemma find_update_same:
  assumes "findIndex P xs = Some i" and "P y"
  shows "find P (xs[i := y]) = Some y"
proof -
  from assms(1) have "i < length xs" by (simp add: findIndex_Some_iff)
  with findIndex_update_same [OF assms] show ?thesis
    by (simp add: find_findIndex)
qed

lemma find_update_other:
  assumes "findIndex P xs = Some i" and "\<not> Q (xs ! i)" and "\<not> Q y"
  shows "find Q (xs[i := y]) = find Q xs"
proof -
  have i: "i < length xs" using assms(1) by (simp add: findIndex_Some_iff)
  have "findIndex Q xs \<noteq> Some i"
    using assms(2) by (auto simp: findIndex_Some_iff)
  then show ?thesis
    using findIndex_update_other [OF assms] i
    by (auto simp: find_findIndex nth_list_update split: option.splits)
qed

lemma find_append_case:
  "find P (xs @ ys) = (case find P xs of None \<Rightarrow> find P ys | Some x \<Rightarrow> Some x)"
  by (induction xs) auto

lemma getRequest_req_id: "getRequest i s = Some r \<Longrightarrow> req_id r = i"
  by (auto simp: getRequest_def find_Some_iff)

lemma getRequest_findIndex:
  "getRequest i s = (case findIndex (\<lambda>r. req_id r = i) (getRequests s) of
      Some k \<Rightarrow> Some (getRequests s ! k) | None \<Rightarrow> None)"
  by (simp add: getRequest_def find_findIndex)

lemma getRequest_saveRequest:
  "getRequest j (saveRequest r s) = (if j = req_id r then Some r else getRequest j s)"
proof (cases "findIndex (\<lambda>x. req_id x = req_id r) (getRequests s)")
  case None
  then have "\<forall>x\<in>set (getRequests s). req_id x \<noteq> req_id r"
    by (simp add: findIndex_None_iff)
  then have "find (\<lambda>x. req_id x = req_id r) (getRequests s) = None"
    by (simp add: find_None_iff)
  with None show ?thesis
    by (auto simp: saveRequest_def getRequest_def getRequests_def find_append_case split: option.splits)
next
  case (Some k)
  then have k: "req_id (getRequests s ! k) = req_id r"
    by (simp add: findIndex_Some_iff)
  show ?thesis
  proof (cases "j = req_id r")
    case True
    with Some find_update_same [OF Some, of r] show ?thesis
      by (simp add: saveRequest_def getRequest_def getRequests_def)
  next
    case False
    with k have "find (\<lambda>x. req_id x = j) ((getRequests s)[k := r])
        = find (\<lambda>x. req_id x = j) (getRequests s)"
      by (intro find_update_other [OF Some]) auto
    with Some False show ?thesis
      by (simp add: saveRequest_def getRequest_def getRequests_def)
  qed
qed

lemma updateRequest_None:
  "getRequest i s = None \<Longrightarrow> updateRequest i f s = (None, s)"
  by (simp add: updateRequest_def Let_def getRequest_findIndex split: option.splits)

lemma updateRequest_Some:
  assumes "getRequest i s = Some r"
  shows "fst (updateRequest i f s) = Some (f r)"
  using assms by (simp add: updateRequest_def Let_def getRequest_findIndex split: option.splits)

lemma getRequest_updateRequest:
  assumes "\<And>x. req_id (f x) = req_id x"
  shows "getRequest j (snd (updateRequest i f s))
     = (if j = i then map_option f (getRequest i s) else getRequest j s)"
proof (cases "findIndex (\<lambda>x. req_id x = i) (getRequests s)")
  case None
  then show ?thesis
    by (simp add: updateRequest_def Let_def getRequest_findIndex)
next
  case (Some k)
  then have k: "req_id (getRequests s ! k) = i"
    by (simp add: findIndex_Some_iff)
  from Some have g: "getRequest i s = Some (getRequests s ! k)"
    by (simp add: getRequest_findIndex)
  let ?y = "f (getRequests s ! k)"
  have y: "req_id ?y = i" using k assms by simp
  have upd: "getRequests (snd (updateRequest i f s)) = (getRequests s)[k := ?y]"
    using Some by (simp add: updateRequest_def Let_def getRequests_def)
  show ?thesis
  proof (cases "j = i")
    case True
    from find_update_same [OF Some, of ?y] y
    have "find (\<lambda>x. req_id x = i) ((getRequests s)[k := ?y]) = Some ?y"
      by simp
    with True g upd show ?thesis
      by (simp add: getRequest_def)
  next
    case False
    with k y have "find (\<lambda>x. req_id x = j) ((getRequests s)[k := ?y])
        = find (\<lambda>x. req_id x = j) (getRequests s)"
      by (intro find_update_other [OF Some]) auto
    with False upd show ?thesis
      by (simp add: getRequest_def)
  qed
qed

lemma getRequest_addAuditEntry:
  "getRequest j (addAuditEntry i en g s)
     = (if j = i
        then map_option (\<lambda>r. r\<lparr>auditTrail := auditTrail r @ [with_id en g]\<rparr>) (getRequest i s)
        else getRequest j s)"
proof (cases "getRequest i s")
  case None
  then show ?thesis by (simp add: addAuditEntry_def getRequest_def)
next
  case (Some r)
  then have "req_id r = i" by (rule getRequest_req_id)
  with Some show ?thesis
    by (simp add: addAuditEntry_def getRequest_def [symmetric] getRequest_saveRequest)
qed

lemma appSettings_saveRequest: "appSettings (saveRequest r s) = appSettings s"
  by (simp add: saveRequest_def Let_def split: option.splits)

lemma appSettings_updateRequest: "appSettings (snd (updateRequest i f s)) = appSettings s"
  by (simp add: updateRequest_def Let_def split: option.splits)

lemma appSettings_addAuditEntry: "appSettings (addAuditEntry i en g s) = appSettings s"
  by (simp add: addAuditEntry_def Let_def appSettings_saveRequest split: option.splits)

lemma getRequest_addToDropdown: "getRequest j (addToDropdown t v s) = getRequest j s"
  by (simp add: addToDropdown_def Let_def saveSettings_def getRequest_def getRequests_def)

lemma getRequest_register_custom_values:
  "getRequest j (register_custom_values fd cc cp s) = getRequest j s"
  by (simp add: register_custom_values_def Let_def getRequest_addToDropdown)

section \<open>What each handler leaves in the store\<close>

lemma req_id_updates [simp]:
  "req_id (CMK_updatedRequest u request dec p q reason e r) = req_id r"
  "req_id (PPC_updatedRequest u pr mc d e r) = req_id r"
  "req_id (order_updatedRequest u ot ed rm e r) = req_id r"
  "req_id (deliver_updatedRequest u request e r) = req_id r"
  "req_id (receive_updatedRequest u request cd e r) = req_id r"
  "req_id (report_updatedRequest u request rp e r) = req_id r"
  "req_id (stores_updates u rb docs e r) = req_id r"
  "req_id (final_updates u fdec cm reason e r) = req_id r"
  by (simp_all add: CMK_updatedRequest_def PPC_updatedRequest_def order_updatedRequest_def
      deliver_updatedRequest_def receive_updatedRequest_def report_updatedRequest_def
      stores_updates_def final_updates_def)

lemma auditTrail_updates [simp]:
  "auditTrail (CMK_updatedRequest u request dec p q reason e r) = auditTrail r"
  "auditTrail (PPC_updatedRequest u pr mc d e r) = auditTrail r"
  "auditTrail (order_updatedRequest u ot ed rm e r) = auditTrail r"
  "auditTrail (deliver_updatedRequest u request e r) = auditTrail r"
  "auditTrail (receive_updatedRequest u request cd e r) = auditTrail r"
  "auditTrail (report_updatedRequest u request rp e r) = auditTrail r"
  "auditTrail (stores_updates u rb docs e r) = auditTrail r"
  "auditTrail (final_updates u fdec cm reason e r) = auditTrail r"
  by (simp_all add: CMK_updatedRequest_def PPC_updatedRequest_def order_updatedRequest_def
      deliver_updatedRequest_def receive_updatedRequest_def report_updatedRequest_def
      stores_updates_def final_updates_def)

lemma updates_commute:
  "order_updatedRequest u ot ed rm e (r\<lparr>auditTrail := t\<rparr>)
     = (order_updatedRequest u ot ed rm e r)\<lparr>auditTrail := t\<rparr>"
  "deliver_updatedRequest u request e (r\<lparr>auditTrail := t\<rparr>)
     = (deliver_updatedRequest u request e r)\<lparr>auditTrail := t\<rparr>"
  "receive_updatedRequest u request cd e (r\<lparr>auditTrail := t\<rparr>)
     = (receive_updatedRequest u request cd e r)\<lparr>auditTrail := t\<rparr>"
  "report_updatedRequest u request rp e (r\<lparr>auditTrail := t\<rparr>)
     = (report_updatedRequest u request rp e r)\<lparr>auditTrail := t\<rparr>"
  by (simp_all add: order_updatedRequest_def deliver_updatedRequest_def
      receive_updatedRequest_def report_updatedRequest_def)

text \<open>Reading a request back after an update and an audit entry, in either order.\<close>

lemma update_then_audit:
  assumes "\<And>x. req_id (f x) = req_id x"
  shows "getRequest j (addAuditEntry i en g (snd (updateRequest i f s)))
     = (if j = i
        then map_option (\<lambda>r. (f r)\<lparr>auditTrail := auditTrail (f r) @ [with_id en g]\<rparr>)
               (getRequest i s)
        else getRequest j s)"
  using assms
  by (simp add: getRequest_addAuditEntry getRequest_updateRequest option.map_comp comp_def)

lemma audit_then_update:
  assumes "\<And>x. req_id (f x) = req_id x"
  shows "getRequest j (snd (updateRequest i f (addAuditEntry i en g s)))
     = (if j = i
        then map_option (\<lambda>r. f (r\<lparr>auditTrail := auditTrail r @ [with_id en g]\<rparr>))
               (getRequest i s)
        else getRequest j s)"
  using assms
  by (simp add: getRequest_addAuditEntry getRequest_updateRequest option.map_comp comp_def)

lemma CMKReviewModal_read:
  assumes "dec = decision_rejected \<Longrightarrow> trim reason \<noteq> []"
    and "dec \<noteq> decision_rejected \<Longrightarrow> p \<noteq> []"
  shows "getRequest j (snd (CMKReviewModal_handleSubmit (Some u) request dec p q reason e s))
     = (if j = req_id request
        then map_option (\<lambda>r. (CMK_updatedRequest u request dec p q reason e r)
               \<lparr>auditTrail := auditTrail r @ [with_id (CMK_auditEntry u dec p reason e) (genId e)]\<rparr>)
               (getRequest (req_id request) s)
        else getRequest j s)"
  using assms
  by (cases dec) (simp_all add: CMKReviewModal_handleSubmit_def Let_def update_then_audit)

lemma PPCModal_read:
  assumes "trim pr \<noteq> []" and "trim mc \<noteq> []" and "trim d \<noteq> []"
  shows "getRequest j (snd (PPCModal_handleSubmit (Some u) request pr mc d e s))
     = (if j = req_id request
        then map_option (\<lambda>r. (PPC_updatedRequest u pr mc d e r)
               \<lparr>auditTrail := auditTrail r @ [with_id (PPC_auditEntry u pr mc e) (genId e)]\<rparr>)
               (getRequest (req_id request) s)
        else getRequest j s)"
  using assms
  by (simp add: PPCModal_handleSubmit_def Let_def update_then_audit)


lemma ProcurementModal_order_read:
  assumes "ed \<noteq> []"
  shows "getRequest j (snd (ProcurementModal_handleSubmit (Some u) request order (Some ot) ed rm e s))
     = (if j = req_id request
        then map_option (\<lambda>r. (order_updatedRequest u (Some ot) ed rm e r)
               \<lparr>auditTrail := auditTrail r @ [with_id (order_auditEntry u (Some ot) ed e) (genId e)]\<rparr>)
               (getRequest (req_id request) s)
        else getRequest j s)"
  using assms
  by (simp add: ProcurementModal_handleSubmit_def Let_def audit_then_update updates_commute)

lemma ProcurementModal_deliver_read:
  "getRequest j (snd (ProcurementModal_handleSubmit (Some u) request deliver ot ed rm e s))
     = (if j = req_id request
        then map_option (\<lambda>r. (deliver_updatedRequest u request e r)
               \<lparr>auditTrail := auditTrail r @ [with_id (deliver_auditEntry u e) (genId e)]\<rparr>)
               (getRequest (req_id request) s)
        else getRequest j s)"
  by (simp add: ProcurementModal_handleSubmit_def Let_def audit_then_update updates_commute)

lemma EvaluationModal_receive_read:
  assumes "rc" and "cd \<noteq> []"
  shows "getRequest j (snd (EvaluationModal_handleSubmit (Some u) request receive rc cd rp e s))
     = (if j = req_id request
        then map_option (\<lambda>r. (receive_updatedRequest u request cd e r)
               \<lparr>auditTrail := auditTrail r @ [with_id (receive_auditEntry u cd e) (genId e)]\<rparr>)
               (getRequest (req_id request) s)
        else getRequest j s)"
  using assms
  by (simp add: EvaluationModal_handleSubmit_def Let_def audit_then_update updates_commute)

lemma EvaluationModal_report_read:
  assumes "trim rp \<noteq> []"
  shows "getRequest j (snd (EvaluationModal_handleSubmit (Some u) request report_action rc cd rp e s))
     = (if j = req_id request
        then map_option (\<lambda>r. (report_updatedRequest u request rp e r)
               \<lparr>auditTrail := auditTrail r @ [with_id (report_auditEntry u e) (genId e)]\<rparr>)
               (getRequest (req_id request) s)
        else getRequest j s)"
  using assms
  by (simp add: EvaluationModal_handleSubmit_def Let_def audit_then_update updates_commute)

lemma case_updateRequest:
  "(case updateRequest i f s of (Some x, s1) \<Rightarrow> A x s1 | (None, s1) \<Rightarrow> B s1)
     = (case getRequest i s of
          Some r \<Rightarrow> A (f r) (snd (updateRequest i f s))
        | None \<Rightarrow> B s)"
proof (cases "getRequest i s")
  case None
  then show ?thesis by (simp add: updateRequest_None)
next
  case (Some r)
  obtain a b where ab: "updateRequest i f s = (a, b)"
    by (cases "updateRequest i f s")
  with updateRequest_Some [OF Some, of f] have "a = Some (f r)" by simp
  with ab Some show ?thesis by simp
qed

lemma StoresModal_read:
  assumes "trim rb \<noteq> []" and "docs \<noteq> []"
  shows "getRequest j (snd (StoresModal_handleSubmit (Some u) request rb docs e s))
     = (if j = req_id request
        then map_option (\<lambda>r. (stores_updates u rb docs e r)
               \<lparr>auditTrail := auditTrail r @ [with_id (stores_auditEntry u rb docs e) (genId e)]\<rparr>)
               (getRequest (req_id request) s)
        else getRequest j s)"
  using assms
  by (cases "getRequest (req_id request) s")
    (simp_all add: StoresModal_handleSubmit_def case_updateRequest update_then_audit)

lemma FinalCMKModal_read:
  assumes "fdec = final_rejected \<Longrightarrow> trim reason \<noteq> []"
  shows "getRequest j (snd (FinalCMKModal_handleSubmit (Some u) request fdec cm reason e s))
     = (if j = req_id request
        then map_option (\<lambda>r. (final_updates u fdec cm reason e r)
               \<lparr>auditTrail := auditTrail r @ [with_id (final_auditEntry u fdec cm reason e) (genId e)]\<rparr>)
               (getRequest (req_id request) s)
        else getRequest j s)"
  using assms
  by (cases "getRequest (req_id request) s"; cases fdec)
    (simp_all add: FinalCMKModal_handleSubmit_def case_updateRequest update_then_audit)

lemma req_id_requestData_of:
  "req_id (requestData_of u request fd cc cp e)
     = (case request of Some r \<Rightarrow> req_id r | None \<Rightarrow> freshId e)"
  by (cases request) (simp_all add: requestData_of_def requestData_literal_def Let_def)

lemma RequestModal_read:
  "getRequest j (snd (RequestModal_handleSubmit (Some u) request md fd cc cp e s))
     = (if j = req_id (requestData_of u request fd cc cp e)
        then Some ((requestData_of u request fd cc cp e)
               \<lparr>auditTrail := auditTrail (requestData_of u request fd cc cp e)
                  @ [with_id (request_auditEntry u md e) (genId e)]\<rparr>)
        else getRequest j s)"
  by (simp add: RequestModal_handleSubmit_def Let_def getRequest_addAuditEntry
      getRequest_saveRequest getRequest_register_custom_values)

section \<open>Success of a handler and committed commands\<close>

lemma CMK_success:
  assumes "dec = decision_rejected \<Longrightarrow> trim reason \<noteq> []"
    and "dec \<noteq> decision_rejected \<Longrightarrow> p \<noteq> []"
  shows "\<exists>t. CMKReviewModal_handleSubmit (Some u) r dec p q reason e s
           = (Some t, snd (CMKReviewModal_handleSubmit (Some u) r dec p q reason e s))
         \<and> variant t = default_variant"
  using assms by (cases dec) (simp_all add: CMKReviewModal_handleSubmit_def Let_def)

lemma PPC_success:
  assumes "trim pr \<noteq> []" and "trim mc \<noteq> []" and "trim d \<noteq> []"
  shows "\<exists>t. PPCModal_handleSubmit (Some u) r pr mc d e s
           = (Some t, snd (PPCModal_handleSubmit (Some u) r pr mc d e s))
         \<and> variant t = default_variant"
  using assms by (simp add: PPCModal_handleSubmit_def Let_def)

lemma order_success:
  assumes "ed \<noteq> []"
  shows "\<exists>t. ProcurementModal_handleSubmit (Some u) r order (Some ot) ed rm e s
           = (Some t, snd (ProcurementModal_handleSubmit (Some u) r order (Some ot) ed rm e s))
         \<and> variant t = default_variant"
  using assms by (simp add: ProcurementModal_handleSubmit_def Let_def)

lemma deliver_success:
  "\<exists>t. ProcurementModal_handleSubmit (Some u) r deliver ot ed rm e s
           = (Some t, snd (ProcurementModal_handleSubmit (Some u) r deliver ot ed rm e s))
         \<and> variant t = default_variant"
  by (simp add: ProcurementModal_handleSubmit_def Let_def)

lemma receive_success:
  assumes "rc" and "cd \<noteq> []"
  shows "\<exists>t. EvaluationModal_handleSubmit (Some u) r receive rc cd rp e s
           = (Some t, snd (EvaluationModal_handleSubmit (Some u) r receive rc cd rp e s))
         \<and> variant t = default_variant"
  using assms by (simp add: EvaluationModal_handleSubmit_def Let_def)

lemma report_success:
  assumes "trim rp \<noteq> []"
  shows "\<exists>t. EvaluationModal_handleSubmit (Some u) r report_action rc cd rp e s
           = (Some t, snd (EvaluationModal_handleSubmit (Some u) r report_action rc cd rp e s))
         \<and> variant t = default_variant"
  using assms by (simp add: EvaluationModal_handleSubmit_def Let_def)

lemma request_success:
  "\<exists>t. RequestModal_handleSubmit (Some u) request md fd cc cp e s
           = (Some t, snd (RequestModal_handleSubmit (Some u) request md fd cc cp e s))
         \<and> variant t = default_variant"
  by (simp add: RequestModal_handleSubmit_def Let_def)

lemma final_success:
  assumes "getRequest (req_id r) s = Some r0"
    and "fdec = final_rejected \<Longrightarrow> trim reason \<noteq> []"
  shows "\<exists>t. FinalCMKModal_handleSubmit (Some u) r fdec cm reason e s
           = (Some t, snd (FinalCMKModal_handleSubmit (Some u) r fdec cm reason e s))
         \<and> variant t = default_variant"
  using assms
  by (cases fdec) (simp_all add: FinalCMKModal_handleSubmit_def case_updateRequest)

lemma stores_success:
  assumes "getRequest (req_id r) s = Some r0" and "trim rb \<noteq> []" and "docs \<noteq> []"
  shows "\<exists>t. StoresModal_handleSubmit (Some u) r rb docs e s
           = (Some t, snd (StoresModal_handleSubmit (Some u) r rb docs e s))
         \<and> variant t = default_variant"
  using assms
  by (simp add: StoresModal_handleSubmit_def case_updateRequest)

text \<open>
  Introduction rules for commands submitted on the request as stored, with the guards of
  the handlers.
\<close>

lemma transition_create:
  assumes "role u = requestor" and "getRequest (freshId e) s = None"
  shows "transition s (freshId e) cmd_create None e
           (with_id (request_auditEntry u create e) (genId e))
           (snd (RequestModal_handleSubmit (Some u) None create fd cc cp e s))"
  using request_success [where u = u and request = None and md = create and fd = fd and cc = cc and cp = cp and e = e and s = s] assms
  by (auto intro: transition.create_request)

lemma transition_edit:
  assumes "getRequest i s = Some r" and "role u = requestor"
  shows "transition s i cmd_edit (Some r) e (with_id (request_auditEntry u edit e) (genId e))
           (snd (RequestModal_handleSubmit (Some u) (Some r) edit fd cc cp e s))"
proof -
  have i: "req_id r = i" using assms(1) by (rule getRequest_req_id)
  have st: "getRequest (req_id r) s = Some r" using assms(1) i by simp
  have op: "dashboard_opens u r (RequestModal edit)"
    using assms(2) by (simp add: dashboard_opens_def handleEditRequest_def)
  from request_success [where u = u and request = "Some r" and md = edit and fd = fd and cc = cc and cp = cp and e = e and s = s]
  obtain t where h: "RequestModal_handleSubmit (Some u) (Some r) edit fd cc cp e s
      = (Some t, snd (RequestModal_handleSubmit (Some u) (Some r) edit fd cc cp e s))"
    and v: "variant t = default_variant"
    by blast
  from transition.edit_request [OF st op h v] show ?thesis by (simp add: i)
qed

lemma transition_cmk_decide:
  assumes "getRequest i s = Some r" and "role u = cmk" and "status r = pending_cmk"
    and "dec = decision_rejected \<Longrightarrow> trim reason \<noteq> []"
    and "dec \<noteq> decision_rejected \<Longrightarrow> p \<noteq> []"
  shows "transition s i cmd_cmk_decide (Some r) e
           (with_id (CMK_auditEntry u dec p reason e) (genId e))
           (snd (CMKReviewModal_handleSubmit (Some u) r dec p q reason e s))"
proof -
  have i: "req_id r = i" using assms(1) by (rule getRequest_req_id)
  have st: "getRequest (req_id r) s = Some r" using assms(1) i by simp
  have op: "dashboard_opens u r CMKReviewModal"
    using assms(2,3) by (simp add: dashboard_opens_def handleViewRequest_def)
  from CMK_success [OF assms(4,5), where u = u and r = r and q = q and e = e and s = s]
  obtain t where h: "CMKReviewModal_handleSubmit (Some u) r dec p q reason e s
      = (Some t, snd (CMKReviewModal_handleSubmit (Some u) r dec p q reason e s))"
    and v: "variant t = default_variant"
    by blast
  from transition.cmk_decide [OF st op h v] show ?thesis by (simp add: i)
qed

lemma transition_ppc_enter:
  assumes "getRequest i s = Some r" and "role u = ppc" and "status r = pending_ppc"
    and "trim pr \<noteq> []" and "trim mc \<noteq> []" and "trim d \<noteq> []"
  shows "transition s i cmd_ppc_enter (Some r) e (with_id (PPC_auditEntry u pr mc e) (genId e))
           (snd (PPCModal_handleSubmit (Some u) r pr mc d e s))"
proof -
  have i: "req_id r = i" using assms(1) by (rule getRequest_req_id)
  have st: "getRequest (req_id r) s = Some r" using assms(1) i by simp
  have op: "dashboard_opens u r PPCModal"
    using assms(2,3) by (simp add: dashboard_opens_def handleViewRequest_def)
  from PPC_success [OF assms(4,5,6), where u = u and r = r and e = e and s = s]
  obtain t where h: "PPCModal_handleSubmit (Some u) r pr mc d e s
      = (Some t, snd (PPCModal_handleSubmit (Some u) r pr mc d e s))"
    and v: "variant t = default_variant"
    by blast
  from transition.ppc_enter [OF st op h v] show ?thesis by (simp add: i)
qed

lemma transition_place_order:
  assumes "getRequest i s = Some r" and "role u = procurement"
    and "status r = pending_procurement \<or> status r = ordered" and "ed \<noteq> []"
  shows "transition s i cmd_place_order (Some r) e
           (with_id (order_auditEntry u (Some ot) ed e) (genId e))
           (snd (ProcurementModal_handleSubmit (Some u) r order (Some ot) ed rm e s))"
proof -
  have i: "req_id r = i" using assms(1) by (rule getRequest_req_id)
  have st: "getRequest (req_id r) s = Some r" using assms(1) i by simp
  have op: "dashboard_opens u r ProcurementModal"
    using assms(2,3) by (auto simp: dashboard_opens_def handleViewRequest_def)
  from order_success [OF assms(4), where u = u and r = r and ot = ot and rm = rm and e = e and s = s]
  obtain t where h: "ProcurementModal_handleSubmit (Some u) r order (Some ot) ed rm e s
      = (Some t, snd (ProcurementModal_handleSubmit (Some u) r order (Some ot) ed rm e s))"
    and v: "variant t = default_variant"
    by blast
  from transition.place_order [OF st op h v] show ?thesis by (simp add: i)
qed

lemma transition_mark_delivered:
  assumes "getRequest i s = Some r" and "role u = procurement"
    and "status r = pending_procurement \<or> status r = ordered"
  shows "transition s i cmd_mark_delivered (Some r) e
           (with_id (deliver_auditEntry u e) (genId e))
           (snd (ProcurementModal_handleSubmit (Some u) r deliver ot ed rm e s))"
proof -
  have i: "req_id r = i" using assms(1) by (rule getRequest_req_id)
  have st: "getRequest (req_id r) s = Some r" using assms(1) i by simp
  have op: "dashboard_opens u r ProcurementModal"
    using assms(2,3) by (auto simp: dashboard_opens_def handleViewRequest_def)
  from deliver_success [where u = u and r = r and ot = ot and ed = ed and rm = rm and e = e and s = s]
  obtain t where h: "ProcurementModal_handleSubmit (Some u) r deliver ot ed rm e s
      = (Some t, snd (ProcurementModal_handleSubmit (Some u) r deliver ot ed rm e s))"
    and v: "variant t = default_variant"
    by blast
  from transition.mark_delivered [OF st op h v] show ?thesis by (simp add: i)
qed

lemma transition_evaluation_receive:
  assumes "getRequest i s = Some r" and "role u = evaluation"
    and "status r = delivered \<or> status r = pending_evaluation" and "rc" and "cd \<noteq> []"
  shows "transition s i cmd_evaluation_receive (Some r) e
           (with_id (receive_auditEntry u cd e) (genId e))
           (snd (EvaluationModal_handleSubmit (Some u) r receive rc cd rp e s))"
proof -
  have i: "req_id r = i" using assms(1) by (rule getRequest_req_id)
  have st: "getRequest (req_id r) s = Some r" using assms(1) i by simp
  have op: "dashboard_opens u r EvaluationModal"
    using assms(2,3) by (auto simp: dashboard_opens_def handleViewRequest_def)
  from receive_success [OF assms(4,5), where u = u and r = r and rp = rp and e = e and s = s]
  obtain t where h: "EvaluationModal_handleSubmit (Some u) r receive rc cd rp e s
      = (Some t, snd (EvaluationModal_handleSubmit (Some u) r receive rc cd rp e s))"
    and v: "variant t = default_variant"
    by blast
  from transition.evaluation_receive [OF st op h v] show ?thesis by (simp add: i)
qed

lemma transition_evaluation_report:
  assumes "getRequest i s = Some r" and "role u = evaluation"
    and "status r = delivered \<or> status r = pending_evaluation" and "trim rp \<noteq> []"
  shows "transition s i cmd_evaluation_report (Some r) e
           (with_id (report_auditEntry u e) (genId e))
           (snd (EvaluationModal_handleSubmit (Some u) r report_action rc cd rp e s))"
proof -
  have i: "req_id r = i" using assms(1) by (rule getRequest_req_id)
  have st: "getRequest (req_id r) s = Some r" using assms(1) i by simp
  have op: "dashboard_opens u r EvaluationModal"
    using assms(2,3) by (auto simp: dashboard_opens_def handleViewRequest_def)
  from report_success [OF assms(4), where u = u and r = r and rc = rc and cd = cd and e = e and s = s]
  obtain t where h: "EvaluationModal_handleSubmit (Some u) r report_action rc cd rp e s
      = (Some t, snd (EvaluationModal_handleSubmit (Some u) r report_action rc cd rp e s))"
    and v: "variant t = default_variant"
    by blast
  from transition.evaluation_report [OF st op h v] show ?thesis by (simp add: i)
qed

lemma transition_final_review:
  assumes "getRequest i s = Some r" and "role u = cmk" and "status r = pending_final_cmk"
    and "fdec = final_rejected \<Longrightarrow> trim reason \<noteq> []"
  shows "transition s i cmd_final_review (Some r) e
           (with_id (final_auditEntry u fdec cm reason e) (genId e))
           (snd (FinalCMKModal_handleSubmit (Some u) r fdec cm reason e s))"
proof -
  have i: "req_id r = i" using assms(1) by (rule getRequest_req_id)
  have st: "getRequest (req_id r) s = Some r" using assms(1) i by simp
  have op: "dashboard_opens u r FinalCMKModal"
    using assms(2,3) by (simp add: dashboard_opens_def handleView_def)
  from final_success [OF st assms(4), where u = u and cm = cm and e = e]
  obtain t where h: "FinalCMKModal_handleSubmit (Some u) r fdec cm reason e s
      = (Some t, snd (FinalCMKModal_handleSubmit (Some u) r fdec cm reason e s))"
    and v: "variant t = default_variant"
    by blast
  from transition.final_review [OF st op h v] show ?thesis by (simp add: i)
qed

text \<open>One command on the stored request: what is read back.\<close>

lemma create_step:
  "\<exists>r. getRequest (freshId e) (snd (RequestModal_handleSubmit (Some u) None create fd cc cp e s))
         = Some r
     \<and> r = (requestData_of u None fd cc cp e)
           \<lparr>auditTrail := [with_id (request_auditEntry u create e) (genId e)]\<rparr>
     \<and> status r = pending_cmk
     \<and> auditTrail r = [with_id (request_auditEntry u create e) (genId e)]"
proof -
  let ?rd = "requestData_of u None fd cc cp e"
  have i: "req_id ?rd = freshId e"
    by (simp add: req_id_requestData_of)
  have t: "auditTrail ?rd = []" and st: "status ?rd = pending_cmk"
    by (simp_all add: requestData_of_def requestData_literal_def Let_def)
  show ?thesis
    using RequestModal_read [where j = "freshId e" and u = u and request = None
        and md = create and fd = fd and cc = cc and cp = cp and e = e and s = s] i t st
    by simp
qed

lemma spread_request_same [simp]:
  "status (spread_request lit (Some r)) = status r"
  "auditTrail (spread_request lit (Some r)) = auditTrail r"
  "req_id (spread_request lit (Some r)) = req_id r"
  "plant (spread_request lit (Some r)) = spread_key (plant lit) (plant r)"
  "cmkDecision (spread_request lit (Some r)) = spread_key (cmkDecision lit) (cmkDecision r)"
  "ppcData (spread_request lit (Some r)) = spread_key (ppcData lit) (ppcData r)"
  "procurementData (spread_request lit (Some r))
     = spread_key (procurementData lit) (procurementData r)"
  "storesData (spread_request lit (Some r)) = spread_key (storesData lit) (storesData r)"
  "evaluationData (spread_request lit (Some r))
     = spread_key (evaluationData lit) (evaluationData r)"
  "finalCmkReview (spread_request lit (Some r))
     = spread_key (finalCmkReview lit) (finalCmkReview r)"
  by simp_all

lemma spread_key_None [simp]: "spread_key None x = x"
  by (cases x) simp_all

lemma edit_step:
  assumes "getRequest i s = Some r"
  shows "\<exists>r'. getRequest i (snd (RequestModal_handleSubmit (Some u) (Some r) edit fd cc cp e s))
          = Some r'
     \<and> r' = (requestData_of u (Some r) fd cc cp e)
           \<lparr>auditTrail := auditTrail r @ [with_id (request_auditEntry u edit e) (genId e)]\<rparr>
     \<and> status r' = status r
     \<and> auditTrail r' = auditTrail r @ [with_id (request_auditEntry u edit e) (genId e)]"
proof -
  let ?rd = "requestData_of u (Some r) fd cc cp e"
  have "req_id r = i" using assms by (rule getRequest_req_id)
  then have i: "req_id ?rd = i"
    by (simp add: req_id_requestData_of)
  have t: "auditTrail ?rd = auditTrail r" and st: "status ?rd = status r"
    by (simp_all add: requestData_of_def Let_def)
  show ?thesis
    using RequestModal_read [where j = i and u = u and request = "Some r"
        and md = edit and fd = fd and cc = cc and cp = cp and e = e and s = s] i t st
    by simp
qed

lemma cmk_step:
  assumes "getRequest i s = Some r"
    and "dec = decision_rejected \<Longrightarrow> trim reason \<noteq> []"
    and "dec \<noteq> decision_rejected \<Longrightarrow> p \<noteq> []"
  shows "\<exists>r'. getRequest i (snd (CMKReviewModal_handleSubmit (Some u) r dec p q reason e s))
          = Some r'
     \<and> status r' = (if dec = decision_rejected then rejected else pending_ppc)
     \<and> auditTrail r' = auditTrail r @ [with_id (CMK_auditEntry u dec p reason e) (genId e)]"
proof -
  have "req_id r = i" using assms(1) by (rule getRequest_req_id)
  with assms(1) show ?thesis
    using CMKReviewModal_read [OF assms(2,3), where j = i and request = r
        and u = u and q = q and e = e and s = s]
    by (simp add: CMK_updatedRequest_def)
qed

lemma ppc_step:
  assumes "getRequest i s = Some r"
    and "trim pr \<noteq> []" and "trim mc \<noteq> []" and "trim d \<noteq> []"
  shows "\<exists>r'. getRequest i (snd (PPCModal_handleSubmit (Some u) r pr mc d e s)) = Some r'
     \<and> status r' = pending_procurement
     \<and> auditTrail r' = auditTrail r @ [with_id (PPC_auditEntry u pr mc e) (genId e)]"
proof -
  have "req_id r = i" using assms(1) by (rule getRequest_req_id)
  with assms(1) show ?thesis
    using PPCModal_read [OF assms(2,3,4), where j = i and request = r
        and u = u and e = e and s = s]
    by (simp add: PPC_updatedRequest_def)
qed

lemma order_step:
  assumes "getRequest i s = Some r" and "ed \<noteq> []"
  shows "\<exists>r'. getRequest i
          (snd (ProcurementModal_handleSubmit (Some u) r order (Some ot) ed rm e s)) = Some r'
     \<and> status r' = ordered
     \<and> auditTrail r' = auditTrail r @ [with_id (order_auditEntry u (Some ot) ed e) (genId e)]"
proof -
  have "req_id r = i" using assms(1) by (rule getRequest_req_id)
  with assms(1) show ?thesis
    using ProcurementModal_order_read [OF assms(2), where j = i and request = r
        and u = u and ot = ot and rm = rm and e = e and s = s]
    by (simp add: order_updatedRequest_def)
qed

lemma deliver_step:
  assumes "getRequest i s = Some r"
  shows "\<exists>r'. getRequest i
          (snd (ProcurementModal_handleSubmit (Some u) r deliver ot ed rm e s)) = Some r'
     \<and> status r' = delivered
     \<and> auditTrail r' = auditTrail r @ [with_id (deliver_auditEntry u e) (genId e)]"
proof -
  have "req_id r = i" using assms(1) by (rule getRequest_req_id)
  with assms(1) show ?thesis
    using ProcurementModal_deliver_read [where j = i and request = r
        and u = u and ot = ot and ed = ed and rm = rm and e = e and s = s]
    by (simp add: deliver_updatedRequest_def)
qed

lemma receive_step:
  assumes "getRequest i s = Some r" and "rc" and "cd \<noteq> []"
  shows "\<exists>r'. getRequest i
          (snd (EvaluationModal_handleSubmit (Some u) r receive rc cd rp e s)) = Some r'
     \<and> status r' = pending_evaluation
     \<and> auditTrail r' = auditTrail r @ [with_id (receive_auditEntry u cd e) (genId e)]"
proof -
  have "req_id r = i" using assms(1) by (rule getRequest_req_id)
  with assms(1) show ?thesis
    using EvaluationModal_receive_read [OF assms(2,3), where j = i and request = r
        and u = u and rp = rp and e = e and s = s]
    by (simp add: receive_updatedRequest_def)
qed

lemma report_step:
  assumes "getRequest i s = Some r" and "trim rp \<noteq> []"
  shows "\<exists>r'. getRequest i
          (snd (EvaluationModal_handleSubmit (Some u) r report_action rc cd rp e s)) = Some r'
     \<and> status r' = completed
     \<and> auditTrail r' = auditTrail r @ [with_id (report_auditEntry u e) (genId e)]"
proof -
  have "req_id r = i" using assms(1) by (rule getRequest_req_id)
  with assms(1) show ?thesis
    using EvaluationModal_report_read [OF assms(2), where j = i and request = r
        and u = u and rc = rc and cd = cd and e = e and s = s]
    by (simp add: report_updatedRequest_def)
qed

lemma stores_step:
  assumes "getRequest i s = Some r" and "trim rb \<noteq> []" and "docs \<noteq> []"
  shows "\<exists>r'. getRequest i (snd (StoresModal_handleSubmit (Some u) r rb docs e s)) = Some r'
     \<and> status r' = received
     \<and> auditTrail r' = auditTrail r @ [with_id (stores_auditEntry u rb docs e) (genId e)]"
proof -
  have "req_id r = i" using assms(1) by (rule getRequest_req_id)
  with assms(1) show ?thesis
    using StoresModal_read [OF assms(2,3), where j = i and request = r
        and u = u and e = e and s = s]
    by (simp add: stores_updates_def)
qed

lemma final_step:
  assumes "getRequest i s = Some r"
    and "fdec = final_rejected \<Longrightarrow> trim reason \<noteq> []"
  shows "\<exists>r'. getRequest i (snd (FinalCMKModal_handleSubmit (Some u) r fdec cm reason e s))
          = Some r'
     \<and> status r' = (if fdec = approved then completed else rejected)
     \<and> auditTrail r' = auditTrail r @ [with_id (final_auditEntry u fdec cm reason e) (genId e)]"
proof -
  have "req_id r = i" using assms(1) by (rule getRequest_req_id)
  with assms(1) show ?thesis
    using FinalCMKModal_read [OF assms(2), where j = i and request = r
        and u = u and cm = cm and e = e and s = s]
    by (simp add: final_updates_def)
qed


text \<open>A success toast means that the guards of the handler held.\<close>

lemma cmk_committed:
  assumes "CMKReviewModal_handleSubmit (Some u) r dec p q reason e s = (Some t, s')"
    and "variant t = default_variant"
  shows "(dec = decision_rejected \<longrightarrow> trim reason \<noteq> []) \<and> (dec \<noteq> decision_rejected \<longrightarrow> p \<noteq> [])
     \<and> s' = snd (CMKReviewModal_handleSubmit (Some u) r dec p q reason e s)"
  using assms
  by (cases dec) (auto simp: CMKReviewModal_handleSubmit_def Let_def split: if_splits)

lemma ppc_committed:
  assumes "PPCModal_handleSubmit (Some u) r pr mc d e s = (Some t, s')"
    and "variant t = default_variant"
  shows "trim pr \<noteq> [] \<and> trim mc \<noteq> [] \<and> trim d \<noteq> []
     \<and> s' = snd (PPCModal_handleSubmit (Some u) r pr mc d e s)"
  using assms
  by (auto simp: PPCModal_handleSubmit_def PPC_validation_toast_def Let_def split: if_splits)

lemma order_committed:
  assumes "ProcurementModal_handleSubmit (Some u) r order ot ed rm e s = (Some t, s')"
    and "variant t = default_variant"
  shows "(\<exists>ty. ot = Some ty) \<and> ed \<noteq> []
     \<and> s' = snd (ProcurementModal_handleSubmit (Some u) r order ot ed rm e s)"
  using assms
  by (auto simp: ProcurementModal_handleSubmit_def Let_def split: if_splits)

lemma receive_committed:
  assumes "EvaluationModal_handleSubmit (Some u) r receive rc cd rp e s = (Some t, s')"
    and "variant t = default_variant"
  shows "rc \<and> cd \<noteq> []
     \<and> s' = snd (EvaluationModal_handleSubmit (Some u) r receive rc cd rp e s)"
  using assms
  by (auto simp: EvaluationModal_handleSubmit_def Let_def split: if_splits)

lemma report_committed:
  assumes "EvaluationModal_handleSubmit (Some u) r report_action rc cd rp e s = (Some t, s')"
    and "variant t = default_variant"
  shows "trim rp \<noteq> []
     \<and> s' = snd (EvaluationModal_handleSubmit (Some u) r report_action rc cd rp e s)"
  using assms
  by (auto simp: EvaluationModal_handleSubmit_def Let_def split: if_splits)

lemma stores_committed:
  assumes "StoresModal_handleSubmit (Some u) r rb docs e s = (Some t, s')"
    and "variant t = default_variant"
  shows "trim rb \<noteq> [] \<and> docs \<noteq> []
     \<and> s' = snd (StoresModal_handleSubmit (Some u) r rb docs e s)"
  using assms
  by (auto simp: StoresModal_handleSubmit_def case_updateRequest split: if_splits option.splits)

lemma final_committed:
  assumes "FinalCMKModal_handleSubmit (Some u) r fdec cm reason e s = (Some t, s')"
    and "variant t = default_variant"
  shows "(fdec = final_rejected \<longrightarrow> trim reason \<noteq> [])
     \<and> s' = snd (FinalCMKModal_handleSubmit (Some u) r fdec cm reason e s)"
  using assms
  by (cases fdec)
    (auto simp: FinalCMKModal_handleSubmit_def case_updateRequest split: if_splits option.splits)

lemma dashboard_opens_iff:
  "dashboard_opens u r CMKReviewModal \<longleftrightarrow> role u = cmk \<and> status r = pending_cmk"
  "dashboard_opens u r FinalCMKModal \<longleftrightarrow> role u = cmk \<and> status r = pending_final_cmk"
  "dashboard_opens u r PPCModal \<longleftrightarrow> role u = ppc \<and> status r = pending_ppc"
  "dashboard_opens u r ProcurementModal \<longleftrightarrow>
     role u = procurement \<and> (status r = pending_procurement \<or> status r = ordered)"
  "dashboard_opens u r EvaluationModal \<longleftrightarrow>
     role u = evaluation \<and> (status r = delivered \<or> status r = pending_evaluation)"
  "dashboard_opens u r (RequestModal edit) \<longleftrightarrow> role u = requestor"
  by (auto simp: dashboard_opens_def handleViewRequest_def handleView_def
      handleEditRequest_def handleEdit_def)

text \<open>
  What a committed command does to the request it is about and to the others. A stage
  command updates the record that is stored; an edit saves the request that its modal was
  opened on.
\<close>

lemma transition_effect:
  assumes "transition s i c q e a s'"
  shows "timestamp a \<in> {now e 0, now e 1, now e 2}
     \<and> (\<forall>j. j \<noteq> i \<longrightarrow> getRequest j s' = getRequest j s)
     \<and> (if c = cmd_create then q = None \<and> getRequest i s = None
        else \<exists>request stored. q = Some request \<and> req_id request = i
               \<and> getRequest i s = Some stored)
     \<and> (\<exists>r'. getRequest i s' = Some r'
          \<and> auditTrail r' =
              (if c = cmd_edit then (case q of Some request \<Rightarrow> auditTrail request | None \<Rightarrow> [])
               else (case getRequest i s of Some stored \<Rightarrow> auditTrail stored | None \<Rightarrow> []))
              @ [a]
          \<and> (status r' = rejected \<longrightarrow>
                c = cmd_cmk_decide \<and> map_option status q = Some pending_cmk
              \<or> c = cmd_final_review \<and> map_option status q = Some pending_final_cmk
              \<or> c = cmd_edit \<and> map_option status q = Some rejected))"
  using assms
proof cases
  case (create_request u fd cc cp t)
  then have s': "s' = snd (RequestModal_handleSubmit (Some u) None create fd cc cp e s)"
    and i: "i = freshId e" and c: "c = cmd_create" and q: "q = None"
    and a: "a = with_id (request_auditEntry u create e) (genId e)"
    and none: "getRequest i s = None"
    by simp_all
  have others: "\<forall>j. j \<noteq> i \<longrightarrow> getRequest j s' = getRequest j s"
    unfolding s' i by (simp add: RequestModal_read req_id_requestData_of)
  have ts: "timestamp a \<in> {now e 0, now e 1, now e 2}"
    unfolding a by (simp add: with_id_def request_auditEntry_def)
  from create_step [where u = u and fd = fd and cc = cc and cp = cp and e = e and s = s]
  obtain r' where "getRequest i s' = Some r'" "status r' = pending_cmk" "auditTrail r' = [a]"
    unfolding s' i a by blast
  with others none ts c q show ?thesis by simp
next
  case (edit_request request stored u fd cc cp t)
  then have s': "s' = snd (RequestModal_handleSubmit (Some u) (Some request) edit fd cc cp e s)"
    and i: "i = req_id request" and c: "c = cmd_edit" and q: "q = Some request"
    and st: "getRequest (req_id request) s = Some stored"
    and a: "a = with_id (request_auditEntry u edit e) (genId e)"
    by simp_all
  let ?rd = "requestData_of u (Some request) fd cc cp e"
  have rd: "req_id ?rd = req_id request" "auditTrail ?rd = auditTrail request"
    "status ?rd = status request"
    by (simp_all add: requestData_of_def Let_def)
  have read: "\<And>j. getRequest j s' =
      (if j = req_id request then Some (?rd\<lparr>auditTrail := auditTrail request @ [a]\<rparr>)
       else getRequest j s)"
    unfolding s' a by (simp add: RequestModal_read rd)
  have ts: "timestamp a \<in> {now e 0, now e 1, now e 2}"
    unfolding a by (simp add: with_id_def request_auditEntry_def)
  show ?thesis
    unfolding i c q using read ts st rd by simp
next
  case (cmk_decide request stored u dec p qr reason t)
  then have i: "i = req_id request" and c: "c = cmd_cmk_decide" and q: "q = Some request"
    and st: "getRequest (req_id request) s = Some stored"
    and opens: "dashboard_opens u request CMKReviewModal"
    and a: "a = with_id (CMK_auditEntry u dec p reason e) (genId e)"
    and h: "CMKReviewModal_handleSubmit (Some u) request dec p qr reason e s = (Some t, s')"
      "variant t = default_variant"
    by simp_all
  from cmk_committed [OF h]
  have g: "dec = decision_rejected \<Longrightarrow> trim reason \<noteq> []" "dec \<noteq> decision_rejected \<Longrightarrow> p \<noteq> []"
    and s': "s' = snd (CMKReviewModal_handleSubmit (Some u) request dec p qr reason e s)"
    by simp_all
  have read: "\<And>j. getRequest j s' =
      (if j = req_id request
       then Some ((CMK_updatedRequest u request dec p qr reason e stored)\<lparr>auditTrail := auditTrail stored @ [a]\<rparr>)
       else getRequest j s)"
    unfolding s' a using g st by (simp add: CMKReviewModal_read)
  have ts: "timestamp a \<in> {now e 0, now e 1, now e 2}"
    unfolding a by (simp add: with_id_def CMK_auditEntry_def)
  have stt: "status (CMK_updatedRequest u request dec p qr reason e stored)
      = (if dec = decision_rejected then rejected else pending_ppc)"
    by (simp add: CMK_updatedRequest_def)
  from opens have op: "status request = pending_cmk"
    by (simp add: dashboard_opens_iff)
  show ?thesis
    unfolding i c q using read ts st stt op by simp
next
  case (final_review request stored u fdec cm reason t)
  then have i: "i = req_id request" and c: "c = cmd_final_review" and q: "q = Some request"
    and st: "getRequest (req_id request) s = Some stored"
    and opens: "dashboard_opens u request FinalCMKModal"
    and a: "a = with_id (final_auditEntry u fdec cm reason e) (genId e)"
    and h: "FinalCMKModal_handleSubmit (Some u) request fdec cm reason e s = (Some t, s')"
      "variant t = default_variant"
    by simp_all
  from final_committed [OF h]
  have g: "fdec = final_rejected \<Longrightarrow> trim reason \<noteq> []"
    and s': "s' = snd (FinalCMKModal_handleSubmit (Some u) request fdec cm reason e s)"
    by simp_all
  have read: "\<And>j. getRequest j s' =
      (if j = req_id request
       then Some ((final_updates u fdec cm reason e stored)\<lparr>auditTrail := auditTrail stored @ [a]\<rparr>)
       else getRequest j s)"
    unfolding s' a using g st by (simp add: FinalCMKModal_read)
  have ts: "timestamp a \<in> {now e 0, now e 1, now e 2}"
    unfolding a by (simp add: with_id_def final_auditEntry_def)
  have stt: "status (final_updates u fdec cm reason e stored)
      = (if fdec = approved then completed else rejected)"
    by (simp add: final_updates_def)
  from opens have op: "status request = pending_final_cmk"
    by (simp add: dashboard_opens_iff)
  show ?thesis
    unfolding i c q using read ts st stt op by simp
next
  case (ppc_enter request stored u pr mc d t)
  then have i: "i = req_id request" and c: "c = cmd_ppc_enter" and q: "q = Some request"
    and st: "getRequest (req_id request) s = Some stored"
    and a: "a = with_id (PPC_auditEntry u pr mc e) (genId e)"
    and h: "PPCModal_handleSubmit (Some u) request pr mc d e s = (Some t, s')"
      "variant t = default_variant"
    by simp_all
  from ppc_committed [OF h]
  have g: "trim pr \<noteq> []" "trim mc \<noteq> []" "trim d \<noteq> []"
    and s': "s' = snd (PPCModal_handleSubmit (Some u) request pr mc d e s)"
    by simp_all
  have read: "\<And>j. getRequest j s' =
      (if j = req_id request
       then Some ((PPC_updatedRequest u pr mc d e stored)\<lparr>auditTrail := auditTrail stored @ [a]\<rparr>)
       else getRequest j s)"
    unfolding s' a using g st by (simp add: PPCModal_read)
  have ts: "timestamp a \<in> {now e 0, now e 1, now e 2}"
    unfolding a by (simp add: with_id_def PPC_auditEntry_def)
  have stt: "status (PPC_updatedRequest u pr mc d e stored) = pending_procurement"
    by (simp add: PPC_updatedRequest_def)
  show ?thesis
    unfolding i c q using read ts st stt by simp
next
  case (place_order request stored u ot ed rm t)
  then have i: "i = req_id request" and c: "c = cmd_place_order" and q: "q = Some request"
    and st: "getRequest (req_id request) s = Some stored"
    and a: "a = with_id (order_auditEntry u ot ed e) (genId e)"
    and h: "ProcurementModal_handleSubmit (Some u) request order ot ed rm e s = (Some t, s')"
      "variant t = default_variant"
    by simp_all
  from order_committed [OF h]
  obtain ty where ot: "ot = Some ty" and g: "ed \<noteq> []"
    and s': "s' = snd (ProcurementModal_handleSubmit (Some u) request order (Some ty) ed rm e s)"
    by auto
  have read: "\<And>j. getRequest j s' =
      (if j = req_id request
       then Some ((order_updatedRequest u (Some ty) ed rm e stored)\<lparr>auditTrail := auditTrail stored @ [a]\<rparr>)
       else getRequest j s)"
    unfolding s' a ot using g st by (simp add: ProcurementModal_order_read)
  have ts: "timestamp a \<in> {now e 0, now e 1, now e 2}"
    unfolding a by (simp add: with_id_def order_auditEntry_def)
  have stt: "status (order_updatedRequest u (Some ty) ed rm e stored) = ordered"
    by (simp add: order_updatedRequest_def)
  show ?thesis
    unfolding i c q using read ts st stt by simp
next
  case (mark_delivered request stored u ot ed rm t)
  then have i: "i = req_id request" and c: "c = cmd_mark_delivered" and q: "q = Some request"
    and st: "getRequest (req_id request) s = Some stored"
    and a: "a = with_id (deliver_auditEntry u e) (genId e)"
    and s': "s' = snd (ProcurementModal_handleSubmit (Some u) request deliver ot ed rm e s)"
    by simp_all
  have read: "\<And>j. getRequest j s' =
      (if j = req_id request
       then Some ((deliver_updatedRequest u request e stored)\<lparr>auditTrail := auditTrail stored @ [a]\<rparr>)
       else getRequest j s)"
    unfolding s' a using st by (simp add: ProcurementModal_deliver_read)
  have ts: "timestamp a \<in> {now e 0, now e 1, now e 2}"
    unfolding a by (simp add: with_id_def deliver_auditEntry_def)
  have stt: "status (deliver_updatedRequest u request e stored) = delivered"
    by (simp add: deliver_updatedRequest_def)
  show ?thesis
    unfolding i c q using read ts st stt by simp
next
  case (evaluation_receive request stored u rc cd rp t)
  then have i: "i = req_id request" and c: "c = cmd_evaluation_receive" and q: "q = Some request"
    and st: "getRequest (req_id request) s = Some stored"
    and a: "a = with_id (receive_auditEntry u cd e) (genId e)"
    and h: "EvaluationModal_handleSubmit (Some u) request receive rc cd rp e s = (Some t, s')"
      "variant t = default_variant"
    by simp_all
  from receive_committed [OF h]
  have g: "rc" "cd \<noteq> []"
    and s': "s' = snd (EvaluationModal_handleSubmit (Some u) request receive rc cd rp e s)"
    by simp_all
  have read: "\<And>j. getRequest j s' =
      (if j = req_id request
       then Some ((receive_updatedRequest u request cd e stored)\<lparr>auditTrail := auditTrail stored @ [a]\<rparr>)
       else getRequest j s)"
    unfolding s' a using g st by (simp add: EvaluationModal_receive_read)
  have ts: "timestamp a \<in> {now e 0, now e 1, now e 2}"
    unfolding a by (simp add: with_id_def receive_auditEntry_def)
  have stt: "status (receive_updatedRequest u request cd e stored) = pending_evaluation"
    by (simp add: receive_updatedRequest_def)
  show ?thesis
    unfolding i c q using read ts st stt by simp
next
  case (evaluation_report request stored u rc cd rp t)
  then have i: "i = req_id request" and c: "c = cmd_evaluation_report" and q: "q = Some request"
    and st: "getRequest (req_id request) s = Some stored"
    and a: "a = with_id (report_auditEntry u e) (genId e)"
    and h: "EvaluationModal_handleSubmit (Some u) request report_action rc cd rp e s = (Some t, s')"
      "variant t = default_variant"
    by simp_all
  from report_committed [OF h]
  have g: "trim rp \<noteq> []"
    and s': "s' = snd (EvaluationModal_handleSubmit (Some u) request report_action rc cd rp e s)"
    by simp_all
  have read: "\<And>j. getRequest j s' =
      (if j = req_id request
       then Some ((report_updatedRequest u request rp e stored)\<lparr>auditTrail := auditTrail stored @ [a]\<rparr>)
       else getRequest j s)"
    unfolding s' a using g st by (simp add: EvaluationModal_report_read)
  have ts: "timestamp a \<in> {now e 0, now e 1, now e 2}"
    unfolding a by (simp add: with_id_def report_auditEntry_def)
  have stt: "status (report_updatedRequest u request rp e stored) = completed"
    by (simp add: report_updatedRequest_def)
  show ?thesis
    unfolding i c q using read ts st stt by simp
next
  case (stores_receive request stored u rb docs t)
  then have i: "i = req_id request" and c: "c = cmd_stores_receive" and q: "q = Some request"
    and st: "getRequest (req_id request) s = Some stored"
    and a: "a = with_id (stores_auditEntry u rb docs e) (genId e)"
    and h: "StoresModal_handleSubmit (Some u) request rb docs e s = (Some t, s')"
      "variant t = default_variant"
    by simp_all
  from stores_committed [OF h]
  have g: "trim rb \<noteq> []" "docs \<noteq> []"
    and s': "s' = snd (StoresModal_handleSubmit (Some u) request rb docs e s)"
    by simp_all
  have read: "\<And>j. getRequest j s' =
      (if j = req_id request
       then Some ((stores_updates u rb docs e stored)\<lparr>auditTrail := auditTrail stored @ [a]\<rparr>)
       else getRequest j s)"
    unfolding s' a using g st by (simp add: StoresModal_read)
  have ts: "timestamp a \<in> {now e 0, now e 1, now e 2}"
    unfolding a by (simp add: with_id_def stores_auditEntry_def)
  have stt: "status (stores_updates u rb docs e stored) = received"
    by (simp add: stores_updates_def)
  show ?thesis
    unfolding i c q using read ts st stt by simp
qed

section \<open>The example data\<close>

lemma exampleStorage_a:
  "getRequest ''a'' exampleStorage = Some (exampleRequest ''a'' pending_cmk)"
  by (simp add: getRequest_def getRequests_def exampleStorage_def exampleRequest_def)

lemma exampleStorage_b:
  "getRequest ''b'' exampleStorage = Some (exampleRequest ''b'' pending_ppc)"
  by (simp add: getRequest_def getRequests_def exampleStorage_def exampleRequest_def)

lemma exampleRequest_sel [simp]:
  "req_id (exampleRequest i st) = i" "status (exampleRequest i st) = st"
  "auditTrail (exampleRequest i st) = []"
  by (simp_all add: exampleRequest_def)

lemma storedExample_sel [simp]:
  "req_id (storedExample i st ts) = i" "status (storedExample i st ts) = st"
  "auditTrail (storedExample i st ts) = [exampleEntry ts]"
  by (simp_all add: storedExample_def)

lemma storageWith_read [simp]:
  "getRequest j (storageWith i st ts) = (if j = i then Some (storedExample i st ts) else None)"
  by (simp add: getRequest_def getRequests_def storageWith_def)

lemma exampleUser_sel [simp]:
  "role (exampleUser rl) = rl" "user_id (exampleUser rl) = ''2''"
  "name (exampleUser rl) = ''Test User''"
  by (simp_all add: exampleUser_def)

lemma trim_examples:
  "trim [] = []" "trim ''  '' = []" "trim ''PR1'' = ''PR1''" "trim ''M1'' = ''M1''"
  "trim ''d'' = ''d''" "trim ''ok'' = ''ok''" "trim ''Spec mismatch'' = ''Spec mismatch''"
  by (simp_all add: trim_def isWhiteSpace_def)

section \<open>Claims about the store\<close>

text \<open>
  C10. Whatever sequence of requests is saved, starting from the empty store, no two stored
  requests have the same id. Saving a request whose id is stored replaces the first (then
  only) record with that id at its index, so the list keeps its length, the ids keep their
  positions and every other record stays where it is; saving a request whose id is not
  stored appends it at the end. The settings are not touched.
\<close>

theorem saveRequest_no_duplicate_ids:
  "distinct (map req_id (getRequests (fold saveRequest rs emptyStorage)))
   \<and> (distinct (map req_id (getRequests s)) \<longrightarrow>
        distinct (map req_id (getRequests (saveRequest r s))))
   \<and> (\<forall>i. findIndex (\<lambda>x. req_id x = req_id r) (getRequests s) = Some i \<longrightarrow>
        getRequests (saveRequest r s) = (getRequests s)[i := r]
        \<and> i < length (getRequests s)
        \<and> map req_id (getRequests (saveRequest r s)) = map req_id (getRequests s))
   \<and> (req_id r \<notin> req_id ` set (getRequests s) \<longrightarrow>
        getRequests (saveRequest r s) = getRequests s @ [r])
   \<and> appSettings (saveRequest r s) = appSettings s"
proof (intro conjI allI impI)
  show "distinct (map req_id (getRequests (fold saveRequest rs emptyStorage)))"
    by (rule fold_saveRequest_distinct) (simp add: emptyStorage_def getRequests_def)
next
  assume "distinct (map req_id (getRequests s))"
  then show "distinct (map req_id (getRequests (saveRequest r s)))"
    by (rule saveRequest_distinct)
next
  fix i
  assume i: "findIndex (\<lambda>x. req_id x = req_id r) (getRequests s) = Some i"
  then show "getRequests (saveRequest r s) = (getRequests s)[i := r]"
    by (simp add: saveRequest_def getRequests_def)
  from i show len: "i < length (getRequests s)"
    by (simp add: findIndex_Some_iff)
  from i have "req_id (getRequests s ! i) = req_id r"
    by (simp add: findIndex_Some_iff)
  with i len show "map req_id (getRequests (saveRequest r s)) = map req_id (getRequests s)"
    by (simp add: saveRequest_def getRequests_def map_update list_update_same_conv)
next
  assume "req_id r \<notin> req_id ` set (getRequests s)"
  then have "findIndex (\<lambda>x. req_id x = req_id r) (getRequests s) = None"
    by (auto simp: findIndex_None_iff image_iff)
  then show "getRequests (saveRequest r s) = getRequests s @ [r]"
    by (simp add: saveRequest_def getRequests_def)
next
  show "appSettings (saveRequest r s) = appSettings s"
    by (simp add: saveRequest_def Let_def split: option.splits)
qed

theorem saveRequest_no_duplicate_ids_witness:
  "distinct (map req_id (getRequests exampleStorage))
   \<and> findIndex (\<lambda>x. req_id x = ''b'') (getRequests exampleStorage) = Some 1
   \<and> getRequests (saveRequest (exampleRequest ''b'' ordered) exampleStorage)
       = [exampleRequest ''a'' pending_cmk, exampleRequest ''b'' ordered]
   \<and> ''c'' \<notin> req_id ` set (getRequests exampleStorage)
   \<and> getRequests (saveRequest (exampleRequest ''c'' pending_cmk) exampleStorage)
       = [exampleRequest ''a'' pending_cmk, exampleRequest ''b'' pending_ppc,
          exampleRequest ''c'' pending_cmk]
   \<and> distinct (map req_id (getRequests (saveRequest (exampleRequest ''c'' pending_cmk) exampleStorage)))"
proof -
  have ids: "req_id (exampleRequest i st) = i" for i st
    by (simp add: exampleRequest_def)
  have reqs: "getRequests exampleStorage
      = [exampleRequest ''a'' pending_cmk, exampleRequest ''b'' pending_ppc]"
    by (simp add: getRequests_def exampleStorage_def)
  have d: "distinct (map req_id (getRequests exampleStorage))"
    by (simp add: reqs ids)
  have f: "findIndex (\<lambda>x. req_id x = req_id (exampleRequest ''b'' ordered))
      (getRequests exampleStorage) = Some 1"
    by (simp add: reqs ids)
  have n: "req_id (exampleRequest ''c'' pending_cmk) \<notin> req_id ` set (getRequests exampleStorage)"
    by (simp add: reqs ids)
  have b: "getRequests (saveRequest (exampleRequest ''b'' ordered) exampleStorage)
      = (getRequests exampleStorage)[1 := exampleRequest ''b'' ordered]"
    using f saveRequest_no_duplicate_ids [of "[]" exampleStorage "exampleRequest ''b'' ordered"]
    by blast
  have c: "getRequests (saveRequest (exampleRequest ''c'' pending_cmk) exampleStorage)
      = getRequests exampleStorage @ [exampleRequest ''c'' pending_cmk]"
    using n saveRequest_no_duplicate_ids [of "[]" exampleStorage "exampleRequest ''c'' pending_cmk"]
    by blast
  have dc: "distinct (map req_id
      (getRequests (saveRequest (exampleRequest ''c'' pending_cmk) exampleStorage)))"
    using d saveRequest_no_duplicate_ids [of "[]" exampleStorage "exampleRequest ''c'' pending_cmk"]
    by blast
  from f have f': "findIndex (\<lambda>x. req_id x = ''b'') (getRequests exampleStorage) = Some 1"
    by (simp add: ids)
  from n have n': "''c'' \<notin> req_id ` set (getRequests exampleStorage)"
    by (simp add: ids)
  from b have b': "getRequests (saveRequest (exampleRequest ''b'' ordered) exampleStorage)
      = [exampleRequest ''a'' pending_cmk, exampleRequest ''b'' ordered]"
    by (simp add: reqs)
  from c have c': "getRequests (saveRequest (exampleRequest ''c'' pending_cmk) exampleStorage)
      = [exampleRequest ''a'' pending_cmk, exampleRequest ''b'' pending_ppc,
         exampleRequest ''c'' pending_cmk]"
    by (simp add: reqs)
  from d f' b' n' c' dc show ?thesis
    by blast
qed

text \<open>
  C9. Adding to a dropdown a value that the settings already hold leaves the store as it
  is, and adding a value twice gives the store that adding it once gives.
\<close>

theorem addToDropdown_idempotent:
  "(v \<in> set (dropdown_get type (getSettings s)) \<longrightarrow> addToDropdown type v s = s)
   \<and> addToDropdown type v (addToDropdown type v s) = addToDropdown type v s"
proof -
  have present: "addToDropdown type v s' = s'"
    if "v \<in> set (dropdown_get type (getSettings s'))" for s' :: "'a storage"
    using that by (simp add: addToDropdown_def Let_def)
  have "v \<in> set (dropdown_get type (getSettings (addToDropdown type v s)))"
    by (cases type)
      (auto simp: addToDropdown_def Let_def getSettings_def saveSettings_def)
  then have "addToDropdown type v (addToDropdown type v s) = addToDropdown type v s"
    by (rule present)
  with present [of s] show ?thesis by blast
qed

theorem addToDropdown_idempotent_witness:
  "''Glass'' \<in> set (dropdown_get materialCategories_key (getSettings (emptyStorage :: nat storage)))
   \<and> addToDropdown materialCategories_key ''Glass'' (emptyStorage :: nat storage) = emptyStorage
   \<and> addToDropdown purposes_key ''Reliability''
        (addToDropdown purposes_key ''Reliability'' (emptyStorage :: nat storage))
       = addToDropdown purposes_key ''Reliability'' emptyStorage"
proof -
  have h: "''Glass'' \<in> set (dropdown_get materialCategories_key
      (getSettings (emptyStorage :: nat storage)))"
    by (simp add: getSettings_def emptyStorage_def defaultSettings_def)
  show ?thesis
    using h
      addToDropdown_idempotent [of "''Glass''" materialCategories_key "emptyStorage :: nat storage"]
      addToDropdown_idempotent [of "''Reliability''" purposes_key "emptyStorage :: nat storage"]
    by simp
qed

section \<open>Claims about the stage commands\<close>

text \<open>
  C1. The CMK decide command on a stored request at \<open>pending_cmk\<close>: with decision
  rejected and a reason that is empty after trimming, or with decision trial or pilot and
  no plant, the store is unchanged and the toast is an error; otherwise the request read
  back is the stored one with the updates of the handler and one more audit entry: status
  \<open>rejected\<close> for a rejection and \<open>pending_ppc\<close> for an approval, the
  \<open>cmkDecision\<close> block with the decision, the user as \<open>approvedBy\<close> and the clock
  reading as \<open>approvedAt\<close>, the plant set on approval, every other stage block as it was.
\<close>

theorem CMK_decide:
  fixes request r :: "'n MaterialRequest" and u dec p q reason e s
  assumes stored: "getRequest (req_id request) s = Some r"
    and pending: "status r = pending_cmk"
  defines "H \<equiv> CMKReviewModal_handleSubmit (Some u) request dec p q reason e s"
  shows "(dec = decision_rejected \<and> trim reason = [] \<longrightarrow>
            snd H = s \<and> map_option variant (fst H) = Some destructive)
       \<and> (dec \<noteq> decision_rejected \<and> p = [] \<longrightarrow>
            snd H = s \<and> map_option variant (fst H) = Some destructive)
       \<and> ((dec = decision_rejected \<and> trim reason \<noteq> []) \<or> (dec \<noteq> decision_rejected \<and> p \<noteq> []) \<longrightarrow>
            (\<exists>r' d. getRequest (req_id request) (snd H) = Some r'
               \<and> r' = (CMK_updatedRequest u request dec p q reason e r)
                     \<lparr>auditTrail := auditTrail r @
                        [with_id (CMK_auditEntry u dec p reason e) (genId e)]\<rparr>
               \<and> status r' = (if dec = decision_rejected then rejected else pending_ppc)
               \<and> cmkDecision r' = Some d
               \<and> cmk_decision d = dec \<and> approvedBy d = user_id u \<and> approvedAt d = now e 0
               \<and> cmk_reason d = (if dec = decision_rejected then Some reason else None)
               \<and> plant r' = (if dec = decision_rejected then None else Some p)
               \<and> ppcData r' = ppcData r \<and> procurementData r' = procurementData r
               \<and> storesData r' = storesData r \<and> evaluationData r' = evaluationData r
               \<and> finalCmkReview r' = finalCmkReview r
               \<and> map_option variant (fst H) = Some default_variant))"
proof (intro conjI impI)
  assume "dec = decision_rejected \<and> trim reason = []"
  then show "snd H = s" "map_option variant (fst H) = Some destructive"
    by (simp_all add: H_def CMKReviewModal_handleSubmit_def)
next
  assume "dec \<noteq> decision_rejected \<and> p = []"
  then show "snd H = s" "map_option variant (fst H) = Some destructive"
    by (cases dec; simp add: H_def CMKReviewModal_handleSubmit_def)+
next
  assume ok: "(dec = decision_rejected \<and> trim reason \<noteq> []) \<or> (dec \<noteq> decision_rejected \<and> p \<noteq> [])"
  then have g1: "dec = decision_rejected \<Longrightarrow> trim reason \<noteq> []"
    and g2: "dec \<noteq> decision_rejected \<Longrightarrow> p \<noteq> []"
    by auto
  let ?r' = "(CMK_updatedRequest u request dec p q reason e r)
      \<lparr>auditTrail := auditTrail r @ [with_id (CMK_auditEntry u dec p reason e) (genId e)]\<rparr>"
  have read: "getRequest (req_id request) (snd H) = Some ?r'"
    unfolding H_def using CMKReviewModal_read [OF g1 g2, where j = "req_id request" and request = request
        and u = u and q = q and e = e and s = s] stored
    by simp
  have toast: "map_option variant (fst H) = Some default_variant"
    using g1 g2 by (cases dec) (simp_all add: H_def CMKReviewModal_handleSubmit_def Let_def)
  show "\<exists>r' d. getRequest (req_id request) (snd H) = Some r'
      \<and> r' = ?r'
      \<and> status r' = (if dec = decision_rejected then rejected else pending_ppc)
      \<and> cmkDecision r' = Some d
      \<and> cmk_decision d = dec \<and> approvedBy d = user_id u \<and> approvedAt d = now e 0
      \<and> cmk_reason d = (if dec = decision_rejected then Some reason else None)
      \<and> plant r' = (if dec = decision_rejected then None else Some p)
      \<and> ppcData r' = ppcData r \<and> procurementData r' = procurementData r
      \<and> storesData r' = storesData r \<and> evaluationData r' = evaluationData r
      \<and> finalCmkReview r' = finalCmkReview r
      \<and> map_option variant (fst H) = Some default_variant"
    using read toast by (simp add: CMK_updatedRequest_def)
qed


theorem CMK_decide_witness:
  "getRequest (req_id (exampleRequest ''a'' pending_cmk)) exampleStorage
     = Some (exampleRequest ''a'' pending_cmk)
   \<and> status (exampleRequest ''a'' pending_cmk) = pending_cmk
   \<and> trim ''  '' = [] \<and> trim ''Spec mismatch'' \<noteq> []
   \<and> snd (CMKReviewModal_handleSubmit (Some (exampleUser cmk)) (exampleRequest ''a'' pending_cmk)
          decision_rejected [] [] ''  '' exampleEnv exampleStorage) = exampleStorage
   \<and> snd (CMKReviewModal_handleSubmit (Some (exampleUser cmk)) (exampleRequest ''a'' pending_cmk)
          trial [] [] [] exampleEnv exampleStorage) = exampleStorage
   \<and> map_option status (getRequest ''a''
        (snd (CMKReviewModal_handleSubmit (Some (exampleUser cmk))
          (exampleRequest ''a'' pending_cmk) decision_rejected [] [] ''Spec mismatch''
          exampleEnv exampleStorage))) = Some rejected
   \<and> map_option (\<lambda>r. (status r, plant r, length (auditTrail r))) (getRequest ''a''
        (snd (CMKReviewModal_handleSubmit (Some (exampleUser cmk))
          (exampleRequest ''a'' pending_cmk) trial ''P2'' [] [] exampleEnv exampleStorage)))
       = Some (pending_ppc, Some ''P2'', 1)"
proof -
  have h1: "getRequest (req_id (exampleRequest ''a'' pending_cmk)) exampleStorage
      = Some (exampleRequest ''a'' pending_cmk)"
    by (simp add: exampleStorage_a)
  have h2: "status (exampleRequest ''a'' pending_cmk) = pending_cmk"
    by simp
  have t1: "trim ''  '' = []" and t2: "trim ''Spec mismatch'' \<noteq> []"
    by (simp_all add: trim_def isWhiteSpace_def)
  note inst = CMK_decide [OF h1 h2, where u = "exampleUser cmk" and q = "[]" and e = exampleEnv]
  have a: "snd (CMKReviewModal_handleSubmit (Some (exampleUser cmk)) (exampleRequest ''a'' pending_cmk)
          decision_rejected [] [] ''  '' exampleEnv exampleStorage) = exampleStorage"
    using inst [of decision_rejected "''  ''" "[]"] t1 by simp
  have b: "snd (CMKReviewModal_handleSubmit (Some (exampleUser cmk)) (exampleRequest ''a'' pending_cmk)
          trial [] [] [] exampleEnv exampleStorage) = exampleStorage"
    using inst [of trial "[]" "[]"] by simp
  have c: "map_option status (getRequest ''a''
        (snd (CMKReviewModal_handleSubmit (Some (exampleUser cmk))
          (exampleRequest ''a'' pending_cmk) decision_rejected [] [] ''Spec mismatch''
          exampleEnv exampleStorage))) = Some rejected"
    using inst [of decision_rejected "''Spec mismatch''" "[]"] t2 by auto
  have d: "map_option (\<lambda>r. (status r, plant r, length (auditTrail r))) (getRequest ''a''
        (snd (CMKReviewModal_handleSubmit (Some (exampleUser cmk))
          (exampleRequest ''a'' pending_cmk) trial ''P2'' [] [] exampleEnv exampleStorage)))
       = Some (pending_ppc, Some ''P2'', 1)"
    using inst [of trial "[]" "''P2''"] by auto
  from h1 h2 t1 t2 a b c d show ?thesis by blast
qed

text \<open>
  C4, as amended. The PPC enter-data command on a stored request at \<open>pending_ppc\<close>:
  when \<open>prNumber\<close>, \<open>materialCode\<close> or \<open>description\<close> is empty after trimming, the
  handler shows the one toast \<open>All Fields Required\<close>, which names no field, and leaves
  the store as it is, so the status and the length of the audit trail are unchanged; when
  all three are non-empty it writes \<open>ppcData\<close> with the trimmed values and moves the
  status to \<open>pending_procurement\<close>.
\<close>

theorem PPC_enter_data:
  fixes request r :: "'n MaterialRequest" and u pr mc d e s
  assumes stored: "getRequest (req_id request) s = Some r"
    and pending: "status r = pending_ppc"
  defines "H \<equiv> PPCModal_handleSubmit (Some u) request pr mc d e s"
  shows "(trim pr = [] \<or> trim mc = [] \<or> trim d = [] \<longrightarrow>
            H = (Some PPC_validation_toast, s)
            \<and> map_option status (getRequest (req_id request) (snd H)) = Some pending_ppc
            \<and> map_option (\<lambda>x. length (auditTrail x)) (getRequest (req_id request) (snd H))
                = Some (length (auditTrail r)))
       \<and> (trim pr \<noteq> [] \<and> trim mc \<noteq> [] \<and> trim d \<noteq> [] \<longrightarrow>
            (\<exists>r'. getRequest (req_id request) (snd H) = Some r'
               \<and> r' = (PPC_updatedRequest u pr mc d e r)
                     \<lparr>auditTrail := auditTrail r @ [with_id (PPC_auditEntry u pr mc e) (genId e)]\<rparr>
               \<and> status r' = pending_procurement
               \<and> ppcData r' = Some \<lparr>prNumber = trim pr, materialCode = trim mc,
                    description = trim d, enteredBy = user_id u, enteredAt = now e 0\<rparr>
               \<and> map_option variant (fst H) = Some default_variant))"
proof (intro conjI impI)
  assume bad: "trim pr = [] \<or> trim mc = [] \<or> trim d = []"
  then show H: "H = (Some PPC_validation_toast, s)"
    by (auto simp: H_def PPCModal_handleSubmit_def)
  from H stored pending
  show "map_option status (getRequest (req_id request) (snd H)) = Some pending_ppc"
    and "map_option (\<lambda>x. length (auditTrail x)) (getRequest (req_id request) (snd H))
          = Some (length (auditTrail r))"
    by simp_all
next
  assume ok: "trim pr \<noteq> [] \<and> trim mc \<noteq> [] \<and> trim d \<noteq> []"
  then have g: "trim pr \<noteq> []" "trim mc \<noteq> []" "trim d \<noteq> []" by auto
  let ?r' = "(PPC_updatedRequest u pr mc d e r)
      \<lparr>auditTrail := auditTrail r @ [with_id (PPC_auditEntry u pr mc e) (genId e)]\<rparr>"
  have read: "getRequest (req_id request) (snd H) = Some ?r'"
    unfolding H_def
    using PPCModal_read [OF g, where j = "req_id request" and request = request
        and u = u and e = e and s = s] stored
    by simp
  have toast: "map_option variant (fst H) = Some default_variant"
    using g by (simp add: H_def PPCModal_handleSubmit_def Let_def)
  show "\<exists>r'. getRequest (req_id request) (snd H) = Some r'
      \<and> r' = ?r'
      \<and> status r' = pending_procurement
      \<and> ppcData r' = Some \<lparr>prNumber = trim pr, materialCode = trim mc,
           description = trim d, enteredBy = user_id u, enteredAt = now e 0\<rparr>
      \<and> map_option variant (fst H) = Some default_variant"
    using read toast by (simp add: PPC_updatedRequest_def)
qed

theorem PPC_enter_data_witness:
  "getRequest (req_id (exampleRequest ''b'' pending_ppc)) exampleStorage
     = Some (exampleRequest ''b'' pending_ppc)
   \<and> status (exampleRequest ''b'' pending_ppc) = pending_ppc
   \<and> trim [] = [] \<and> trim ''PR1'' \<noteq> [] \<and> trim ''M1'' \<noteq> [] \<and> trim ''d'' \<noteq> []
   \<and> PPCModal_handleSubmit (Some (exampleUser ppc)) (exampleRequest ''b'' pending_ppc)
        ''PR1'' [] ''d'' exampleEnv exampleStorage = (Some PPC_validation_toast, exampleStorage)
   \<and> map_option (\<lambda>r. (status r, map_option materialCode (ppcData r), length (auditTrail r)))
        (getRequest ''b'' (snd (PPCModal_handleSubmit (Some (exampleUser ppc))
           (exampleRequest ''b'' pending_ppc) ''PR1'' ''M1'' ''d'' exampleEnv exampleStorage)))
       = Some (pending_procurement, Some ''M1'', 1)"
proof -
  have h1: "getRequest (req_id (exampleRequest ''b'' pending_ppc)) exampleStorage
      = Some (exampleRequest ''b'' pending_ppc)"
    by (simp add: exampleStorage_b)
  have h2: "status (exampleRequest ''b'' pending_ppc) = pending_ppc"
    by simp
  have t: "trim [] = []" "trim ''PR1'' \<noteq> []" "trim ''M1'' \<noteq> []" "trim ''d'' \<noteq> []"
    "trim ''M1'' = ''M1''"
    by (simp_all add: trim_def isWhiteSpace_def)
  note inst = PPC_enter_data [OF h1 h2, where u = "exampleUser ppc" and e = exampleEnv]
  have a: "PPCModal_handleSubmit (Some (exampleUser ppc)) (exampleRequest ''b'' pending_ppc)
        ''PR1'' [] ''d'' exampleEnv exampleStorage = (Some PPC_validation_toast, exampleStorage)"
    using inst [of "''PR1''" "[]" "''d''"] t by simp
  have b: "map_option (\<lambda>r. (status r, map_option materialCode (ppcData r), length (auditTrail r)))
        (getRequest ''b'' (snd (PPCModal_handleSubmit (Some (exampleUser ppc))
           (exampleRequest ''b'' pending_ppc) ''PR1'' ''M1'' ''d'' exampleEnv exampleStorage)))
       = Some (pending_procurement, Some ''M1'', 1)"
    using inst [of "''PR1''" "''M1''" "''d''"] t by auto
  from h1 h2 t a b show ?thesis by blast
qed

text \<open>
  The toast for a missing \<open>materialCode\<close> is the toast for a missing \<open>prNumber\<close>:
  its title and description name neither.
\<close>

theorem PPC_error_names_no_field:
  "fst (PPCModal_handleSubmit (Some (exampleUser ppc)) (exampleRequest ''b'' pending_ppc)
        ''PR1'' [] ''d'' exampleEnv exampleStorage)
     = Some \<lparr>title = ''All Fields Required'',
             toast_description = ''Please fill in all PPC fields.'', variant = destructive\<rparr>
   \<and> fst (PPCModal_handleSubmit (Some (exampleUser ppc)) (exampleRequest ''b'' pending_ppc)
        [] ''M1'' ''d'' exampleEnv exampleStorage)
     = fst (PPCModal_handleSubmit (Some (exampleUser ppc)) (exampleRequest ''b'' pending_ppc)
        ''PR1'' [] ''d'' exampleEnv exampleStorage)"
  by (simp add: PPCModal_handleSubmit_def PPC_validation_toast_def trim_def isWhiteSpace_def)

section \<open>Claims about creating a request and the whole flow\<close>

text \<open>
  C7. A request created from the form and read back at once has the submitted intake
  fields, status \<open>pending_cmk\<close> and an audit trail of exactly one entry. Every intake field
  that the form holds is read back as submitted; a text field that the form left undefined
  is read back as the empty string and an undefined \<open>trialAtPlant\<close> as false; the
  category or purpose is the custom value when \<open>Other\<close> was chosen and a custom value
  typed.
\<close>

theorem create_then_read:
  fixes fd :: "'n formData" and s :: "'n storage" and u cc cp e
  defines "s' \<equiv> snd (RequestModal_handleSubmit (Some u) None create fd cc cp e s)"
  shows "\<exists>r. getRequest (freshId e) s' = Some r
     \<and> req_id r = freshId e
     \<and> dateReceived r = (case form_dateReceived fd of Some x \<Rightarrow> x | None \<Rightarrow> [])
     \<and> materialCategory r =
         (case form_materialCategory fd of
            Some x \<Rightarrow> if x = ''Other'' \<and> cc \<noteq> [] then cc else x
          | None \<Rightarrow> [])
     \<and> materialDetails r = (case form_materialDetails fd of Some x \<Rightarrow> x | None \<Rightarrow> [])
     \<and> supplierName r = (case form_supplierName fd of Some x \<Rightarrow> x | None \<Rightarrow> [])
     \<and> quantity r = form_quantity fd
     \<and> trialAtPlant r = (case form_trialAtPlant fd of Some b \<Rightarrow> b | None \<Rightarrow> False)
     \<and> purpose r =
         (case form_purpose fd of
            Some x \<Rightarrow> if x = ''Other'' \<and> cp \<noteq> [] then cp else x
          | None \<Rightarrow> [])
     \<and> status r = pending_cmk
     \<and> requestorId r = user_id u
     \<and> auditTrail r = [with_id (request_auditEntry u create e) (genId e)]
     \<and> length (auditTrail r) = 1"
proof -
  from create_step [where u = u and fd = fd and cc = cc and cp = cp and e = e and s = s]
  obtain r where r: "getRequest (freshId e) s' = Some r"
    "r = (requestData_of u None fd cc cp e)
       \<lparr>auditTrail := [with_id (request_auditEntry u create e) (genId e)]\<rparr>"
    unfolding s'_def by blast
  from r(2) have "req_id r = freshId e"
    "dateReceived r = (case form_dateReceived fd of Some x \<Rightarrow> x | None \<Rightarrow> [])"
    "materialDetails r = (case form_materialDetails fd of Some x \<Rightarrow> x | None \<Rightarrow> [])"
    "supplierName r = (case form_supplierName fd of Some x \<Rightarrow> x | None \<Rightarrow> [])"
    "quantity r = form_quantity fd"
    "trialAtPlant r = (case form_trialAtPlant fd of Some b \<Rightarrow> b | None \<Rightarrow> False)"
    "status r = pending_cmk"
    "requestorId r = user_id u"
    "auditTrail r = [with_id (request_auditEntry u create e) (genId e)]"
    "length (auditTrail r) = 1"
    by (simp_all add: requestData_of_def requestData_literal_def Let_def
        split: option.splits)
  moreover from r(2) have "materialCategory r =
         (case form_materialCategory fd of
            Some x \<Rightarrow> if x = ''Other'' \<and> cc \<noteq> [] then cc else x
          | None \<Rightarrow> [])"
    by (cases "form_materialCategory fd")
      (simp_all add: requestData_of_def requestData_literal_def Let_def)
  moreover from r(2) have "purpose r =
         (case form_purpose fd of
            Some x \<Rightarrow> if x = ''Other'' \<and> cp \<noteq> [] then cp else x
          | None \<Rightarrow> [])"
    by (cases "form_purpose fd")
      (simp_all add: requestData_of_def requestData_literal_def Let_def)
  ultimately show ?thesis using r(1) by blast
qed

theorem create_then_read_witness:
  "\<exists>r. getRequest ''1714644000000p7d4w8z2b''
          (snd (RequestModal_handleSubmit (Some (exampleUser requestor)) None create
                  (exampleForm\<lparr>form_materialCategory := Some ''Other'', form_quantity := Some ''5 kg'',
                     form_trialAtPlant := Some True\<rparr>)
                  ''Glass'' [] exampleEnv exampleStorage)) = Some r
     \<and> dateReceived r = ''2024-05-01'' \<and> materialCategory r = ''Glass''
     \<and> materialDetails r = ''M10 wafer'' \<and> supplierName r = ''Acme''
     \<and> quantity r = Some ''5 kg'' \<and> trialAtPlant r = True \<and> purpose r = ''Cost Reduction''
     \<and> status r = pending_cmk \<and> length (auditTrail r) = 1"
proof -
  let ?fd = "exampleForm\<lparr>form_materialCategory := Some ''Other'', form_quantity := Some ''5 kg'',
      form_trialAtPlant := Some True\<rparr>"
  from create_then_read [of exampleEnv "exampleUser requestor" ?fd "''Glass''" "[]"
      exampleStorage]
  obtain r where r:
    "getRequest (freshId exampleEnv)
       (snd (RequestModal_handleSubmit (Some (exampleUser requestor)) None create
               ?fd ''Glass'' [] exampleEnv exampleStorage)) = Some r"
    "dateReceived r = (case form_dateReceived ?fd of Some x \<Rightarrow> x | None \<Rightarrow> [])"
    "materialCategory r =
         (case form_materialCategory ?fd of
            Some x \<Rightarrow> if x = ''Other'' \<and> ''Glass'' \<noteq> [] then ''Glass'' else x
          | None \<Rightarrow> [])"
    "materialDetails r = (case form_materialDetails ?fd of Some x \<Rightarrow> x | None \<Rightarrow> [])"
    "supplierName r = (case form_supplierName ?fd of Some x \<Rightarrow> x | None \<Rightarrow> [])"
    "quantity r = form_quantity ?fd"
    "trialAtPlant r = (case form_trialAtPlant ?fd of Some b \<Rightarrow> b | None \<Rightarrow> False)"
    "purpose r =
         (case form_purpose ?fd of
            Some x \<Rightarrow> if x = ''Other'' \<and> ([]::string) \<noteq> [] then [] else x
          | None \<Rightarrow> [])"
    "status r = pending_cmk" "length (auditTrail r) = 1"
    by blast
  have i: "freshId exampleEnv = ''1714644000000p7d4w8z2b''"
    by (simp add: exampleEnv_def)
  from r show ?thesis
    unfolding i by (intro exI [of _ r]) (simp add: exampleForm_def)
qed

text \<open>
  C8. From a freshly created request, CMK decide (trial, with a plant), PPC enter (three
  non-empty fields), place order (order type and estimated delivery), mark delivered,
  evaluation receive (receipt confirmed, completion date) and evaluation report (non-empty
  report), each submitted by a user of the owning role on the request as stored, are
  committed one after the other; the statuses run through \<open>pending_cmk\<close>,
  \<open>pending_ppc\<close>, \<open>pending_procurement\<close>, \<open>ordered\<close>, \<open>delivered\<close>,
  \<open>pending_evaluation\<close>, \<open>completed\<close>, and the audit trail grows by one entry each
  time, to seven.
\<close>

theorem happy_path_completes:
  fixes s0 :: "'n storage" and fd :: "'n formData"
  assumes roles: "role u0 = requestor" "role u1 = cmk" "role u2 = ppc"
      "role u3 = procurement" "role u4 = evaluation"
    and fresh: "getRequest (freshId e0) s0 = None"
    and guards: "p \<noteq> []" "trim pr \<noteq> []" "trim mc \<noteq> []" "trim d \<noteq> []" "ed \<noteq> []"
      "cd \<noteq> []" "trim rp \<noteq> []"
  shows "\<exists>s1 r1 a1 s2 r2 a2 s3 r3 a3 s4 r4 a4 s5 r5 a5 s6 r6 a6 s7 r7 a7.
      s1 = snd (RequestModal_handleSubmit (Some u0) None create fd cc cp e0 s0)
      \<and> transition s0 (freshId e0) cmd_create None e0 a1 s1
      \<and> getRequest (freshId e0) s1 = Some r1
      \<and> status r1 = pending_cmk \<and> length (auditTrail r1) = 1
    \<and> s2 = snd (CMKReviewModal_handleSubmit (Some u1) r1 trial p q reason e1 s1)
      \<and> transition s1 (freshId e0) cmd_cmk_decide (Some r1) e1 a2 s2
      \<and> getRequest (freshId e0) s2 = Some r2
      \<and> status r2 = pending_ppc \<and> length (auditTrail r2) = 2
    \<and> s3 = snd (PPCModal_handleSubmit (Some u2) r2 pr mc d e2 s2)
      \<and> transition s2 (freshId e0) cmd_ppc_enter (Some r2) e2 a3 s3
      \<and> getRequest (freshId e0) s3 = Some r3
      \<and> status r3 = pending_procurement \<and> length (auditTrail r3) = 3
    \<and> s4 = snd (ProcurementModal_handleSubmit (Some u3) r3 order (Some ot) ed rm e3 s3)
      \<and> transition s3 (freshId e0) cmd_place_order (Some r3) e3 a4 s4
      \<and> getRequest (freshId e0) s4 = Some r4
      \<and> status r4 = ordered \<and> length (auditTrail r4) = 4
    \<and> s5 = snd (ProcurementModal_handleSubmit (Some u3) r4 deliver ot' ed' rm' e4 s4)
      \<and> transition s4 (freshId e0) cmd_mark_delivered (Some r4) e4 a5 s5
      \<and> getRequest (freshId e0) s5 = Some r5
      \<and> status r5 = delivered \<and> length (auditTrail r5) = 5
    \<and> s6 = snd (EvaluationModal_handleSubmit (Some u4) r5 receive True cd rp' e5 s5)
      \<and> transition s5 (freshId e0) cmd_evaluation_receive (Some r5) e5 a6 s6
      \<and> getRequest (freshId e0) s6 = Some r6
      \<and> status r6 = pending_evaluation \<and> length (auditTrail r6) = 6
    \<and> s7 = snd (EvaluationModal_handleSubmit (Some u4) r6 report_action rc' cd' rp e6 s6)
      \<and> transition s6 (freshId e0) cmd_evaluation_report (Some r6) e6 a7 s7
      \<and> getRequest (freshId e0) s7 = Some r7
      \<and> status r7 = completed \<and> length (auditTrail r7) = 7"
proof -
  define i where "i = freshId e0"
  define s1 where "s1 = snd (RequestModal_handleSubmit (Some u0) None create fd cc cp e0 s0)"
  obtain r1 where r1: "getRequest i s1 = Some r1" "status r1 = pending_cmk"
      "length (auditTrail r1) = 1"
    using create_step [where u = u0 and fd = fd and cc = cc and cp = cp and e = e0 and s = s0]
    unfolding s1_def i_def by auto
  have t1: "transition s0 i cmd_create None e0
      (with_id (request_auditEntry u0 create e0) (genId e0)) s1"
    unfolding s1_def i_def using roles(1) fresh by (rule transition_create)
  define s2 where "s2 = snd (CMKReviewModal_handleSubmit (Some u1) r1 trial p q reason e1 s1)"
  obtain r2 where r2: "getRequest i s2 = Some r2" "status r2 = pending_ppc"
      "length (auditTrail r2) = 2"
    using cmk_step [OF r1(1), where dec = trial and p = p and reason = reason and u = u1
        and q = q and e = e1] guards(1) r1(3)
    unfolding s2_def by auto
  have t2: "transition s1 i cmd_cmk_decide (Some r1) e1
      (with_id (CMK_auditEntry u1 trial p reason e1) (genId e1)) s2"
    unfolding s2_def using r1(1) roles(2) r1(2) guards(1)
    by (intro transition_cmk_decide) simp_all
  define s3 where "s3 = snd (PPCModal_handleSubmit (Some u2) r2 pr mc d e2 s2)"
  obtain r3 where r3: "getRequest i s3 = Some r3" "status r3 = pending_procurement"
      "length (auditTrail r3) = 3"
    using ppc_step [OF r2(1) guards(2,3,4), where u = u2 and e = e2] r2(3)
    unfolding s3_def by auto
  have t3: "transition s2 i cmd_ppc_enter (Some r2) e2
      (with_id (PPC_auditEntry u2 pr mc e2) (genId e2)) s3"
    unfolding s3_def using r2(1) roles(3) r2(2) guards(2,3,4)
    by (rule transition_ppc_enter)
  define s4 where
    "s4 = snd (ProcurementModal_handleSubmit (Some u3) r3 order (Some ot) ed rm e3 s3)"
  obtain r4 where r4: "getRequest i s4 = Some r4" "status r4 = ordered"
      "length (auditTrail r4) = 4"
    using order_step [OF r3(1) guards(5), where u = u3 and ot = ot and rm = rm and e = e3] r3(3)
    unfolding s4_def by auto
  have t4: "transition s3 i cmd_place_order (Some r3) e3
      (with_id (order_auditEntry u3 (Some ot) ed e3) (genId e3)) s4"
    unfolding s4_def using r3(1) roles(4) _ guards(5)
    by (rule transition_place_order) (simp add: r3(2))
  define s5 where
    "s5 = snd (ProcurementModal_handleSubmit (Some u3) r4 deliver ot' ed' rm' e4 s4)"
  obtain r5 where r5: "getRequest i s5 = Some r5" "status r5 = delivered"
      "length (auditTrail r5) = 5"
    using deliver_step [OF r4(1), where u = u3 and ot = ot' and ed = ed' and rm = rm'
        and e = e4] r4(3)
    unfolding s5_def by auto
  have t5: "transition s4 i cmd_mark_delivered (Some r4) e4
      (with_id (deliver_auditEntry u3 e4) (genId e4)) s5"
    unfolding s5_def using r4(1) roles(4)
    by (rule transition_mark_delivered) (simp add: r4(2))
  define s6 where
    "s6 = snd (EvaluationModal_handleSubmit (Some u4) r5 receive True cd rp' e5 s5)"
  obtain r6 where r6: "getRequest i s6 = Some r6" "status r6 = pending_evaluation"
      "length (auditTrail r6) = 6"
    using receive_step [OF r5(1) TrueI guards(6), where u = u4 and rp = rp' and e = e5] r5(3)
    unfolding s6_def by auto
  have t6: "transition s5 i cmd_evaluation_receive (Some r5) e5
      (with_id (receive_auditEntry u4 cd e5) (genId e5)) s6"
    unfolding s6_def using r5(1) roles(5) _ TrueI guards(6)
    by (rule transition_evaluation_receive) (simp add: r5(2))
  define s7 where
    "s7 = snd (EvaluationModal_handleSubmit (Some u4) r6 report_action rc' cd' rp e6 s6)"
  obtain r7 where r7: "getRequest i s7 = Some r7" "status r7 = completed"
      "length (auditTrail r7) = 7"
    using report_step [OF r6(1) guards(7), where u = u4 and rc = rc' and cd = cd'
        and e = e6] r6(3)
    unfolding s7_def by auto
  have t7: "transition s6 i cmd_evaluation_report (Some r6) e6
      (with_id (report_auditEntry u4 e6) (genId e6)) s7"
    unfolding s7_def using r6(1) roles(5) _ guards(7)
    by (rule transition_evaluation_report) (simp add: r6(2))
  note facts = s1_def t1 r1 s2_def t2 r2 s3_def t3 r3 s4_def t4 r4 s5_def t5 r5
    s6_def t6 r6 s7_def t7 r7
  show ?thesis
    unfolding i_def [symmetric]
    by (intro exI conjI) (rule facts)+
qed

theorem happy_path_completes_witness:
  "role (exampleUser requestor) = requestor \<and> role (exampleUser cmk) = cmk
   \<and> role (exampleUser ppc) = ppc \<and> role (exampleUser procurement) = procurement
   \<and> role (exampleUser evaluation) = evaluation
   \<and> getRequest (freshId exampleEnv) exampleStorage = None
   \<and> ''P2'' \<noteq> [] \<and> trim ''PR1'' \<noteq> [] \<and> trim ''M1'' \<noteq> [] \<and> trim ''d'' \<noteq> []
   \<and> ''2024-06-01'' \<noteq> [] \<and> ''2024-06-15'' \<noteq> [] \<and> trim ''ok'' \<noteq> []
   \<and> (\<exists>s1 r1 a1 s2 r2 a2 s3 r3 a3 s4 r4 a4 s5 r5 a5 s6 r6 a6 s7 r7 a7.
      s1 = snd (RequestModal_handleSubmit (Some (exampleUser requestor)) None create
             exampleForm [] [] exampleEnv exampleStorage)
      \<and> transition exampleStorage (freshId exampleEnv) cmd_create None exampleEnv a1 s1
      \<and> getRequest (freshId exampleEnv) s1 = Some r1
      \<and> status r1 = pending_cmk \<and> length (auditTrail r1) = 1
    \<and> s2 = snd (CMKReviewModal_handleSubmit (Some (exampleUser cmk)) r1 trial ''P2'' [] []
             exampleEnv s1)
      \<and> transition s1 (freshId exampleEnv) cmd_cmk_decide (Some r1) exampleEnv a2 s2
      \<and> getRequest (freshId exampleEnv) s2 = Some r2
      \<and> status r2 = pending_ppc \<and> length (auditTrail r2) = 2
    \<and> s3 = snd (PPCModal_handleSubmit (Some (exampleUser ppc)) r2 ''PR1'' ''M1'' ''d'' exampleEnv s2)
      \<and> transition s2 (freshId exampleEnv) cmd_ppc_enter (Some r2) exampleEnv a3 s3
      \<and> getRequest (freshId exampleEnv) s3 = Some r3
      \<and> status r3 = pending_procurement \<and> length (auditTrail r3) = 3
    \<and> s4 = snd (ProcurementModal_handleSubmit (Some (exampleUser procurement)) r3
             order (Some air) ''2024-06-01'' [] exampleEnv s3)
      \<and> transition s3 (freshId exampleEnv) cmd_place_order (Some r3) exampleEnv a4 s4
      \<and> getRequest (freshId exampleEnv) s4 = Some r4
      \<and> status r4 = ordered \<and> length (auditTrail r4) = 4
    \<and> s5 = snd (ProcurementModal_handleSubmit (Some (exampleUser procurement)) r4
             deliver (Some air) ''2024-06-01'' [] exampleEnv s4)
      \<and> transition s4 (freshId exampleEnv) cmd_mark_delivered (Some r4) exampleEnv a5 s5
      \<and> getRequest (freshId exampleEnv) s5 = Some r5
      \<and> status r5 = delivered \<and> length (auditTrail r5) = 5
    \<and> s6 = snd (EvaluationModal_handleSubmit (Some (exampleUser evaluation)) r5
             receive True ''2024-06-15'' [] exampleEnv s5)
      \<and> transition s5 (freshId exampleEnv) cmd_evaluation_receive (Some r5) exampleEnv a6 s6
      \<and> getRequest (freshId exampleEnv) s6 = Some r6
      \<and> status r6 = pending_evaluation \<and> length (auditTrail r6) = 6
    \<and> s7 = snd (EvaluationModal_handleSubmit (Some (exampleUser evaluation)) r6
             report_action True [] ''ok'' exampleEnv s6)
      \<and> transition s6 (freshId exampleEnv) cmd_evaluation_report (Some r6) exampleEnv a7 s7
      \<and> getRequest (freshId exampleEnv) s7 = Some r7
      \<and> status r7 = completed \<and> length (auditTrail r7) = 7)"
proof -
  have roles: "role (exampleUser requestor) = requestor" "role (exampleUser cmk) = cmk"
    "role (exampleUser ppc) = ppc" "role (exampleUser procurement) = procurement"
    "role (exampleUser evaluation) = evaluation"
    by (simp_all add: exampleUser_def)
  have fresh: "getRequest (freshId exampleEnv) exampleStorage = None"
    by (simp add: getRequest_def getRequests_def exampleStorage_def exampleEnv_def)
  have guards: "''P2'' \<noteq> []" "trim ''PR1'' \<noteq> []" "trim ''M1'' \<noteq> []" "trim ''d'' \<noteq> []"
    "''2024-06-01'' \<noteq> []" "''2024-06-15'' \<noteq> []" "trim ''ok'' \<noteq> []"
    by (simp_all add: trim_def isWhiteSpace_def)
  note run = happy_path_completes [OF roles fresh guards, where fd = exampleForm and cc = "[]"
      and cp = "[]" and q = "[]" and reason = "[]" and ?e1.0 = exampleEnv
      and ?e2.0 = exampleEnv and ot = air and rm = "[]" and ?e3.0 = exampleEnv
      and ot' = "Some air" and ed' = "''2024-06-01''" and rm' = "[]" and ?e4.0 = exampleEnv
      and rp' = "[]" and ?e5.0 = exampleEnv and rc' = True and cd' = "[]"
      and ?e6.0 = exampleEnv]
  show ?thesis
    by (intro conjI roles fresh guards run)
qed

section \<open>Claims about the order of commands\<close>

text \<open>
  C2, as amended. The handlers return no \<open>InvalidTransition\<close> or \<open>Forbidden\<close> and do
  not compare a command with the stored status; which command can be issued is decided by
  the dashboard when it opens a modal. \<open>handleViewRequest\<close> opens the CMK review modal
  only for a CMK user on a request at \<open>pending_cmk\<close>, the PPC modal only for a PPC user at
  \<open>pending_ppc\<close>, the procurement modal only for a procurement user at
  \<open>pending_procurement\<close> or \<open>ordered\<close>, the evaluation modal only for an evaluation
  user at \<open>delivered\<close> or \<open>pending_evaluation\<close>, and the read-only view in every other
  case; \<open>handleView\<close> adds the final review modal for a CMK user at
  \<open>pending_final_cmk\<close> and otherwise agrees. Once a modal is open, its submit handler
  applies the command to the stored request with the id of the request it was opened on,
  whatever status is stored: place order leaves \<open>ordered\<close>, mark delivered
  \<open>delivered\<close>, receive \<open>pending_evaluation\<close>, report \<open>completed\<close>, each with one
  more audit entry.
\<close>

theorem commands_gated_by_dashboard:
  fixes r r0 request :: "'n MaterialRequest"
  shows
    "(handleViewRequest (Some u) r = CMKReviewModal \<longleftrightarrow> role u = cmk \<and> status r = pending_cmk)
   \<and> (handleViewRequest (Some u) r = PPCModal \<longleftrightarrow> role u = ppc \<and> status r = pending_ppc)
   \<and> (handleViewRequest (Some u) r = ProcurementModal \<longleftrightarrow>
        role u = procurement \<and> (status r = pending_procurement \<or> status r = ordered))
   \<and> (handleViewRequest (Some u) r = EvaluationModal \<longleftrightarrow>
        role u = evaluation \<and> (status r = delivered \<or> status r = pending_evaluation))
   \<and> (handleView (Some u) r = FinalCMKModal \<longleftrightarrow> role u = cmk \<and> status r = pending_final_cmk)
   \<and> (handleView (Some u) r \<noteq> FinalCMKModal \<longrightarrow>
        handleView (Some u) r = handleViewRequest (Some u) r)
   \<and> handleViewRequest (Some u) r
        \<in> {CMKReviewModal, PPCModal, ProcurementModal, EvaluationModal, RequestModal view}
   \<and> (getRequest (req_id request) s = Some r0 \<and> ed \<noteq> [] \<longrightarrow>
        (\<exists>r'. getRequest (req_id request)
                (snd (ProcurementModal_handleSubmit (Some u) request order (Some ot) ed rm e s))
              = Some r'
           \<and> status r' = ordered
           \<and> auditTrail r' = auditTrail r0
                @ [with_id (order_auditEntry u (Some ot) ed e) (genId e)]))
   \<and> (getRequest (req_id request) s = Some r0 \<longrightarrow>
        (\<exists>r'. getRequest (req_id request)
                (snd (ProcurementModal_handleSubmit (Some u) request deliver ot' ed' rm e s))
              = Some r'
           \<and> status r' = delivered
           \<and> auditTrail r' = auditTrail r0 @ [with_id (deliver_auditEntry u e) (genId e)]))
   \<and> (getRequest (req_id request) s = Some r0 \<and> cd \<noteq> [] \<longrightarrow>
        (\<exists>r'. getRequest (req_id request)
                (snd (EvaluationModal_handleSubmit (Some u) request receive True cd rp' e s))
              = Some r'
           \<and> status r' = pending_evaluation
           \<and> auditTrail r' = auditTrail r0 @ [with_id (receive_auditEntry u cd e) (genId e)]))
   \<and> (getRequest (req_id request) s = Some r0 \<and> trim rp \<noteq> [] \<longrightarrow>
        (\<exists>r'. getRequest (req_id request)
                (snd (EvaluationModal_handleSubmit (Some u) request report_action rc cd' rp e s))
              = Some r'
           \<and> status r' = completed
           \<and> auditTrail r' = auditTrail r0 @ [with_id (report_auditEntry u e) (genId e)]))"
proof (intro conjI impI)
  show "handleViewRequest (Some u) r = CMKReviewModal \<longleftrightarrow> role u = cmk \<and> status r = pending_cmk"
    by (simp add: handleViewRequest_def)
  show "handleViewRequest (Some u) r = PPCModal \<longleftrightarrow> role u = ppc \<and> status r = pending_ppc"
    by (auto simp: handleViewRequest_def)
  show "handleViewRequest (Some u) r = ProcurementModal \<longleftrightarrow>
      role u = procurement \<and> (status r = pending_procurement \<or> status r = ordered)"
    by (auto simp: handleViewRequest_def)
  show "handleViewRequest (Some u) r = EvaluationModal \<longleftrightarrow>
      role u = evaluation \<and> (status r = delivered \<or> status r = pending_evaluation)"
    by (auto simp: handleViewRequest_def)
  show "handleView (Some u) r = FinalCMKModal \<longleftrightarrow> role u = cmk \<and> status r = pending_final_cmk"
    by (auto simp: handleView_def)
  show "handleView (Some u) r = handleViewRequest (Some u) r"
    if "handleView (Some u) r \<noteq> FinalCMKModal"
    using that by (auto simp: handleView_def handleViewRequest_def split: if_splits)
  show "handleViewRequest (Some u) r
      \<in> {CMKReviewModal, PPCModal, ProcurementModal, EvaluationModal, RequestModal view}"
    by (simp add: handleViewRequest_def)
next
  assume "getRequest (req_id request) s = Some r0 \<and> ed \<noteq> []"
  then show "\<exists>r'. getRequest (req_id request)
        (snd (ProcurementModal_handleSubmit (Some u) request order (Some ot) ed rm e s)) = Some r'
      \<and> status r' = ordered
      \<and> auditTrail r' = auditTrail r0 @ [with_id (order_auditEntry u (Some ot) ed e) (genId e)]"
    by (simp add: ProcurementModal_order_read order_updatedRequest_def)
next
  assume "getRequest (req_id request) s = Some r0"
  then show "\<exists>r'. getRequest (req_id request)
        (snd (ProcurementModal_handleSubmit (Some u) request deliver ot' ed' rm e s)) = Some r'
      \<and> status r' = delivered
      \<and> auditTrail r' = auditTrail r0 @ [with_id (deliver_auditEntry u e) (genId e)]"
    by (simp add: ProcurementModal_deliver_read deliver_updatedRequest_def)
next
  assume "getRequest (req_id request) s = Some r0 \<and> cd \<noteq> []"
  then show "\<exists>r'. getRequest (req_id request)
        (snd (EvaluationModal_handleSubmit (Some u) request receive True cd rp' e s)) = Some r'
      \<and> status r' = pending_evaluation
      \<and> auditTrail r' = auditTrail r0 @ [with_id (receive_auditEntry u cd e) (genId e)]"
    by (simp add: EvaluationModal_receive_read receive_updatedRequest_def)
next
  assume "getRequest (req_id request) s = Some r0 \<and> trim rp \<noteq> []"
  then show "\<exists>r'. getRequest (req_id request)
        (snd (EvaluationModal_handleSubmit (Some u) request report_action rc cd' rp e s)) = Some r'
      \<and> status r' = completed
      \<and> auditTrail r' = auditTrail r0 @ [with_id (report_auditEntry u e) (genId e)]"
    by (simp add: EvaluationModal_report_read report_updatedRequest_def)
qed

theorem commands_gated_by_dashboard_witness:
  "handleView (Some (exampleUser procurement))
       (storedExample ''a'' pending_procurement ''2024-05-01T09:00:00.000Z'') \<noteq> FinalCMKModal
   \<and> handleView (Some (exampleUser procurement))
       (storedExample ''a'' pending_procurement ''2024-05-01T09:00:00.000Z'') = ProcurementModal
   \<and> handleViewRequest (Some (exampleUser procurement))
       (storedExample ''a'' delivered ''2024-05-01T09:00:00.000Z'') = RequestModal view
   \<and> getRequest (req_id (storedExample ''a'' pending_procurement ''2024-05-01T09:00:00.000Z''))
       (storageWith ''a'' pending_procurement ''2024-05-01T09:00:00.000Z'')
       = Some (storedExample ''a'' pending_procurement ''2024-05-01T09:00:00.000Z'')
   \<and> ''2024-06-01'' \<noteq> [] \<and> ''2024-06-15'' \<noteq> [] \<and> trim ''ok'' \<noteq> []
   \<and> map_option status (getRequest ''a''
        (snd (ProcurementModal_handleSubmit (Some (exampleUser procurement))
          (storedExample ''a'' pending_procurement ''2024-05-01T09:00:00.000Z'')
          order (Some air) ''2024-06-01'' [] exampleEnv
          (storageWith ''a'' pending_procurement ''2024-05-01T09:00:00.000Z'')))) = Some ordered
   \<and> map_option status (getRequest ''a''
        (snd (ProcurementModal_handleSubmit (Some (exampleUser procurement))
          (storedExample ''a'' pending_procurement ''2024-05-01T09:00:00.000Z'')
          deliver None [] [] exampleEnv
          (storageWith ''a'' pending_procurement ''2024-05-01T09:00:00.000Z'')))) = Some delivered
   \<and> map_option status (getRequest ''a''
        (snd (EvaluationModal_handleSubmit (Some (exampleUser procurement))
          (storedExample ''a'' pending_procurement ''2024-05-01T09:00:00.000Z'')
          receive True ''2024-06-15'' [] exampleEnv
          (storageWith ''a'' pending_procurement ''2024-05-01T09:00:00.000Z''))))
       = Some pending_evaluation
   \<and> map_option status (getRequest ''a''
        (snd (EvaluationModal_handleSubmit (Some (exampleUser procurement))
          (storedExample ''a'' pending_procurement ''2024-05-01T09:00:00.000Z'')
          report_action True [] ''ok'' exampleEnv
          (storageWith ''a'' pending_procurement ''2024-05-01T09:00:00.000Z'')))) = Some completed"
proof -
  let ?r = "storedExample ''a'' pending_procurement ''2024-05-01T09:00:00.000Z''"
  let ?s = "storageWith ''a'' pending_procurement ''2024-05-01T09:00:00.000Z''"
  let ?u = "exampleUser procurement"
  note inst = commands_gated_by_dashboard [where u = ?u and request = ?r and ?r0.0 = ?r
      and s = ?s and ed = "''2024-06-01''" and ot = air and rm = "[]" and e = exampleEnv
      and ot' = None and ed' = "[]" and cd = "''2024-06-15''" and rp' = "[]"
      and rp = "''ok''" and rc = True and cd' = "[]"]
  have h: "getRequest (req_id ?r) ?s = Some ?r" "''2024-06-01'' \<noteq> []" "''2024-06-15'' \<noteq> []"
    "trim ''ok'' \<noteq> []"
    by (simp_all add: trim_examples)
  have v1: "handleView (Some ?u) ?r \<noteq> FinalCMKModal"
    using inst [where r = ?r] by simp
  have v2: "handleView (Some ?u) ?r = ProcurementModal"
    using inst [where r = ?r] v1 by simp
  have v3: "handleViewRequest (Some ?u)
      (storedExample ''a'' delivered ''2024-05-01T09:00:00.000Z'') = RequestModal view"
    using inst [where r = "storedExample ''a'' delivered ''2024-05-01T09:00:00.000Z''"]
    by auto
  have a1: "map_option status (getRequest ''a''
        (snd (ProcurementModal_handleSubmit (Some ?u) ?r order (Some air) ''2024-06-01'' []
          exampleEnv ?s))) = Some ordered"
    using inst [where r = ?r] h by auto
  have a2: "map_option status (getRequest ''a''
        (snd (ProcurementModal_handleSubmit (Some ?u) ?r deliver None [] [] exampleEnv ?s)))
      = Some delivered"
    using inst [where r = ?r] h by auto
  have a3: "map_option status (getRequest ''a''
        (snd (EvaluationModal_handleSubmit (Some ?u) ?r receive True ''2024-06-15'' []
          exampleEnv ?s))) = Some pending_evaluation"
    using inst [where r = ?r] h by auto
  have a4: "map_option status (getRequest ''a''
        (snd (EvaluationModal_handleSubmit (Some ?u) ?r report_action True [] ''ok''
          exampleEnv ?s))) = Some completed"
    using inst [where r = ?r] h by auto
  from v1 v2 v3 h a1 a2 a3 a4 show ?thesis by (intro conjI)
qed

text \<open>
  A procurement modal opened while the request was at \<open>pending_procurement\<close> and
  submitted after the request has been ordered and delivered: the order is placed again,
  the stored status goes from \<open>delivered\<close> back to \<open>ordered\<close> and a second audit entry
  is written.
\<close>

theorem stale_place_order_is_applied:
  "map_option status (getRequest ''a'' (storageWith ''a'' delivered ''2024-05-01T09:00:00.000Z''))
     = Some delivered
   \<and> map_option variant (fst (ProcurementModal_handleSubmit (Some (exampleUser procurement))
        (storedExample ''a'' pending_procurement ''2024-05-01T09:00:00.000Z'')
        order (Some air) ''2024-06-01'' [] exampleEnv
        (storageWith ''a'' delivered ''2024-05-01T09:00:00.000Z''))) = Some default_variant
   \<and> map_option status (getRequest ''a''
        (snd (ProcurementModal_handleSubmit (Some (exampleUser procurement))
          (storedExample ''a'' pending_procurement ''2024-05-01T09:00:00.000Z'')
          order (Some air) ''2024-06-01'' [] exampleEnv
          (storageWith ''a'' delivered ''2024-05-01T09:00:00.000Z'')))) = Some ordered
   \<and> map_option auditTrail (getRequest ''a''
        (snd (ProcurementModal_handleSubmit (Some (exampleUser procurement))
          (storedExample ''a'' pending_procurement ''2024-05-01T09:00:00.000Z'')
          order (Some air) ''2024-06-01'' [] exampleEnv
          (storageWith ''a'' delivered ''2024-05-01T09:00:00.000Z''))))
       = Some [exampleEntry ''2024-05-01T09:00:00.000Z'',
               with_id (order_auditEntry (exampleUser procurement) (Some air) ''2024-06-01''
                 exampleEnv) (genId exampleEnv)]"
proof -
  have "map_option variant (fst (ProcurementModal_handleSubmit (Some (exampleUser procurement))
        (storedExample ''a'' pending_procurement ''2024-05-01T09:00:00.000Z'')
        order (Some air) ''2024-06-01'' [] exampleEnv
        (storageWith ''a'' delivered ''2024-05-01T09:00:00.000Z''))) = Some default_variant"
    by (simp add: ProcurementModal_handleSubmit_def Let_def)
  then show ?thesis
    by (simp add: ProcurementModal_order_read order_updatedRequest_def)
qed

text \<open>
  The procurement modal starts with the action \<open>order\<close>, also on a request shown as
  \<open>ordered\<close>, where its select offers only \<open>deliver\<close>: submitted as it opens, with
  the order type and delivery date that it shows, it is a committed command that places the
  order a second time.
\<close>

lemma second_place_order_is_committed:
  "transition (storageWith ''a'' ordered ''2024-05-01T09:00:00.000Z'') ''a'' cmd_place_order
     (Some (storedExample ''a'' ordered ''2024-05-01T09:00:00.000Z'')) exampleEnv
     (with_id (order_auditEntry (exampleUser procurement) (Some air) ''2024-06-01'' exampleEnv)
        (genId exampleEnv))
     (snd (ProcurementModal_handleSubmit (Some (exampleUser procurement))
        (storedExample ''a'' ordered ''2024-05-01T09:00:00.000Z'')
        order (Some air) ''2024-06-01'' [] exampleEnv
        (storageWith ''a'' ordered ''2024-05-01T09:00:00.000Z'')))"
  by (rule transition_place_order) simp_all

text \<open>
  C3, as amended. The dashboard opens the edit modal for every user of role requestor,
  whatever the status of the request. Submitted on the request as stored, the edit leaves
  the status, the plant and every stage-data block as they are, keeps the audit trail and
  appends exactly one entry, \<open>Request Updated\<close>.
\<close>

theorem edit_request_frame:
  fixes r :: "'n MaterialRequest"
  assumes stored: "getRequest i s = Some r" and requestor: "role u = requestor"
  shows "handleEditRequest (Some u) r = Some (RequestModal edit)
     \<and> (\<exists>r'. getRequest i (snd (RequestModal_handleSubmit (Some u) (Some r) edit fd cc cp e s))
              = Some r'
          \<and> status r' = status r \<and> plant r' = plant r
          \<and> cmkDecision r' = cmkDecision r \<and> ppcData r' = ppcData r
          \<and> procurementData r' = procurementData r \<and> storesData r' = storesData r
          \<and> evaluationData r' = evaluationData r \<and> finalCmkReview r' = finalCmkReview r
          \<and> auditTrail r' = auditTrail r @ [with_id (request_auditEntry u edit e) (genId e)]
          \<and> action (request_auditEntry u edit e) = ''Request Updated'')"
proof
  show "handleEditRequest (Some u) r = Some (RequestModal edit)"
    using requestor by (simp add: handleEditRequest_def)
  from edit_step [OF stored, where u = u and fd = fd and cc = cc and cp = cp and e = e]
  obtain r' where r': "getRequest i (snd (RequestModal_handleSubmit (Some u) (Some r) edit
        fd cc cp e s)) = Some r'"
    "r' = (requestData_of u (Some r) fd cc cp e)
       \<lparr>auditTrail := auditTrail r @ [with_id (request_auditEntry u edit e) (genId e)]\<rparr>"
    by blast
  from r'(2) have "status r' = status r" "plant r' = plant r"
    "cmkDecision r' = cmkDecision r" "ppcData r' = ppcData r"
    "procurementData r' = procurementData r" "storesData r' = storesData r"
    "evaluationData r' = evaluationData r" "finalCmkReview r' = finalCmkReview r"
    "auditTrail r' = auditTrail r @ [with_id (request_auditEntry u edit e) (genId e)]"
    by (simp_all add: requestData_of_def requestData_literal_def Let_def)
  moreover have "action (request_auditEntry u edit e) = ''Request Updated''"
    by (simp add: request_auditEntry_def)
  ultimately show "\<exists>r'. getRequest i
        (snd (RequestModal_handleSubmit (Some u) (Some r) edit fd cc cp e s)) = Some r'
      \<and> status r' = status r \<and> plant r' = plant r
      \<and> cmkDecision r' = cmkDecision r \<and> ppcData r' = ppcData r
      \<and> procurementData r' = procurementData r \<and> storesData r' = storesData r
      \<and> evaluationData r' = evaluationData r \<and> finalCmkReview r' = finalCmkReview r
      \<and> auditTrail r' = auditTrail r @ [with_id (request_auditEntry u edit e) (genId e)]
      \<and> action (request_auditEntry u edit e) = ''Request Updated''"
    using r'(1) by blast
qed

theorem edit_request_frame_witness:
  "getRequest ''a'' (storageWith ''a'' ordered ''2024-05-01T09:00:00.000Z'')
     = Some (storedExample ''a'' ordered ''2024-05-01T09:00:00.000Z'')
   \<and> role (exampleUser requestor) = requestor
   \<and> handleEditRequest (Some (exampleUser requestor))
        (storedExample ''a'' ordered ''2024-05-01T09:00:00.000Z'') = Some (RequestModal edit)
   \<and> map_option status (getRequest ''a''
        (snd (RequestModal_handleSubmit (Some (exampleUser requestor))
          (Some (storedExample ''a'' ordered ''2024-05-01T09:00:00.000Z'')) edit exampleForm
          [] [] exampleEnv (storageWith ''a'' ordered ''2024-05-01T09:00:00.000Z''))))
       = Some ordered
   \<and> map_option auditTrail (getRequest ''a''
        (snd (RequestModal_handleSubmit (Some (exampleUser requestor))
          (Some (storedExample ''a'' ordered ''2024-05-01T09:00:00.000Z'')) edit exampleForm
          [] [] exampleEnv (storageWith ''a'' ordered ''2024-05-01T09:00:00.000Z''))))
       = Some [exampleEntry ''2024-05-01T09:00:00.000Z'',
               with_id (request_auditEntry (exampleUser requestor) edit exampleEnv)
                 (genId exampleEnv)]"
proof -
  let ?r = "storedExample ''a'' ordered ''2024-05-01T09:00:00.000Z''"
  let ?s = "storageWith ''a'' ordered ''2024-05-01T09:00:00.000Z''"
  have h1: "getRequest ''a'' ?s = Some ?r" by simp
  have h2: "role (exampleUser requestor) = requestor" by simp
  note inst = edit_request_frame [OF h1 h2, where fd = exampleForm and cc = "[]"
      and cp = "[]" and e = exampleEnv]
  from inst have a: "handleEditRequest (Some (exampleUser requestor)) ?r
      = Some (RequestModal edit)"
    by blast
  from inst have b: "map_option status (getRequest ''a''
        (snd (RequestModal_handleSubmit (Some (exampleUser requestor)) (Some ?r) edit
          exampleForm [] [] exampleEnv ?s))) = Some ordered"
    by auto
  from inst have c: "map_option auditTrail (getRequest ''a''
        (snd (RequestModal_handleSubmit (Some (exampleUser requestor)) (Some ?r) edit
          exampleForm [] [] exampleEnv ?s)))
      = Some [exampleEntry ''2024-05-01T09:00:00.000Z'',
              with_id (request_auditEntry (exampleUser requestor) edit exampleEnv)
                (genId exampleEnv)]"
    by auto
  from h1 h2 a b c show ?thesis by (intro conjI)
qed

text \<open>
  A requestor edits a request that is \<open>completed\<close>: the edit modal opens, the submit
  succeeds and its audit entry is appended.
\<close>

theorem edit_permitted_after_approval:
  "map_option status (getRequest ''a'' (storageWith ''a'' completed ''2024-05-01T09:00:00.000Z''))
     = Some completed
   \<and> handleEditRequest (Some (exampleUser requestor))
        (storedExample ''a'' completed ''2024-05-01T09:00:00.000Z'') = Some (RequestModal edit)
   \<and> map_option variant (fst (RequestModal_handleSubmit (Some (exampleUser requestor))
        (Some (storedExample ''a'' completed ''2024-05-01T09:00:00.000Z'')) edit exampleForm
        [] [] exampleEnv (storageWith ''a'' completed ''2024-05-01T09:00:00.000Z'')))
       = Some default_variant
   \<and> map_option auditTrail (getRequest ''a''
        (snd (RequestModal_handleSubmit (Some (exampleUser requestor))
          (Some (storedExample ''a'' completed ''2024-05-01T09:00:00.000Z'')) edit exampleForm
          [] [] exampleEnv (storageWith ''a'' completed ''2024-05-01T09:00:00.000Z''))))
       = Some [exampleEntry ''2024-05-01T09:00:00.000Z'',
               with_id (request_auditEntry (exampleUser requestor) edit exampleEnv)
                 (genId exampleEnv)]"
proof -
  let ?r = "storedExample ''a'' completed ''2024-05-01T09:00:00.000Z''"
  let ?s = "storageWith ''a'' completed ''2024-05-01T09:00:00.000Z''"
  have r: "getRequest ''a'' ?s = Some ?r" by simp
  have "map_option variant (fst (RequestModal_handleSubmit (Some (exampleUser requestor))
        (Some ?r) edit exampleForm [] [] exampleEnv ?s)) = Some default_variant"
    by (simp add: RequestModal_handleSubmit_def Let_def)
  moreover from edit_step [OF r, where u = "exampleUser requestor" and fd = exampleForm
      and cc = "[]" and cp = "[]" and e = exampleEnv]
  have "map_option auditTrail (getRequest ''a''
        (snd (RequestModal_handleSubmit (Some (exampleUser requestor)) (Some ?r) edit
          exampleForm [] [] exampleEnv ?s)))
      = Some [exampleEntry ''2024-05-01T09:00:00.000Z'',
              with_id (request_auditEntry (exampleUser requestor) edit exampleEnv)
                (genId exampleEnv)]"
    by auto
  moreover have "handleEditRequest (Some (exampleUser requestor)) ?r = Some (RequestModal edit)"
    by (simp add: handleEditRequest_def)
  ultimately show ?thesis using r by simp
qed

text \<open>
  What an edit stores in the intake fields: \<open>...request\<close> is the last entry of the object
  literal, so every key that the request has keeps the value of the request; the form is
  read only for an optional key that the request lacks, and a custom category or purpose
  is written afterwards.
\<close>

lemma edit_keeps_required_fields:
  assumes "getRequest i s = Some r"
  shows "\<exists>r'. getRequest i (snd (RequestModal_handleSubmit (Some u) (Some r) edit fd cc cp e s))
          = Some r'
     \<and> dateReceived r' = dateReceived r \<and> materialDetails r' = materialDetails r
     \<and> supplierName r' = supplierName r \<and> trialAtPlant r' = trialAtPlant r
     \<and> requestorId r' = requestorId r
     \<and> quantity r' = spread_key (form_quantity fd) (quantity r)
     \<and> materialCategory r' =
         (if form_materialCategory fd = Some ''Other'' \<and> cc \<noteq> [] then cc
          else materialCategory r)
     \<and> purpose r' =
         (if form_purpose fd = Some ''Other'' \<and> cp \<noteq> [] then cp else purpose r)"
proof -
  from edit_step [OF assms, where u = u and fd = fd and cc = cc and cp = cp and e = e]
  obtain r' where r': "getRequest i (snd (RequestModal_handleSubmit (Some u) (Some r) edit
        fd cc cp e s)) = Some r'"
    "r' = (requestData_of u (Some r) fd cc cp e)
       \<lparr>auditTrail := auditTrail r @ [with_id (request_auditEntry u edit e) (genId e)]\<rparr>"
    by blast
  from r'(2) have "dateReceived r' = dateReceived r" "materialDetails r' = materialDetails r"
    "supplierName r' = supplierName r" "trialAtPlant r' = trialAtPlant r"
    "requestorId r' = requestorId r"
    "quantity r' = spread_key (form_quantity fd) (quantity r)"
    "materialCategory r' =
       (if form_materialCategory fd = Some ''Other'' \<and> cc \<noteq> [] then cc
        else materialCategory r)"
    "purpose r' = (if form_purpose fd = Some ''Other'' \<and> cp \<noteq> [] then cp else purpose r)"
    by (simp_all add: requestData_of_def requestData_literal_def Let_def)
  with r'(1) show ?thesis by blast
qed

section \<open>Claims about committed commands\<close>

text \<open>
  C5, as amended. The status \<open>rejected\<close> is written by two commands only, CMK decide
  and CMK final review; an edit writes back the status of the request that its modal was
  opened on. The dashboard opens the CMK review modal only on a request that it shows at
  \<open>pending_cmk\<close> and the final review modal only on one that it shows at
  \<open>pending_final_cmk\<close>, but no handler reads the stored status. So a request that is
  \<open>rejected\<close> after a committed command either was rejected before, or is the request of
  the command, and the command is a CMK decide whose modal was opened at \<open>pending_cmk\<close>,
  a final review whose modal was opened at \<open>pending_final_cmk\<close>, or an edit whose modal
  was opened when the request was rejected. When the modal was opened on the request as
  stored, the request was rejected before or was stored at \<open>pending_cmk\<close> or
  \<open>pending_final_cmk\<close>. No request is created rejected.
\<close>

theorem rejected_only_by_cmk_commands:
  assumes "transition s i c q e a s'" and "getRequest j s' = Some r'" and "status r' = rejected"
  shows "\<exists>r. getRequest j s = Some r
     \<and> (status r = rejected
          \<or> (j = i
               \<and> (c = cmd_cmk_decide \<and> map_option status q = Some pending_cmk
                    \<or> c = cmd_final_review \<and> map_option status q = Some pending_final_cmk
                    \<or> c = cmd_edit \<and> map_option status q = Some rejected)))
     \<and> (q = Some r \<longrightarrow>
          status r = rejected
          \<or> (j = i \<and> (status r = pending_cmk \<or> status r = pending_final_cmk)))"
proof (cases "j = i")
  case True
  note eff = transition_effect [OF assms(1)]
  from eff assms(2,3) True
  have k: "c = cmd_cmk_decide \<and> map_option status q = Some pending_cmk
      \<or> c = cmd_final_review \<and> map_option status q = Some pending_final_cmk
      \<or> c = cmd_edit \<and> map_option status q = Some rejected"
    by auto
  then have "c \<noteq> cmd_create" by auto
  with eff obtain request stored where "q = Some request" "getRequest i s = Some stored"
    by auto
  with k True show ?thesis by auto
next
  case False
  with transition_effect [OF assms(1)] have "getRequest j s = getRequest j s'"
    by simp
  with assms(2,3) show ?thesis by simp
qed

theorem rejected_only_by_cmk_commands_witness:
  "transition (storageWith ''a'' pending_final_cmk ''2024-05-01T09:00:00.000Z'') ''a''
     cmd_final_review (Some (storedExample ''a'' pending_final_cmk ''2024-05-01T09:00:00.000Z''))
     exampleEnv
     (with_id (final_auditEntry (exampleUser cmk) final_rejected [] ''Spec mismatch'' exampleEnv)
        (genId exampleEnv))
     (snd (FinalCMKModal_handleSubmit (Some (exampleUser cmk))
        (storedExample ''a'' pending_final_cmk ''2024-05-01T09:00:00.000Z'')
        final_rejected [] ''Spec mismatch'' exampleEnv
        (storageWith ''a'' pending_final_cmk ''2024-05-01T09:00:00.000Z'')))
   \<and> map_option status (getRequest ''a''
        (snd (FinalCMKModal_handleSubmit (Some (exampleUser cmk))
          (storedExample ''a'' pending_final_cmk ''2024-05-01T09:00:00.000Z'')
          final_rejected [] ''Spec mismatch'' exampleEnv
          (storageWith ''a'' pending_final_cmk ''2024-05-01T09:00:00.000Z'')))) = Some rejected
   \<and> map_option status (getRequest ''a''
        (storageWith ''a'' pending_final_cmk ''2024-05-01T09:00:00.000Z''))
       = Some pending_final_cmk"
proof -
  let ?s = "storageWith ''a'' pending_final_cmk ''2024-05-01T09:00:00.000Z''"
  let ?r = "storedExample ''a'' pending_final_cmk ''2024-05-01T09:00:00.000Z''"
  let ?s' = "snd (FinalCMKModal_handleSubmit (Some (exampleUser cmk)) ?r
      final_rejected [] ''Spec mismatch'' exampleEnv ?s)"
  have r: "getRequest ''a'' ?s = Some ?r" by simp
  have t: "transition ?s ''a'' cmd_final_review (Some ?r) exampleEnv
      (with_id (final_auditEntry (exampleUser cmk) final_rejected [] ''Spec mismatch'' exampleEnv)
        (genId exampleEnv)) ?s'"
    using r by (rule transition_final_review) (simp_all add: trim_examples)
  from final_step [OF r, where fdec = final_rejected and reason = "''Spec mismatch''"
      and u = "exampleUser cmk" and cm = "[]" and e = exampleEnv]
  obtain r' where r': "getRequest ''a'' ?s' = Some r'" "status r' = rejected"
    by (auto simp: trim_examples)
  from rejected_only_by_cmk_commands [OF t r'] r r'
  have "map_option status (getRequest ''a'' ?s') = Some rejected"
    and "map_option status (getRequest ''a'' ?s) = Some pending_final_cmk"
    by simp_all
  with t show ?thesis by (intro conjI)
qed

text \<open>
  Two runs. In the first, a CMK user opens the review modal on a request shown at
  \<open>pending_cmk\<close>; before the submit the stored request is approved, planned, ordered
  and delivered from other modals. The reject is then submitted: it succeeds, is a
  committed command, and the stored status goes from \<open>delivered\<close> to \<open>rejected\<close>. In
  the second, a requestor opens the edit modal on a request shown as \<open>rejected\<close>; a
  review modal opened earlier then approves the stored request and PPC is due; the edit is
  submitted afterwards: it is committed, and the stored status goes from \<open>pending_ppc\<close>
  to \<open>rejected\<close> by a command of the requestor.
\<close>

theorem stale_submit_rejects_from_other_status:
  "map_option status (getRequest ''a'' (storageWith ''a'' delivered ''2024-05-01T09:00:00.000Z''))
     = Some delivered
   \<and> handleViewRequest (Some (exampleUser cmk))
        (storedExample ''a'' pending_cmk ''2024-05-01T09:00:00.000Z'') = CMKReviewModal
   \<and> map_option variant (fst (CMKReviewModal_handleSubmit (Some (exampleUser cmk))
        (storedExample ''a'' pending_cmk ''2024-05-01T09:00:00.000Z'')
        decision_rejected [] [] ''Spec mismatch'' exampleEnv
        (storageWith ''a'' delivered ''2024-05-01T09:00:00.000Z''))) = Some default_variant
   \<and> map_option status (getRequest ''a''
        (snd (CMKReviewModal_handleSubmit (Some (exampleUser cmk))
          (storedExample ''a'' pending_cmk ''2024-05-01T09:00:00.000Z'')
          decision_rejected [] [] ''Spec mismatch'' exampleEnv
          (storageWith ''a'' delivered ''2024-05-01T09:00:00.000Z'')))) = Some rejected
   \<and> transition (storageWith ''a'' delivered ''2024-05-01T09:00:00.000Z'') ''a''
        cmd_cmk_decide (Some (storedExample ''a'' pending_cmk ''2024-05-01T09:00:00.000Z''))
        exampleEnv
        (with_id (CMK_auditEntry (exampleUser cmk) decision_rejected [] ''Spec mismatch''
           exampleEnv) (genId exampleEnv))
        (snd (CMKReviewModal_handleSubmit (Some (exampleUser cmk))
          (storedExample ''a'' pending_cmk ''2024-05-01T09:00:00.000Z'')
          decision_rejected [] [] ''Spec mismatch'' exampleEnv
          (storageWith ''a'' delivered ''2024-05-01T09:00:00.000Z'')))
   \<and> map_option status (getRequest ''a''
        (storageWith ''a'' pending_ppc ''2024-05-01T09:00:00.000Z'')) = Some pending_ppc
   \<and> handleEditRequest (Some (exampleUser requestor))
        (storedExample ''a'' rejected ''2024-05-01T09:00:00.000Z'') = Some (RequestModal edit)
   \<and> map_option status (getRequest ''a''
        (snd (RequestModal_handleSubmit (Some (exampleUser requestor))
          (Some (storedExample ''a'' rejected ''2024-05-01T09:00:00.000Z'')) edit exampleForm
          [] [] exampleEnv (storageWith ''a'' pending_ppc ''2024-05-01T09:00:00.000Z''))))
       = Some rejected
   \<and> transition (storageWith ''a'' pending_ppc ''2024-05-01T09:00:00.000Z'') ''a''
        cmd_edit (Some (storedExample ''a'' rejected ''2024-05-01T09:00:00.000Z'')) exampleEnv
        (with_id (request_auditEntry (exampleUser requestor) edit exampleEnv) (genId exampleEnv))
        (snd (RequestModal_handleSubmit (Some (exampleUser requestor))
          (Some (storedExample ''a'' rejected ''2024-05-01T09:00:00.000Z'')) edit exampleForm
          [] [] exampleEnv (storageWith ''a'' pending_ppc ''2024-05-01T09:00:00.000Z'')))"
proof -
  let ?s = "storageWith ''a'' delivered ''2024-05-01T09:00:00.000Z''"
  let ?q = "storedExample ''a'' pending_cmk ''2024-05-01T09:00:00.000Z''"
  let ?s' = "snd (CMKReviewModal_handleSubmit (Some (exampleUser cmk)) ?q
      decision_rejected [] [] ''Spec mismatch'' exampleEnv ?s)"
  have before: "map_option status (getRequest ''a'' ?s) = Some delivered"
    by simp
  have view_cmk: "handleViewRequest (Some (exampleUser cmk)) ?q = CMKReviewModal"
    by (simp add: handleViewRequest_def)
  have g: "decision_rejected = decision_rejected \<Longrightarrow> trim ''Spec mismatch'' \<noteq> []"
    "decision_rejected \<noteq> decision_rejected \<Longrightarrow> ([]::string) \<noteq> []"
    by (simp_all add: trim_examples)
  from CMK_success [where dec = decision_rejected, OF g, where u = "exampleUser cmk"
      and r = ?q and q = "[]" and e = exampleEnv and s = ?s]
  obtain t where h: "CMKReviewModal_handleSubmit (Some (exampleUser cmk)) ?q
      decision_rejected [] [] ''Spec mismatch'' exampleEnv ?s = (Some t, ?s')"
    and v: "variant t = default_variant"
    by blast
  from arg_cong [OF h, of fst] v
  have toast: "map_option variant (fst (CMKReviewModal_handleSubmit
      (Some (exampleUser cmk)) ?q decision_rejected [] [] ''Spec mismatch'' exampleEnv ?s))
      = Some default_variant"
    by simp
  have after: "map_option status (getRequest ''a'' ?s') = Some rejected"
    using CMKReviewModal_read [where dec = decision_rejected, OF g, where j = "''a''"
        and request = ?q and u = "exampleUser cmk" and q = "[]" and e = exampleEnv and s = ?s]
    by (simp add: CMK_updatedRequest_def)
  have st: "getRequest (req_id ?q) ?s
      = Some (storedExample ''a'' delivered ''2024-05-01T09:00:00.000Z'')"
    by simp
  have op: "dashboard_opens (exampleUser cmk) ?q CMKReviewModal"
    by (simp add: dashboard_opens_iff)
  from transition.cmk_decide [OF st op h v]
  have t: "transition ?s ''a'' cmd_cmk_decide (Some ?q) exampleEnv
      (with_id (CMK_auditEntry (exampleUser cmk) decision_rejected [] ''Spec mismatch''
         exampleEnv) (genId exampleEnv)) ?s'"
    by simp
  let ?S = "storageWith ''a'' pending_ppc ''2024-05-01T09:00:00.000Z''"
  let ?Q = "storedExample ''a'' rejected ''2024-05-01T09:00:00.000Z''"
  let ?S' = "snd (RequestModal_handleSubmit (Some (exampleUser requestor)) (Some ?Q) edit
      exampleForm [] [] exampleEnv ?S)"
  have before_edit: "map_option status (getRequest ''a'' ?S) = Some pending_ppc"
    by simp
  have view_edit: "handleEditRequest (Some (exampleUser requestor)) ?Q
      = Some (RequestModal edit)"
    by (simp add: handleEditRequest_def)
  have rd: "req_id (requestData_of (exampleUser requestor) (Some ?Q) exampleForm [] []
        exampleEnv) = ''a''"
    "status (requestData_of (exampleUser requestor) (Some ?Q) exampleForm [] []
        exampleEnv) = rejected"
    by (simp_all add: requestData_of_def Let_def)
  have after_edit: "map_option status (getRequest ''a'' ?S') = Some rejected"
    by (simp add: RequestModal_read rd)
  have st_edit: "getRequest (req_id ?Q) ?S
      = Some (storedExample ''a'' pending_ppc ''2024-05-01T09:00:00.000Z'')"
    by simp
  have op_edit: "dashboard_opens (exampleUser requestor) ?Q (RequestModal edit)"
    by (simp add: dashboard_opens_iff)
  from request_success [where u = "exampleUser requestor" and request = "Some ?Q"
      and md = edit and fd = exampleForm and cc = "[]" and cp = "[]" and e = exampleEnv
      and s = ?S]
  obtain t' where h': "RequestModal_handleSubmit (Some (exampleUser requestor)) (Some ?Q) edit
      exampleForm [] [] exampleEnv ?S = (Some t', ?S')"
    and v': "variant t' = default_variant"
    by blast
  from transition.edit_request [OF st_edit op_edit h' v']
  have t_edit: "transition ?S ''a'' cmd_edit (Some ?Q) exampleEnv
      (with_id (request_auditEntry (exampleUser requestor) edit exampleEnv) (genId exampleEnv))
      ?S'"
    by simp
  from before view_cmk toast after t before_edit view_edit after_edit t_edit
  show ?thesis by (intro conjI)
qed

text \<open>
  C6, as amended. A committed stage command (CMK decide, PPC enter, place order, mark
  delivered, evaluation receive, evaluation report, stores receive, final review) appends
  exactly one audit entry at the end of the stored trail of its request, also when its
  modal was opened before the stored request changed. A create leaves a trail of its entry
  alone. An edit saves the trail of the request that its modal was opened on, followed by
  its entry: exactly one entry is appended when the modal was opened on the request as
  stored, and otherwise the entries written since the modal was opened are dropped. Every
  other request, with its trail, stays as it was. The timestamp of the entry is a reading
  of the clock taken by the handler; nothing compares it with the entries already there,
  so the trail stays ordered by timestamp exactly when the entries before the new one are
  ordered and that reading is not earlier than any of them.
\<close>

theorem transition_appends_one_entry:
  assumes "transition s i c q e a s'"
  shows "\<exists>r'. getRequest i s' = Some r'
     \<and> (c = cmd_create \<longrightarrow> getRequest i s = None \<and> auditTrail r' = [a])
     \<and> (c = cmd_edit \<longrightarrow>
          (\<exists>request. q = Some request \<and> auditTrail r' = auditTrail request @ [a]))
     \<and> (c \<noteq> cmd_create \<and> c \<noteq> cmd_edit \<longrightarrow>
          (\<exists>stored. getRequest i s = Some stored \<and> auditTrail r' = auditTrail stored @ [a]))
     \<and> (q = getRequest i s \<longrightarrow>
          auditTrail r'
            = (case getRequest i s of Some stored \<Rightarrow> auditTrail stored | None \<Rightarrow> []) @ [a])
     \<and> (\<forall>j. j \<noteq> i \<longrightarrow> getRequest j s' = getRequest j s)
     \<and> timestamp a \<in> {now e 0, now e 1, now e 2}
     \<and> last (auditTrail r') = a
     \<and> (sorted (map timestamp (auditTrail r')) \<longleftrightarrow>
          sorted (map timestamp (butlast (auditTrail r')))
          \<and> (\<forall>x\<in>set (butlast (auditTrail r')). timestamp x \<le> timestamp a))"
proof -
  from transition_effect [OF assms]
  obtain r' where r': "getRequest i s' = Some r'"
    and trail: "auditTrail r' =
      (if c = cmd_edit then (case q of Some request \<Rightarrow> auditTrail request | None \<Rightarrow> [])
       else (case getRequest i s of Some stored \<Rightarrow> auditTrail stored | None \<Rightarrow> [])) @ [a]"
    and others: "\<forall>j. j \<noteq> i \<longrightarrow> getRequest j s' = getRequest j s"
    and ts: "timestamp a \<in> {now e 0, now e 1, now e 2}"
    and shape: "if c = cmd_create then q = None \<and> getRequest i s = None
        else \<exists>request stored. q = Some request \<and> req_id request = i
               \<and> getRequest i s = Some stored"
    by blast
  from trail obtain old where old: "auditTrail r' = old @ [a]"
    by blast
  have created: "c = cmd_create \<longrightarrow> getRequest i s = None \<and> auditTrail r' = [a]"
    using shape trail by auto
  have edited: "c = cmd_edit \<longrightarrow>
      (\<exists>request. q = Some request \<and> auditTrail r' = auditTrail request @ [a])"
    using shape trail by auto
  have staged: "c \<noteq> cmd_create \<and> c \<noteq> cmd_edit \<longrightarrow>
      (\<exists>stored. getRequest i s = Some stored \<and> auditTrail r' = auditTrail stored @ [a])"
    using shape trail by auto
  have as_stored: "q = getRequest i s \<longrightarrow>
      auditTrail r'
        = (case getRequest i s of Some stored \<Rightarrow> auditTrail stored | None \<Rightarrow> []) @ [a]"
    using shape trail by (auto split: if_splits)
  have lst: "last (auditTrail r') = a"
    using old by simp
  have ordered: "sorted (map timestamp (auditTrail r')) \<longleftrightarrow>
      sorted (map timestamp (butlast (auditTrail r')))
      \<and> (\<forall>x\<in>set (butlast (auditTrail r')). timestamp x \<le> timestamp a)"
    using old by (auto simp: sorted_append)
  from r' created edited staged as_stored others ts lst ordered show ?thesis
    by (intro exI [of _ r'] conjI)
qed

theorem transition_appends_one_entry_witness:
  "transition (storageWith ''a'' ordered ''2024-05-01T09:00:00.000Z'') ''a'' cmd_ppc_enter
     (Some (storedExample ''a'' pending_ppc ''2024-05-01T09:00:00.000Z'')) exampleEnv
     (with_id (PPC_auditEntry (exampleUser ppc) ''PR1'' ''M1'' exampleEnv) (genId exampleEnv))
     (snd (PPCModal_handleSubmit (Some (exampleUser ppc))
        (storedExample ''a'' pending_ppc ''2024-05-01T09:00:00.000Z'') ''PR1'' ''M1'' ''d''
        exampleEnv (storageWith ''a'' ordered ''2024-05-01T09:00:00.000Z'')))
   \<and> map_option auditTrail (getRequest ''a''
        (storageWith ''a'' ordered ''2024-05-01T09:00:00.000Z''))
       = Some [exampleEntry ''2024-05-01T09:00:00.000Z'']
   \<and> map_option auditTrail (getRequest ''a''
        (snd (PPCModal_handleSubmit (Some (exampleUser ppc))
          (storedExample ''a'' pending_ppc ''2024-05-01T09:00:00.000Z'') ''PR1'' ''M1'' ''d''
          exampleEnv (storageWith ''a'' ordered ''2024-05-01T09:00:00.000Z''))))
       = Some [exampleEntry ''2024-05-01T09:00:00.000Z'',
               with_id (PPC_auditEntry (exampleUser ppc) ''PR1'' ''M1'' exampleEnv)
                 (genId exampleEnv)]
   \<and> sorted [''2024-05-01T09:00:00.000Z'', ''2024-05-02T10:00:00.000Z'']"
proof -
  let ?s = "storageWith ''a'' ordered ''2024-05-01T09:00:00.000Z''"
  let ?q = "storedExample ''a'' pending_ppc ''2024-05-01T09:00:00.000Z''"
  let ?s' = "snd (PPCModal_handleSubmit (Some (exampleUser ppc)) ?q ''PR1'' ''M1'' ''d''
      exampleEnv ?s)"
  let ?a = "with_id (PPC_auditEntry (exampleUser ppc) ''PR1'' ''M1'' exampleEnv)
      (genId exampleEnv)"
  have st: "getRequest (req_id ?q) ?s
      = Some (storedExample ''a'' ordered ''2024-05-01T09:00:00.000Z'')"
    by simp
  have op: "dashboard_opens (exampleUser ppc) ?q PPCModal"
    by (simp add: dashboard_opens_iff)
  have g: "trim ''PR1'' \<noteq> []" "trim ''M1'' \<noteq> []" "trim ''d'' \<noteq> []"
    by (simp_all add: trim_examples)
  from PPC_success [OF g, where u = "exampleUser ppc" and r = ?q and e = exampleEnv
      and s = ?s]
  obtain t where h: "PPCModal_handleSubmit (Some (exampleUser ppc)) ?q ''PR1'' ''M1'' ''d''
      exampleEnv ?s = (Some t, ?s')"
    and v: "variant t = default_variant"
    by blast
  from transition.ppc_enter [OF st op h v]
  have t: "transition ?s ''a'' cmd_ppc_enter (Some ?q) exampleEnv ?a ?s'"
    by simp
  have before: "map_option auditTrail (getRequest ''a'' ?s)
      = Some [exampleEntry ''2024-05-01T09:00:00.000Z'']"
    by simp
  from transition_appends_one_entry [OF t]
  have "map_option auditTrail (getRequest ''a'' ?s')
      = Some [exampleEntry ''2024-05-01T09:00:00.000Z'', ?a]"
    by auto
  moreover have "sorted [''2024-05-01T09:00:00.000Z'', ''2024-05-02T10:00:00.000Z'']"
    by simp
  ultimately show ?thesis using t before by (intro conjI)
qed

text \<open>
  Two runs. In the first, a requestor opens the edit modal on a request shown at
  \<open>pending_cmk\<close> with its creation entry; CMK then approves the request, which adds a
  second entry; the edit is submitted afterwards: it is committed, and the stored trail
  is the creation entry followed by the entry of the edit, so the entry of the approval is
  gone and the status is back at \<open>pending_cmk\<close>. In the second, the clock reads 2 May
  when PPC data is entered for a request whose creation entry is stamped 3 May: the entry
  appended is stamped earlier than the entry before it.
\<close>

theorem stale_edit_drops_entry_and_timestamp_goes_back:
  "map_option auditTrail (getRequest ''a''
        \<lparr>materialRequests = [approvedExample ''a'' ''2024-05-01T09:00:00.000Z''
            ''2024-05-01T12:00:00.000Z''], appSettings = None\<rparr>)
       = Some [exampleEntry ''2024-05-01T09:00:00.000Z'',
               exampleDecisionEntry ''2024-05-01T12:00:00.000Z'']
   \<and> transition
        \<lparr>materialRequests = [approvedExample ''a'' ''2024-05-01T09:00:00.000Z''
            ''2024-05-01T12:00:00.000Z''], appSettings = None\<rparr>
        ''a'' cmd_edit (Some (storedExample ''a'' pending_cmk ''2024-05-01T09:00:00.000Z''))
        exampleEnv
        (with_id (request_auditEntry (exampleUser requestor) edit exampleEnv) (genId exampleEnv))
        (snd (RequestModal_handleSubmit (Some (exampleUser requestor))
          (Some (storedExample ''a'' pending_cmk ''2024-05-01T09:00:00.000Z'')) edit exampleForm
          [] [] exampleEnv
          \<lparr>materialRequests = [approvedExample ''a'' ''2024-05-01T09:00:00.000Z''
              ''2024-05-01T12:00:00.000Z''], appSettings = None\<rparr>))
   \<and> map_option auditTrail (getRequest ''a''
        (snd (RequestModal_handleSubmit (Some (exampleUser requestor))
          (Some (storedExample ''a'' pending_cmk ''2024-05-01T09:00:00.000Z'')) edit exampleForm
          [] [] exampleEnv
          \<lparr>materialRequests = [approvedExample ''a'' ''2024-05-01T09:00:00.000Z''
              ''2024-05-01T12:00:00.000Z''], appSettings = None\<rparr>)))
       = Some [exampleEntry ''2024-05-01T09:00:00.000Z'',
               with_id (request_auditEntry (exampleUser requestor) edit exampleEnv)
                 (genId exampleEnv)]
   \<and> map_option status (getRequest ''a''
        (snd (RequestModal_handleSubmit (Some (exampleUser requestor))
          (Some (storedExample ''a'' pending_cmk ''2024-05-01T09:00:00.000Z'')) edit exampleForm
          [] [] exampleEnv
          \<lparr>materialRequests = [approvedExample ''a'' ''2024-05-01T09:00:00.000Z''
              ''2024-05-01T12:00:00.000Z''], appSettings = None\<rparr>))) = Some pending_cmk
   \<and> exampleDecisionEntry ''2024-05-01T12:00:00.000Z''
       \<noteq> with_id (request_auditEntry (exampleUser requestor) edit exampleEnv) (genId exampleEnv)
   \<and> transition (storageWith ''a'' pending_ppc ''2024-05-03T09:00:00.000Z'') ''a'' cmd_ppc_enter
        (Some (storedExample ''a'' pending_ppc ''2024-05-03T09:00:00.000Z'')) exampleEnv
        (with_id (PPC_auditEntry (exampleUser ppc) ''PR1'' ''M1'' exampleEnv) (genId exampleEnv))
        (snd (PPCModal_handleSubmit (Some (exampleUser ppc))
          (storedExample ''a'' pending_ppc ''2024-05-03T09:00:00.000Z'') ''PR1'' ''M1'' ''d''
          exampleEnv (storageWith ''a'' pending_ppc ''2024-05-03T09:00:00.000Z'')))
   \<and> map_option auditTrail (getRequest ''a''
        (snd (PPCModal_handleSubmit (Some (exampleUser ppc))
          (storedExample ''a'' pending_ppc ''2024-05-03T09:00:00.000Z'') ''PR1'' ''M1'' ''d''
          exampleEnv (storageWith ''a'' pending_ppc ''2024-05-03T09:00:00.000Z''))))
       = Some [exampleEntry ''2024-05-03T09:00:00.000Z'',
               with_id (PPC_auditEntry (exampleUser ppc) ''PR1'' ''M1'' exampleEnv)
                 (genId exampleEnv)]
   \<and> timestamp (exampleEntry ''2024-05-03T09:00:00.000Z'') = ''2024-05-03T09:00:00.000Z''
   \<and> timestamp (with_id (PPC_auditEntry (exampleUser ppc) ''PR1'' ''M1'' exampleEnv)
         (genId exampleEnv)) = ''2024-05-02T10:00:00.000Z''
   \<and> \<not> timestamp (exampleEntry ''2024-05-03T09:00:00.000Z'')
         \<le> timestamp (with_id (PPC_auditEntry (exampleUser ppc) ''PR1'' ''M1'' exampleEnv)
               (genId exampleEnv))"
proof -
  let ?S = "\<lparr>materialRequests = [approvedExample ''a'' ''2024-05-01T09:00:00.000Z''
      ''2024-05-01T12:00:00.000Z''], appSettings = None\<rparr> :: nat storage"
  let ?Q = "storedExample ''a'' pending_cmk ''2024-05-01T09:00:00.000Z''"
  let ?S' = "snd (RequestModal_handleSubmit (Some (exampleUser requestor)) (Some ?Q) edit
      exampleForm [] [] exampleEnv ?S)"
  let ?A = "with_id (request_auditEntry (exampleUser requestor) edit exampleEnv)
      (genId exampleEnv)"
  have stored: "getRequest ''a'' ?S = Some (approvedExample ''a'' ''2024-05-01T09:00:00.000Z''
      ''2024-05-01T12:00:00.000Z'')"
    by (simp add: getRequest_def getRequests_def approvedExample_def)
  then have e1: "map_option auditTrail (getRequest ''a'' ?S)
      = Some [exampleEntry ''2024-05-01T09:00:00.000Z'',
              exampleDecisionEntry ''2024-05-01T12:00:00.000Z'']"
    by (simp add: approvedExample_def)
  have st: "getRequest (req_id ?Q) ?S = Some (approvedExample ''a''
      ''2024-05-01T09:00:00.000Z'' ''2024-05-01T12:00:00.000Z'')"
    using stored by simp
  have op: "dashboard_opens (exampleUser requestor) ?Q (RequestModal edit)"
    by (simp add: dashboard_opens_iff)
  from request_success [where u = "exampleUser requestor" and request = "Some ?Q"
      and md = edit and fd = exampleForm and cc = "[]" and cp = "[]" and e = exampleEnv
      and s = ?S]
  obtain t where h: "RequestModal_handleSubmit (Some (exampleUser requestor)) (Some ?Q) edit
      exampleForm [] [] exampleEnv ?S = (Some t, ?S')"
    and v: "variant t = default_variant"
    by blast
  from transition.edit_request [OF st op h v]
  have e2: "transition ?S ''a'' cmd_edit (Some ?Q) exampleEnv ?A ?S'"
    by simp
  have rd: "req_id (requestData_of (exampleUser requestor) (Some ?Q) exampleForm [] []
        exampleEnv) = ''a''"
    "auditTrail (requestData_of (exampleUser requestor) (Some ?Q) exampleForm [] []
        exampleEnv) = [exampleEntry ''2024-05-01T09:00:00.000Z'']"
    "status (requestData_of (exampleUser requestor) (Some ?Q) exampleForm [] []
        exampleEnv) = pending_cmk"
    by (simp_all add: requestData_of_def Let_def)
  have e3: "map_option auditTrail (getRequest ''a'' ?S')
      = Some [exampleEntry ''2024-05-01T09:00:00.000Z'', ?A]"
    by (simp add: RequestModal_read rd)
  have e4: "map_option status (getRequest ''a'' ?S') = Some pending_cmk"
    by (simp add: RequestModal_read rd)
  have e5: "exampleDecisionEntry ''2024-05-01T12:00:00.000Z'' \<noteq> ?A"
    by (simp add: exampleDecisionEntry_def with_id_def exampleEnv_def)
  let ?s = "storageWith ''a'' pending_ppc ''2024-05-03T09:00:00.000Z''"
  let ?r = "storedExample ''a'' pending_ppc ''2024-05-03T09:00:00.000Z''"
  let ?s' = "snd (PPCModal_handleSubmit (Some (exampleUser ppc)) ?r ''PR1'' ''M1'' ''d''
      exampleEnv ?s)"
  let ?a = "with_id (PPC_auditEntry (exampleUser ppc) ''PR1'' ''M1'' exampleEnv)
      (genId exampleEnv)"
  have r: "getRequest ''a'' ?s = Some ?r" by simp
  have t: "transition ?s ''a'' cmd_ppc_enter (Some ?r) exampleEnv ?a ?s'"
    using r by (rule transition_ppc_enter) (simp_all add: trim_examples)
  from ppc_step [OF r, where pr = "''PR1''" and mc = "''M1''" and d = "''d''"
      and u = "exampleUser ppc" and e = exampleEnv]
  have trail: "map_option auditTrail (getRequest ''a'' ?s')
      = Some [exampleEntry ''2024-05-03T09:00:00.000Z'', ?a]"
    by (auto simp: trim_examples)
  have ts: "timestamp (exampleEntry ''2024-05-03T09:00:00.000Z'') = ''2024-05-03T09:00:00.000Z''"
    "timestamp ?a = ''2024-05-02T10:00:00.000Z''"
    by (simp_all add: exampleEntry_def with_id_def PPC_auditEntry_def exampleEnv_def)
  have "\<not> (''2024-05-03T09:00:00.000Z'' :: string) \<le> ''2024-05-02T10:00:00.000Z''"
    by simp
  with ts have earlier: "\<not> timestamp (exampleEntry ''2024-05-03T09:00:00.000Z'') \<le> timestamp ?a"
    by simp
  from e1 e2 e3 e4 e5 t trail ts earlier show ?thesis by (intro conjI)
qed

end
